theory Spec2Isabelle
  imports Complex_Main "HOL-Library.Word" "HOL-Library.AList" "HOL-Library.Signed_Division"
begin

section \<open>Numbers and geometry\<close>

text \<open>
  The source computes with \<^verbatim>\<open>float\<close> (\<^verbatim>\<open>vec2\<close>, \<^verbatim>\<open>Rectf\<close>) and with machine integers
  (\<^verbatim>\<open>ivec2\<close>, \<^verbatim>\<open>Area\<close>, \<^verbatim>\<open>FT_Pos\<close>, \<^verbatim>\<open>size_t\<close>, \<^verbatim>\<open>uint32_t\<close>).
  A \<^verbatim>\<open>float\<close> is an IEEE 754 binary32 value (\<open>f32\<close>): a finite value, an infinity or a
  NaN, and every float operation rounds its exact result to the nearest binary32 value, ties
  to even (\<open>round32\<close>). Each operation of the source is rounded on its own (no fused
  multiply-add, no excess precision). The two zeros are not told apart: only a division by
  zero could tell them apart, and the source divides by the constants 64 and 32 and by an
  extent that is not zero once the clipping test has let the glyph pass. The type \<open>f32\<close>
  holds every real under \<open>Fin\<close>; the operations return binary32 values, and what is
  proved for every \<open>f32\<close> holds for the binary32 values among them.

  Glyph indices, code points and the index counter of a draw call are 32-bit words,
  \<^verbatim>\<open>size_t\<close> counters are 64-bit words. The signed integers whose overflow can be reached
  by adding up advances (the \<^verbatim>\<open>FT_Pos\<close> pen, the \<^verbatim>\<open>int\<close> width of a line, the
  \<^verbatim>\<open>ivec2\<close> advance of a glyph) are mathematical integers with the two's-complement
  wrap-around written out (\<open>wrap_signed\<close>); \<^verbatim>\<open>FT_Pos\<close> is the 64-bit \<^verbatim>\<open>signed long\<close>
  of an LP64 platform. Pixel coordinates inside a texture page are mathematical integers.
  The \<^verbatim>\<open>double\<close> bounds of an outline are reals.
\<close>

subsection \<open>Binary32 arithmetic\<close>

datatype f32 = Fin real | PInf | NInf | NaN

text \<open>Rounding of a real to the nearest integer, ties to the even one.\<close>

definition round_even :: "real \<Rightarrow> int" where
  "round_even q =
     (let f = \<lfloor>q\<rfloor>; d = q - real_of_int f
      in if d < 1 / 2 then f else if 1 / 2 < d then f + 1 else if even f then f else f + 1)"

text \<open>
  The binary exponent of a non-zero real, between \<open>-126\<close> (where the subnormal numbers
  start) and 127: \<open>find_exponent n x\<close> tries the exponents \<open>n - 126\<close> down to \<open>-125\<close>.
\<close>

fun find_exponent :: "nat \<Rightarrow> real \<Rightarrow> int" where
  "find_exponent 0 x = - 126"
| "find_exponent (Suc n) x =
     (if 2 powi (int n - 125) \<le> \<bar>x\<bar> then int n - 125 else find_exponent n x)"

definition exponent32 :: "real \<Rightarrow> int" where
  "exponent32 x = find_exponent 253 x"

text \<open>
  Rounding to binary32: the significand has 24 bits, so the spacing of the values around
  \<open>x\<close> is \<open>2 ^ (exponent - 23)\<close>; a result of magnitude \<open>2 ^ 128\<close> is an infinity.
\<close>

definition round32 :: "real \<Rightarrow> f32" where
  "round32 x =
     (if x = 0 then Fin 0
      else
        (let u = 2 powi (exponent32 x - 23);
             r = real_of_int (round_even (x / u)) * u
         in if 2 powi 128 \<le> \<bar>r\<bar> then (if 0 < x then PInf else NInf) else Fin r))"

definition finf :: "bool \<Rightarrow> f32" where
  "finf negative = (if negative then NInf else PInf)"

fun fneg :: "f32 \<Rightarrow> f32" where
  "fneg (Fin a) = Fin (- a)"
| "fneg PInf = NInf"
| "fneg NInf = PInf"
| "fneg NaN = NaN"

fun fadd :: "f32 \<Rightarrow> f32 \<Rightarrow> f32" where
  "fadd (Fin a) (Fin b) = round32 (a + b)"
| "fadd NaN y = NaN"
| "fadd x NaN = NaN"
| "fadd PInf NInf = NaN"
| "fadd NInf PInf = NaN"
| "fadd PInf y = PInf"
| "fadd NInf y = NInf"
| "fadd x PInf = PInf"
| "fadd x NInf = NInf"

definition fsub :: "f32 \<Rightarrow> f32 \<Rightarrow> f32" where
  "fsub x y = fadd x (fneg y)"

fun fmul :: "f32 \<Rightarrow> f32 \<Rightarrow> f32" where
  "fmul (Fin a) (Fin b) = round32 (a * b)"
| "fmul NaN y = NaN"
| "fmul x NaN = NaN"
| "fmul (Fin a) PInf = (if a = 0 then NaN else finf (a < 0))"
| "fmul (Fin a) NInf = (if a = 0 then NaN else finf (0 < a))"
| "fmul PInf (Fin b) = (if b = 0 then NaN else finf (b < 0))"
| "fmul NInf (Fin b) = (if b = 0 then NaN else finf (0 < b))"
| "fmul PInf PInf = PInf"
| "fmul NInf NInf = PInf"
| "fmul PInf NInf = NInf"
| "fmul NInf PInf = NInf"

fun fdiv :: "f32 \<Rightarrow> f32 \<Rightarrow> f32" where
  "fdiv (Fin a) (Fin b) =
     (if b = 0 then (if a = 0 then NaN else finf (a < 0)) else round32 (a / b))"
| "fdiv NaN y = NaN"
| "fdiv x NaN = NaN"
| "fdiv (Fin a) PInf = Fin 0"
| "fdiv (Fin a) NInf = Fin 0"
| "fdiv PInf (Fin b) = finf (b < 0)"
| "fdiv NInf (Fin b) = finf (0 \<le> b)"
| "fdiv PInf y = NaN"
| "fdiv NInf y = NaN"

fun ffloor :: "f32 \<Rightarrow> f32" where
  "ffloor (Fin a) = Fin (real_of_int \<lfloor>a\<rfloor>)"
| "ffloor x = x"

fun fabs :: "f32 \<Rightarrow> f32" where
  "fabs (Fin a) = Fin \<bar>a\<bar>"
| "fabs NaN = NaN"
| "fabs x = PInf"

text \<open>The comparisons \<^verbatim>\<open><\<close> and \<^verbatim>\<open><=\<close>; a comparison with a NaN is false.\<close>

fun flt :: "f32 \<Rightarrow> f32 \<Rightarrow> bool" where
  "flt (Fin a) (Fin b) = (a < b)"
| "flt NaN y = False"
| "flt x NaN = False"
| "flt x NInf = False"
| "flt PInf y = False"
| "flt NInf y = True"
| "flt x PInf = True"

definition fle :: "f32 \<Rightarrow> f32 \<Rightarrow> bool" where
  "fle x y \<longleftrightarrow> flt x y \<or> (x = y \<and> x \<noteq> NaN)"

text \<open>\<^verbatim>\<open>std::max( a, b )\<close> is \<^verbatim>\<open>(a < b) ? b : a\<close>, \<^verbatim>\<open>std::min( a, b )\<close> is \<^verbatim>\<open>(b < a) ? b : a\<close>.\<close>

definition std_max :: "f32 \<Rightarrow> f32 \<Rightarrow> f32" where
  "std_max a b = (if flt a b then b else a)"

definition std_min :: "f32 \<Rightarrow> f32 \<Rightarrow> f32" where
  "std_min a b = (if flt b a then b else a)"

text \<open>
  Conversions. An integer or a \<^verbatim>\<open>double\<close> becomes the nearest float. A float becomes an
  \<^verbatim>\<open>int\<close> by truncation toward zero; the conversion is undefined when the truncated value
  is not an \<^verbatim>\<open>int\<close>, and the model returns \<open>None\<close> there.
\<close>

definition f32_of_int :: "int \<Rightarrow> f32" where
  "f32_of_int n = round32 (real_of_int n)"

fun f32_to_int :: "f32 \<Rightarrow> int option" where
  "f32_to_int (Fin a) =
     (let t = (if 0 \<le> a then \<lfloor>a\<rfloor> else \<lceil>a\<rceil>)
      in if - (2 ^ 31) \<le> t \<and> t < 2 ^ 31 then Some t else None)"
| "f32_to_int x = None"

subsection \<open>Vectors and rectangles\<close>

type_synonym vec2 = "f32 \<times> f32"
type_synonym ivec2 = "int \<times> int"
type_synonym Glyph = "32 word"
type_synonym codepoint = "32 word"

definition wrap_signed :: "nat \<Rightarrow> int \<Rightarrow> int" where
  "wrap_signed w v = (v + 2 ^ (w - 1)) mod 2 ^ w - 2 ^ (w - 1)"

definition ivec2_of_vec2 :: "vec2 \<Rightarrow> ivec2 option" where
  "ivec2_of_vec2 v =
     (case (f32_to_int (fst v), f32_to_int (snd v)) of
        (Some a, Some b) \<Rightarrow> Some (a, b)
      | _ \<Rightarrow> None)"

definition vec2_of_ivec2 :: "ivec2 \<Rightarrow> vec2" where
  "vec2_of_ivec2 v = (f32_of_int (fst v), f32_of_int (snd v))"

text \<open>\<^verbatim>\<open>Area\<close>: an integer rectangle. Its constructor orders the two corners.\<close>

record Area =
  a_x1 :: int
  a_y1 :: int
  a_x2 :: int
  a_y2 :: int

definition Area_make :: "int \<Rightarrow> int \<Rightarrow> int \<Rightarrow> int \<Rightarrow> Area" where
  "Area_make ax1 ay1 ax2 ay2 =
     \<lparr> a_x1 = min ax1 ax2, a_y1 = min ay1 ay2, a_x2 = max ax1 ax2, a_y2 = max ay1 ay2 \<rparr>"

definition Area_offset :: "Area \<Rightarrow> ivec2 \<Rightarrow> Area" where
  "Area_offset a off =
     \<lparr> a_x1 = a_x1 a + fst off, a_y1 = a_y1 a + snd off,
       a_x2 = a_x2 a + fst off, a_y2 = a_y2 a + snd off \<rparr>"

text \<open>\<^verbatim>\<open>Rectf\<close>: a float rectangle, with the operations the draw code applies to it.\<close>

record Rectf =
  r_x1 :: f32
  r_y1 :: f32
  r_x2 :: f32
  r_y2 :: f32

definition Rectf_of_Area :: "Area \<Rightarrow> Rectf" where
  "Rectf_of_Area a =
     \<lparr> r_x1 = f32_of_int (a_x1 a), r_y1 = f32_of_int (a_y1 a),
       r_x2 = f32_of_int (a_x2 a), r_y2 = f32_of_int (a_y2 a) \<rparr>"

definition Rectf_scale :: "Rectf \<Rightarrow> f32 \<Rightarrow> Rectf" where
  "Rectf_scale r s =
     \<lparr> r_x1 = fmul (r_x1 r) s, r_y1 = fmul (r_y1 r) s,
       r_x2 = fmul (r_x2 r) s, r_y2 = fmul (r_y2 r) s \<rparr>"

definition Rectf_add :: "Rectf \<Rightarrow> vec2 \<Rightarrow> Rectf" where
  "Rectf_add r v =
     \<lparr> r_x1 = fadd (r_x1 r) (fst v), r_y1 = fadd (r_y1 r) (snd v),
       r_x2 = fadd (r_x2 r) (fst v), r_y2 = fadd (r_y2 r) (snd v) \<rparr>"

definition Rectf_sub :: "Rectf \<Rightarrow> vec2 \<Rightarrow> Rectf" where
  "Rectf_sub r v =
     \<lparr> r_x1 = fsub (r_x1 r) (fst v), r_y1 = fsub (r_y1 r) (snd v),
       r_x2 = fsub (r_x2 r) (fst v), r_y2 = fsub (r_y2 r) (snd v) \<rparr>"

definition getUpperLeft :: "Rectf \<Rightarrow> vec2" where
  "getUpperLeft r = (r_x1 r, r_y1 r)"

definition getWidth :: "Rectf \<Rightarrow> f32" where
  "getWidth r = fsub (r_x2 r) (r_x1 r)"

definition getHeight :: "Rectf \<Rightarrow> f32" where
  "getHeight r = fsub (r_y2 r) (r_y1 r)"

text \<open>A vector times a float, a float times a vector, and the sum and product of vectors.\<close>

definition vec2_scale :: "vec2 \<Rightarrow> f32 \<Rightarrow> vec2" where
  "vec2_scale v s = (fmul (fst v) s, fmul (snd v) s)"

definition scale_vec2 :: "f32 \<Rightarrow> vec2 \<Rightarrow> vec2" where
  "scale_vec2 s v = (fmul s (fst v), fmul s (snd v))"

definition vec2_add :: "vec2 \<Rightarrow> vec2 \<Rightarrow> vec2" where
  "vec2_add v w = (fadd (fst v) (fst w), fadd (snd v) (snd w))"

definition vec2_mul :: "vec2 \<Rightarrow> vec2 \<Rightarrow> vec2" where
  "vec2_mul v w = (fmul (fst v) (fst w), fmul (snd v) (snd w))"

section \<open>The texture atlas\<close>

subsection \<open>Bitmap size\<close>

text \<open>
  \<^verbatim>\<open>ivec2( ( sdfScale * ( maxGlyphSize + ( 2.0f * vec2( sdfPadding ) ) ) ) + vec2( 0.5f ) )\<close>
  (lines 329 to 333); \<open>None\<close> where the conversion to \<^verbatim>\<open>ivec2\<close> is undefined.
\<close>

definition calculateSdfBitmapSize :: "vec2 \<Rightarrow> ivec2 \<Rightarrow> vec2 \<Rightarrow> ivec2 option" where
  "calculateSdfBitmapSize sdfScale sdfPadding maxGlyphSize =
     ivec2_of_vec2
       (vec2_add
          (vec2_mul sdfScale
             (vec2_add maxGlyphSize (scale_vec2 (Fin 2) (vec2_of_ivec2 sdfPadding))))
          (Fin (1 / 2), Fin (1 / 2)))"

subsection \<open>Fonts, formats and the atlas record\<close>

text \<open>
  The FreeType face and the distance-field generator are outside the repository. A face is
  modelled by what the code reads from it: the two names, the three vertical metrics, the
  character-to-glyph lookup \<^verbatim>\<open>FT_Get_Char_Index\<close>, the outline bounds
  (\<^verbatim>\<open>msdfgen::loadGlyph\<close> followed by \<^verbatim>\<open>shape.bounds( l, b, r, t )\<close>; \<open>None\<close> when the
  outline does not load), and the advance that \<^verbatim>\<open>FT_Load_Glyph\<close> leaves in the glyph slot.
\<close>

datatype error = DivisionByZero | NullFace | AssertionFailed | UndefinedConversion

record FT_Face =
  family_name :: string
  style_name :: string
  ascender :: int
  descender :: int
  height :: int
  FT_Get_Char_Index :: "codepoint \<Rightarrow> Glyph"
  glyph_bounds :: "Glyph \<Rightarrow> (real \<times> real \<times> real \<times> real) option"
  glyph_advance :: "Glyph \<Rightarrow> int \<times> int"

record Format =
  textureWidth :: int
  textureHeight :: int
  sdfScale :: vec2
  sdfPadding :: vec2

record Texture =
  tex_width :: int
  tex_height :: int

record GlyphInfo =
  mTextureIndex :: "32 word"
  mTexCoords :: Area
  mOriginOffset :: vec2

text \<open>The value-initialised entry that \<^verbatim>\<open>mGlyphMap[glyphIndex]\<close> inserts for a new key.\<close>

definition GlyphInfo_default :: GlyphInfo where
  "GlyphInfo_default =
     \<lparr> mTextureIndex = 0, mTexCoords = \<lparr> a_x1 = 0, a_y1 = 0, a_x2 = 0, a_y2 = 0 \<rparr>,
       mOriginOffset = (Fin 0, Fin 0) \<rparr>"

text \<open>
  \<^verbatim>\<open>mCharMap\<close> is an association list, since \<^verbatim>\<open>cacheGlyphMetrics\<close> iterates over it;
  \<^verbatim>\<open>mGlyphMap\<close> is only searched and updated by key. The pixel contents of a texture page are
  not modelled, only its size.
\<close>

record TextureAtlas =
  mTextures :: "Texture list"
  mCharMap :: "(codepoint \<times> Glyph) list"
  mGlyphMap :: "Glyph \<rightharpoonup> GlyphInfo"
  mSdfScale :: vec2
  mSdfPadding :: vec2
  mSdfBitmapSize :: ivec2
  mMaxGlyphSize :: vec2
  mMaxAscent :: f32
  mMaxDescent :: f32

definition TextureAtlas_init :: "Format \<Rightarrow> TextureAtlas" where
  "TextureAtlas_init format =
     \<lparr> mTextures = [], mCharMap = [], mGlyphMap = Map.empty,
       mSdfScale = sdfScale format, mSdfPadding = sdfPadding format,
       mSdfBitmapSize = (0, 0), mMaxGlyphSize = (Fin 0, Fin 0), mMaxAscent = Fin 0,
       mMaxDescent = Fin 0 \<rparr>"

subsection \<open>The constructor, first pass: maps and maxima\<close>

text \<open>
  The code points of the character string, with a space appended when the UTF-8 string
  holds none. The decoder \<^verbatim>\<open>ci::toUtf32\<close> is a parameter.
\<close>

definition utf32_with_space :: "(string \<Rightarrow> codepoint list) \<Rightarrow> string \<Rightarrow> codepoint list" where
  "utf32_with_space toUtf32 utf8Chars =
     (if CHR '' '' \<in> set utf8Chars then toUtf32 utf8Chars
      else toUtf32 utf8Chars @ toUtf32 '' '')"

text \<open>
  One iteration of the loop over the code points (lines 184 to 208). The state is the
  \<^verbatim>\<open>std::set\<close> of glyph indices, kept as an ascending list without repetition, and the
  atlas under construction. The \<^verbatim>\<open>double\<close> bounds become floats when the \<^verbatim>\<open>Rectf\<close> and the
  \<^verbatim>\<open>vec2\<close> are built from them and in the two casts.
\<close>

definition first_pass_step ::
  "FT_Face \<Rightarrow> Glyph list \<times> TextureAtlas \<Rightarrow> codepoint \<Rightarrow> Glyph list \<times> TextureAtlas" where
  "first_pass_step face st ch =
     (let glyphIndex = FT_Get_Char_Index face ch;
          glyphIndices = insort_insert glyphIndex (fst st);
          a = (snd st)\<lparr> mCharMap := AList.update ch glyphIndex (mCharMap (snd st)) \<rparr>
      in case glyph_bounds face glyphIndex of
           None \<Rightarrow> (glyphIndices, a)
         | Some (l, b, r, t) \<Rightarrow>
             (let bounds = \<lparr> r_x1 = round32 l, r_y1 = round32 b, r_x2 = round32 r, r_y2 = round32 t \<rparr>;
                  info = (case mGlyphMap a glyphIndex of None \<Rightarrow> GlyphInfo_default | Some i \<Rightarrow> i);
                  maxAscent = std_max (mMaxAscent a) (round32 t)
              in (glyphIndices,
                  a\<lparr> mGlyphMap :=
                       (mGlyphMap a)(glyphIndex \<mapsto> info\<lparr> mOriginOffset := (round32 l, round32 b) \<rparr>),
                     mMaxGlyphSize := (std_max (fst (mMaxGlyphSize a)) (getWidth bounds),
                                       std_max (snd (mMaxGlyphSize a)) (getHeight bounds)),
                     mMaxAscent := maxAscent,
                     mMaxDescent := std_max maxAscent (round32 \<bar>b\<bar>) \<rparr>)))"

definition first_pass ::
  "FT_Face \<Rightarrow> TextureAtlas \<Rightarrow> codepoint list \<Rightarrow> Glyph list \<times> TextureAtlas" where
  "first_pass face a utf32Chars = foldl (first_pass_step face) ([], a) utf32Chars"

subsection \<open>The constructor, second part: the grid and the pages\<close>

text \<open>\<^verbatim>\<open>size_t\<close> is a 64-bit word: conversion from \<^verbatim>\<open>int\<close> and multiplication wrap.\<close>

type_synonym size_t = "64 word"

record RenderGlyph =
  rg_glyphIndex :: "32 word"
  rg_position :: ivec2

text \<open>
  The loop that assigns cells (lines 229 to 261), over the ascending glyph list. Its
  arguments after the list are \<^verbatim>\<open>curRenderIndex\<close>, \<^verbatim>\<open>curRenderPos\<close>, \<^verbatim>\<open>curRenderGlyphs\<close>
  and \<^verbatim>\<open>renderAtlases\<close>. The caller makes sure \<open>numGlyphColumns\<close> is not zero.
\<close>

fun build_atlases ::
  "size_t \<Rightarrow> size_t \<Rightarrow> ivec2 \<Rightarrow> Glyph list \<Rightarrow> size_t \<Rightarrow> ivec2 \<Rightarrow> RenderGlyph list
     \<Rightarrow> RenderGlyph list list \<Rightarrow> RenderGlyph list list" where
  "build_atlases numGlyphColumns numGlyphsPerAtlas bsz [] curRenderIndex curRenderPos
       curRenderGlyphs renderAtlases = renderAtlases"
| "build_atlases numGlyphColumns numGlyphsPerAtlas bsz (g # gs) curRenderIndex curRenderPos
       curRenderGlyphs renderAtlases =
     (let glyphs1 = curRenderGlyphs @ [\<lparr> rg_glyphIndex = g, rg_position = curRenderPos \<rparr>];
          index1 = curRenderIndex + 1;
          pos1 = (fst curRenderPos + fst bsz + 1, snd curRenderPos);
          pos2 = (if index1 mod numGlyphColumns = 0 then (0, snd pos1 + snd bsz + 1) else pos1)
      in if numGlyphsPerAtlas = index1 \<or> gs = []
         then build_atlases numGlyphColumns numGlyphsPerAtlas bsz gs 0 (0, 0) []
                (renderAtlases @ [glyphs1])
         else build_atlases numGlyphColumns numGlyphsPerAtlas bsz gs index1 pos2 glyphs1
                renderAtlases)"

text \<open>
  Rendering one page (lines 276 to 309): for every glyph whose outline loads, the page
  index and the cell rectangle are recorded. Copying the pixels is not modelled.
\<close>

definition render_glyph ::
  "FT_Face \<Rightarrow> ivec2 \<Rightarrow> 32 word \<Rightarrow> (Glyph \<rightharpoonup> GlyphInfo) \<Rightarrow> RenderGlyph
     \<Rightarrow> (Glyph \<rightharpoonup> GlyphInfo)" where
  "render_glyph face bsz currentTextureIndex gm renderGlyph =
     (case glyph_bounds face (rg_glyphIndex renderGlyph) of
        None \<Rightarrow> gm
      | Some bounds \<Rightarrow>
          (let info = (case gm (rg_glyphIndex renderGlyph) of
                         None \<Rightarrow> GlyphInfo_default | Some i \<Rightarrow> i)
           in gm(rg_glyphIndex renderGlyph \<mapsto>
                 info\<lparr> mTextureIndex := currentTextureIndex,
                       mTexCoords := Area_offset (Area_make 0 0 (fst bsz) (snd bsz))
                                       (rg_position renderGlyph) \<rparr>)))"

definition render_atlas :: "FT_Face \<Rightarrow> Format \<Rightarrow> TextureAtlas \<Rightarrow> RenderGlyph list \<Rightarrow> TextureAtlas" where
  "render_atlas face format a renderGlyphs =
     a\<lparr> mGlyphMap :=
          foldl (render_glyph face (mSdfBitmapSize a) (word_of_nat (length (mTextures a))))
            (mGlyphMap a) renderGlyphs,
        mTextures :=
          mTextures a @ [\<lparr> tex_width = textureWidth format, tex_height = textureHeight format \<rparr>] \<rparr>"

text \<open>
  The number of glyph columns and rows of a page (lines 213 and 214): an \<^verbatim>\<open>int\<close>
  division, one subtracted, converted to \<^verbatim>\<open>size_t\<close>.
\<close>

definition numGlyphColumns :: "Format \<Rightarrow> ivec2 \<Rightarrow> size_t" where
  "numGlyphColumns format bsz = word_of_int (textureWidth format sdiv fst bsz - 1)"

definition numGlyphRows :: "Format \<Rightarrow> ivec2 \<Rightarrow> size_t" where
  "numGlyphRows format bsz = word_of_int (textureHeight format sdiv snd bsz - 1)"

text \<open>
  The whole constructor. The padding, a \<^verbatim>\<open>vec2\<close>, is handed to a parameter of type
  \<^verbatim>\<open>ivec2\<close>; where that conversion or the one inside \<^verbatim>\<open>calculateSdfBitmapSize\<close> is
  undefined the model returns \<open>UndefinedConversion\<close>. The two integer divisions by a
  component of the bitmap size and the remainder by the number of columns are undefined for
  a zero divisor; the model returns \<open>DivisionByZero\<close> there (the glyph set is never empty:
  it holds the space).
\<close>

definition TextureAtlas_ctor ::
  "(string \<Rightarrow> codepoint list) \<Rightarrow> FT_Face \<Rightarrow> Format \<Rightarrow> string \<Rightarrow> error + TextureAtlas" where
  "TextureAtlas_ctor toUtf32 face format utf8Chars =
     (let (glyphIndices, a1) =
            first_pass face (TextureAtlas_init format) (utf32_with_space toUtf32 utf8Chars)
      in case Option.bind (ivec2_of_vec2 (mSdfPadding a1))
                (\<lambda>padding. calculateSdfBitmapSize (mSdfScale a1) padding (mMaxGlyphSize a1)) of
           None \<Rightarrow> Inl UndefinedConversion
         | Some bsz \<Rightarrow>
             (let a2 = a1\<lparr> mSdfBitmapSize := bsz \<rparr>
              in if fst bsz = 0 \<or> snd bsz = 0 then Inl DivisionByZero
                 else
                   (let numGlyphsPerAtlas = numGlyphColumns format bsz * numGlyphRows format bsz
                    in if glyphIndices \<noteq> [] \<and> numGlyphColumns format bsz = 0
                       then Inl DivisionByZero
                       else Inr (foldl (render_atlas face format) a2
                                   (build_atlases (numGlyphColumns format bsz) numGlyphsPerAtlas
                                      bsz glyphIndices 0 (0, 0) [] [])))))"

text \<open>The decoder restricted to ASCII strings, for evaluating the model on examples.\<close>

definition ascii_toUtf32 :: "string \<Rightarrow> codepoint list" where
  "ascii_toUtf32 s = map (\<lambda>c. word_of_nat (of_char c)) s"

section \<open>The atlas cache of the manager\<close>

record CacheKey =
  mFamilyName :: string
  mStyleName :: string
  mUtf8Chars :: string
  mTextureSize :: ivec2
  key_mSdfBitmapSize :: ivec2

text \<open>\<^verbatim>\<open>CacheKey::operator==\<close>: all five fields agree.\<close>

definition CacheKey_eq :: "CacheKey \<Rightarrow> CacheKey \<Rightarrow> bool" where
  "CacheKey_eq lhs rhs \<longleftrightarrow>
     mFamilyName lhs = mFamilyName rhs \<and> mStyleName lhs = mStyleName rhs \<and>
     mUtf8Chars lhs = mUtf8Chars rhs \<and> mTextureSize lhs = mTextureSize rhs \<and>
     key_mSdfBitmapSize lhs = key_mSdfBitmapSize rhs"

text \<open>
  A \<^verbatim>\<open>TextureAtlasRef\<close> is a shared pointer to an atlas that is never modified after its
  construction. It is modelled by the identity of the object together with its contents.
  The identity of a new object is the number of atlases constructed before it, which the
  state carries as \<open>buildCount\<close>; that counter is not a field of the source's class, it
  records the calls of \<^verbatim>\<open>TextureAtlas::create\<close>.
\<close>

record TextureAtlasRef =
  ref_id :: nat
  ref_atlas :: TextureAtlas

record SdfTextManager =
  mTrackedTextureAtlases :: "(CacheKey \<times> TextureAtlasRef) list"
  buildCount :: nat

definition SdfTextManager_init :: SdfTextManager where
  "SdfTextManager_init = \<lparr> mTrackedTextureAtlases = [], buildCount = 0 \<rparr>"

definition TextureAtlas_create ::
  "(string \<Rightarrow> codepoint list) \<Rightarrow> SdfTextManager \<Rightarrow> FT_Face \<Rightarrow> Format \<Rightarrow> string
     \<Rightarrow> error + TextureAtlasRef \<times> SdfTextManager" where
  "TextureAtlas_create toUtf32 mgr face format utf8Chars =
     (case TextureAtlas_ctor toUtf32 face format utf8Chars of
        Inl e \<Rightarrow> Inl e
      | Inr a \<Rightarrow> Inr (\<lparr> ref_id = buildCount mgr, ref_atlas = a \<rparr>,
                      mgr\<lparr> buildCount := buildCount mgr + 1 \<rparr>))"

text \<open>The loop of \<^verbatim>\<open>getTextureAtlas\<close> that measures the largest glyph (lines 622 to 636).\<close>

definition maxGlyphSize_step :: "FT_Face \<Rightarrow> vec2 \<Rightarrow> codepoint \<Rightarrow> vec2" where
  "maxGlyphSize_step face maxGlyphSize ch =
     (case glyph_bounds face (FT_Get_Char_Index face ch) of
        None \<Rightarrow> maxGlyphSize
      | Some (l, b, r, t) \<Rightarrow>
          (let bounds = \<lparr> r_x1 = round32 l, r_y1 = round32 b, r_x2 = round32 r, r_y2 = round32 t \<rparr>
           in (std_max (fst maxGlyphSize) (getWidth bounds),
               std_max (snd maxGlyphSize) (getHeight bounds))))"

text \<open>The key of a request (lines 638 to 643); \<open>None\<close> where a conversion is undefined.\<close>

definition make_CacheKey ::
  "(string \<Rightarrow> codepoint list) \<Rightarrow> FT_Face \<Rightarrow> Format \<Rightarrow> string \<Rightarrow> CacheKey option" where
  "make_CacheKey toUtf32 face format utf8Chars =
     map_option
       (\<lambda>bsz. \<lparr> mFamilyName = family_name face, mStyleName = style_name face,
                 mUtf8Chars = utf8Chars,
                 mTextureSize = (textureWidth format, textureHeight format),
                 key_mSdfBitmapSize = bsz \<rparr>)
       (Option.bind (ivec2_of_vec2 (sdfPadding format))
          (\<lambda>padding. calculateSdfBitmapSize (sdfScale format) padding
                        (foldl (maxGlyphSize_step face) (Fin 0, Fin 0)
                           (utf32_with_space toUtf32 utf8Chars))))"

text \<open>
  \<^verbatim>\<open>SdfTextManager::getTextureAtlas\<close> (lines 612 to 663): a linear search for the key; the
  atlas found is returned, otherwise a new one is created and returned. The function body
  holds no statement that stores into \<^verbatim>\<open>mTrackedTextureAtlases\<close>.
\<close>

definition getTextureAtlas ::
  "(string \<Rightarrow> codepoint list) \<Rightarrow> SdfTextManager \<Rightarrow> FT_Face \<Rightarrow> Format \<Rightarrow> string
     \<Rightarrow> error + TextureAtlasRef \<times> SdfTextManager" where
  "getTextureAtlas toUtf32 mgr face format utf8Chars =
     (case make_CacheKey toUtf32 face format utf8Chars of
        None \<Rightarrow> Inl UndefinedConversion
      | Some key \<Rightarrow>
          (case List.find (\<lambda>elem. CacheKey_eq (fst elem) key) (mTrackedTextureAtlases mgr) of
             Some elem \<Rightarrow> Inr (snd elem, mgr)
           | None \<Rightarrow> TextureAtlas_create toUtf32 mgr face format utf8Chars))"

text \<open>
  The states of the manager: the initial one, and those that calls of
  \<^verbatim>\<open>getTextureAtlas\<close>, the only function that touches the list, lead to.
\<close>

inductive reachable :: "(string \<Rightarrow> codepoint list) \<Rightarrow> SdfTextManager \<Rightarrow> bool"
  for toUtf32 :: "string \<Rightarrow> codepoint list" where
  reachable_init: "reachable toUtf32 SdfTextManager_init"
| reachable_step:
    "reachable toUtf32 mgr \<Longrightarrow>
     getTextureAtlas toUtf32 mgr face format utf8Chars = Inr (r, mgr') \<Longrightarrow>
     reachable toUtf32 mgr'"

section \<open>Text layout\<close>

record GlyphMetrics =
  advance :: ivec2

type_synonym GlyphMetricsMap = "Glyph \<rightharpoonup> GlyphMetrics"

record Font =
  font_mName :: string
  font_mSize :: f32
  font_face :: "FT_Face option"

definition getAscent :: "FT_Face \<Rightarrow> f32" where
  "getAscent face = fabs (fdiv (f32_of_int (ascender face)) (Fin 64))"

definition getDescent :: "FT_Face \<Rightarrow> f32" where
  "getDescent face = fabs (fdiv (f32_of_int (descender face)) (Fin 64))"

definition getLeading :: "FT_Face \<Rightarrow> f32" where
  "getLeading face =
     fdiv (f32_of_int (height face - (\<bar>ascender face\<bar> + \<bar>descender face\<bar>))) (Fin 64)"

record DrawOptions =
  opt_scale :: f32
  opt_pixelSnap :: bool
  opt_clipHorizontal :: bool
  opt_clipVertical :: bool
  opt_leading :: f32
  opt_ligate :: bool

record SdfTextBox =
  tb_mSize :: ivec2
  tb_mText :: string
  tb_mFont :: Font
  tb_mLigate :: bool

text \<open>The value of the float constant \<^verbatim>\<open>MAX_SIZE\<close>.\<close>

definition MAX_SIZE :: real where
  "MAX_SIZE = 1000000"

text \<open>
  The loop of \<^verbatim>\<open>LineMeasure::operator()\<close> (lines 840 to 851). The pen is an
  \<^verbatim>\<open>FT_Vector\<close> of two \<^verbatim>\<open>FT_Pos\<close>, \<^verbatim>\<open>measuredWidth\<close> an \<^verbatim>\<open>int\<close>. Reading the
  metrics of a glyph that has no entry dereferences the end iterator: the model returns
  \<open>None\<close> there.
\<close>

fun LineMeasure_loop ::
  "FT_Face \<Rightarrow> GlyphMetricsMap \<Rightarrow> codepoint list \<Rightarrow> ivec2 \<Rightarrow> int \<Rightarrow> int option" where
  "LineMeasure_loop face metrics [] pen measuredWidth = Some measuredWidth"
| "LineMeasure_loop face metrics (ch # chs) pen measuredWidth =
     (case metrics (FT_Get_Char_Index face ch) of
        None \<Rightarrow> None
      | Some gm \<Rightarrow>
          (let pen_x = wrap_signed 64 (fst pen + fst (advance gm));
               pen_y = wrap_signed 64 (snd pen + snd (advance gm))
           in LineMeasure_loop face metrics chs (pen_x, pen_y)
                (wrap_signed 32 (pen_x div 2 ^ 6))))"

text \<open>
  \<^verbatim>\<open>LineMeasure::operator()\<close> (lines 831 to 855). The test \<^verbatim>\<open>mMaxWidth >= MAX_SIZE\<close>
  compares the \<^verbatim>\<open>int\<close>, converted to a float, with the float constant.
\<close>

definition LineMeasure ::
  "(string \<Rightarrow> codepoint list) \<Rightarrow> int \<Rightarrow> FT_Face \<Rightarrow> GlyphMetricsMap \<Rightarrow> string \<Rightarrow> bool option" where
  "LineMeasure toUtf32 mMaxWidth face metrics line =
     (if fle (Fin MAX_SIZE) (f32_of_int mMaxWidth) then Some True
      else map_option (\<lambda>measuredWidth. measuredWidth \<le> mMaxWidth)
             (LineMeasure_loop face metrics (toUtf32 line) (0, 0) 0))"

text \<open>
  The width that \<^verbatim>\<open>calculateLineBreaks\<close> hands to the line measure:
  \<^verbatim>\<open>( mSize.x > 0 ) ? mSize.x : MAX_SIZE\<close>, a float (the \<^verbatim>\<open>int\<close> operand is converted)
  that is converted back to the \<^verbatim>\<open>int\<close> parameter; \<open>None\<close> where that is undefined.
\<close>

definition lineMeasure_maxWidth :: "ivec2 \<Rightarrow> int option" where
  "lineMeasure_maxWidth sz =
     f32_to_int (if 0 < fst sz then f32_of_int (fst sz) else Fin MAX_SIZE)"

text \<open>
  \<^verbatim>\<open>lineBreakUtf8\<close> belongs to the host library; it is a parameter that receives the text
  and the measure and returns the lines (\<open>None\<close> when the measure it calls has failed). The
  face is the one of the box's font; the code does not expect a font without a face here,
  and the model returns \<open>None\<close> for it.
\<close>

definition calculateLineBreaks ::
  "(string \<Rightarrow> (string \<Rightarrow> bool option) \<Rightarrow> string list option) \<Rightarrow> (string \<Rightarrow> codepoint list)
     \<Rightarrow> SdfTextBox \<Rightarrow> GlyphMetricsMap \<Rightarrow> string list option" where
  "calculateLineBreaks lineBreakUtf8 toUtf32 tbox metrics =
     (case font_face (tb_mFont tbox) of
        None \<Rightarrow> None
      | Some face \<Rightarrow>
          (case lineMeasure_maxWidth (tb_mSize tbox) of
             None \<Rightarrow> None
           | Some maxWidth \<Rightarrow>
               lineBreakUtf8 (tb_mText tbox) (LineMeasure toUtf32 maxWidth face metrics)))"

text \<open>
  The inner loop of \<^verbatim>\<open>measureGlyphs\<close> (lines 892 to 904), over one line:
  \<^verbatim>\<open>xPos = (pen.x / 64.0f) + 0.5f\<close> converts the pen to a float, divides and adds.
\<close>

fun measure_line ::
  "FT_Face \<Rightarrow> GlyphMetricsMap \<Rightarrow> f32 \<Rightarrow> codepoint list \<Rightarrow> ivec2 \<Rightarrow> (Glyph \<times> vec2) list
     \<Rightarrow> (Glyph \<times> vec2) list option" where
  "measure_line face metrics curY [] pen result = Some result"
| "measure_line face metrics curY (ch # chs) pen result =
     (case metrics (FT_Get_Char_Index face ch) of
        None \<Rightarrow> None
      | Some gm \<Rightarrow>
          (let xPos = fadd (fdiv (f32_of_int (fst pen)) (Fin 64)) (Fin (1 / 2))
           in measure_line face metrics curY chs
                (wrap_signed 64 (fst pen + fst (advance gm)),
                 wrap_signed 64 (snd pen + snd (advance gm)))
                (result @ [(FT_Get_Char_Index face ch, (xPos, curY))])))"

text \<open>The outer loop (lines 888 to 907), over the lines: \<^verbatim>\<open>curY += lineHeight\<close>.\<close>

fun measure_lines ::
  "(string \<Rightarrow> codepoint list) \<Rightarrow> FT_Face \<Rightarrow> GlyphMetricsMap \<Rightarrow> f32 \<Rightarrow> string list \<Rightarrow> f32
     \<Rightarrow> (Glyph \<times> vec2) list \<Rightarrow> (Glyph \<times> vec2) list option" where
  "measure_lines toUtf32 face metrics lineHeight [] curY result = Some result"
| "measure_lines toUtf32 face metrics lineHeight (line # lines) curY result =
     (case measure_line face metrics curY (toUtf32 line) (0, 0) result of
        None \<Rightarrow> None
      | Some result' \<Rightarrow>
          measure_lines toUtf32 face metrics lineHeight lines (fadd curY lineHeight) result')"

text \<open>The line height (lines 881 to 885).\<close>

definition lineHeight_of :: "Font \<Rightarrow> FT_Face \<Rightarrow> DrawOptions \<Rightarrow> f32" where
  "lineHeight_of font face drawOptions =
     (let fontSizeScale = fdiv (font_mSize font) (Fin 32);
          ascent = getAscent face;
          descent = getDescent face;
          leading = fadd (getLeading face) (opt_leading drawOptions)
      in fmul fontSizeScale (fadd (fadd ascent descent) leading))"

definition measureGlyphs ::
  "(string \<Rightarrow> (string \<Rightarrow> bool option) \<Rightarrow> string list option) \<Rightarrow> (string \<Rightarrow> codepoint list)
     \<Rightarrow> SdfTextBox \<Rightarrow> GlyphMetricsMap \<Rightarrow> DrawOptions \<Rightarrow> (Glyph \<times> vec2) list option" where
  "measureGlyphs lineBreakUtf8 toUtf32 tbox metrics drawOptions =
     (if tb_mText tbox = [] then Some []
      else case font_face (tb_mFont tbox) of
             None \<Rightarrow> None
           | Some face \<Rightarrow>
               (case calculateLineBreaks lineBreakUtf8 toUtf32 tbox metrics of
                  None \<Rightarrow> None
                | Some mLines \<Rightarrow>
                    measure_lines toUtf32 face metrics
                      (lineHeight_of (tb_mFont tbox) face drawOptions) mLines (Fin 0) []))"

section \<open>Construction of an SdfText\<close>

text \<open>
  \<^verbatim>\<open>cacheGlyphMetrics\<close> (lines 1475 to 1486): one entry per value of the character map. The
  advance of the glyph slot, two \<^verbatim>\<open>FT_Pos\<close>, is stored as an \<^verbatim>\<open>ivec2\<close>.
\<close>

definition cacheGlyphMetrics_step :: "FT_Face \<Rightarrow> GlyphMetricsMap \<Rightarrow> codepoint \<times> Glyph \<Rightarrow> GlyphMetricsMap" where
  "cacheGlyphMetrics_step face metrics it =
     (let glyphIndex = snd it
      in metrics(glyphIndex \<mapsto>
           \<lparr> advance = (wrap_signed 32 (fst (glyph_advance face glyphIndex)),
                        wrap_signed 32 (snd (glyph_advance face glyphIndex))) \<rparr>))"

definition cacheGlyphMetrics :: "FT_Face \<Rightarrow> TextureAtlas \<Rightarrow> GlyphMetricsMap \<Rightarrow> GlyphMetricsMap" where
  "cacheGlyphMetrics face atlas metrics = foldl (cacheGlyphMetrics_step face) metrics (mCharMap atlas)"

record SdfText =
  mFont :: Font
  mFormat :: Format
  mTextureAtlases :: TextureAtlasRef
  mCachedGlyphMetrics :: GlyphMetricsMap

text \<open>The constructor (lines 1084 to 1096); a font without a face is refused.\<close>

definition SdfText_ctor ::
  "(string \<Rightarrow> codepoint list) \<Rightarrow> SdfTextManager \<Rightarrow> Font \<Rightarrow> Format \<Rightarrow> string
     \<Rightarrow> error + SdfText \<times> SdfTextManager" where
  "SdfText_ctor toUtf32 mgr font format utf8Chars =
     (case font_face font of
        None \<Rightarrow> Inl NullFace
      | Some face \<Rightarrow>
          (case getTextureAtlas toUtf32 mgr face format utf8Chars of
             Inl e \<Rightarrow> Inl e
           | Inr (atlasRef, mgr') \<Rightarrow>
               Inr (\<lparr> mFont = font, mFormat = format, mTextureAtlases = atlasRef,
                       mCachedGlyphMetrics =
                         cacheGlyphMetrics face (ref_atlas atlasRef) Map.empty \<rparr>,
                    mgr')))"

section \<open>Drawing glyphs\<close>

text \<open>
  \<^verbatim>\<open>drawGlyphs\<close> fills, for each texture page, the vectors \<^verbatim>\<open>verts\<close>, \<^verbatim>\<open>texCoords\<close>,
  \<^verbatim>\<open>vertColors\<close> and \<^verbatim>\<open>indices\<close> and issues one \<^verbatim>\<open>drawElements\<close> call with them. The
  model returns the list of these calls. The shader and the buffer objects of the rendering
  backend are not modelled; \<^verbatim>\<open>Texture::getAreaTexCoords\<close> is a parameter.
\<close>

type_synonym ColorA8u = "8 word \<times> 8 word \<times> 8 word \<times> 8 word"

record GlyphBuffers =
  verts :: "f32 list"
  texCoords :: "f32 list"
  vertColors :: "ColorA8u list"
  indices :: "32 word list"
  curIdx :: "32 word"

definition GlyphBuffers_empty :: GlyphBuffers where
  "GlyphBuffers_empty = \<lparr> verts = [], texCoords = [], vertColors = [], indices = [], curIdx = 0 \<rparr>"

record DrawBatch =
  b_texture :: nat
  b_verts :: "f32 list"
  b_texCoords :: "f32 list"
  b_vertColors :: "ColorA8u list"
  b_indices :: "32 word list"

definition batch_of :: "nat \<Rightarrow> GlyphBuffers \<Rightarrow> DrawBatch" where
  "batch_of texIdx buf =
     \<lparr> b_texture = texIdx, b_verts = verts buf, b_texCoords = texCoords buf,
       b_vertColors = vertColors buf, b_indices = indices buf \<rparr>"

text \<open>
  The end of the loop body, shared by the two overloads (lines 1185 to 1203 and 1339 to
  1363 without the texture coordinates' computation): the four corners of the destination
  and of the source rectangle, the glyph's colour four times when colours are given, and the
  six indices of the two triangles.
\<close>

definition emit_quad :: "ColorA8u list \<Rightarrow> nat \<Rightarrow> GlyphBuffers \<Rightarrow> Rectf \<Rightarrow> Rectf \<Rightarrow> GlyphBuffers" where
  "emit_quad colors i buf dest src =
     \<lparr> verts = verts buf @ [r_x2 dest, r_y1 dest, r_x1 dest, r_y1 dest,
                              r_x2 dest, r_y2 dest, r_x1 dest, r_y2 dest],
       texCoords = texCoords buf @ [r_x2 src, r_y1 src, r_x1 src, r_y1 src,
                                    r_x2 src, r_y2 src, r_x1 src, r_y2 src],
       vertColors = vertColors buf @ (if colors \<noteq> [] then replicate 4 (colors ! i) else []),
       indices = indices buf @ [curIdx buf + 0, curIdx buf + 1, curIdx buf + 2,
                                curIdx buf + 2, curIdx buf + 1, curIdx buf + 3],
       curIdx = curIdx buf + 4 \<rparr>"

definition floor_vec2 :: "vec2 \<Rightarrow> vec2" where
  "floor_vec2 v = (ffloor (fst v), ffloor (snd v))"

subsection \<open>The overload that takes a baseline\<close>

text \<open>The destination rectangle of one glyph (lines 1172 to 1183).\<close>

definition destRect_baseline ::
  "f32 \<Rightarrow> DrawOptions \<Rightarrow> TextureAtlas \<Rightarrow> vec2 \<Rightarrow> GlyphInfo \<Rightarrow> vec2 \<Rightarrow> Rectf" where
  "destRect_baseline fontSizeScale options atlas baseline glyphInfo pos =
     (let scale = opt_scale options;
          d1 = Rectf_scale (Rectf_of_Area (mTexCoords glyphInfo)) fontSizeScale;
          d2 = Rectf_sub d1 (getUpperLeft d1);
          d3 = Rectf_scale d2 scale;
          d4 = Rectf_add d3 (vec2_scale pos scale);
          d5 = Rectf_add d4
                 (fst baseline,
                  fsub (snd baseline)
                    (fmul (f32_of_int (snd (mSdfBitmapSize atlas))) fontSizeScale));
          originOffset = scale_vec2 fontSizeScale (mOriginOffset glyphInfo);
          d6 = Rectf_add d5
                 (vec2_scale (ffloor (fadd (fst originOffset) (Fin (1 / 2))),
                              ffloor (fneg (snd originOffset))) scale);
          d7 = Rectf_add d6
                 (scale_vec2 fontSizeScale
                    (fneg (fst (mSdfPadding atlas)), snd (mSdfPadding atlas)))
      in if opt_pixelSnap options
         then Rectf_sub d7 (fsub (r_x1 d7) (ffloor (r_x1 d7)), fsub (r_y1 d7) (ffloor (r_y1 d7)))
         else d7)"

text \<open>
  The body of the loop over the placements (lines 1160 to 1204); \<open>it\<close> is the position of
  the placement in the sequence together with the placement.
\<close>

definition draw_glyph_baseline ::
  "(Texture \<Rightarrow> Area \<Rightarrow> Rectf) \<Rightarrow> f32 \<Rightarrow> DrawOptions \<Rightarrow> TextureAtlas \<Rightarrow> ColorA8u list \<Rightarrow> nat
     \<Rightarrow> vec2 \<Rightarrow> GlyphBuffers \<Rightarrow> nat \<times> Glyph \<times> vec2 \<Rightarrow> GlyphBuffers" where
  "draw_glyph_baseline getAreaTexCoords fontSizeScale options atlas colors texIdx baseline buf it =
     (case mGlyphMap atlas (fst (snd it)) of
        None \<Rightarrow> buf
      | Some glyphInfo \<Rightarrow>
          if unat (mTextureIndex glyphInfo) \<noteq> texIdx then buf
          else emit_quad colors (fst it) buf
                 (destRect_baseline fontSizeScale options atlas baseline glyphInfo (snd (snd it)))
                 (getAreaTexCoords (mTextures atlas ! texIdx) (mTexCoords glyphInfo)))"

text \<open>
  The body of the loop over the pages (lines 1147 to 1250); the state is the baseline,
  floored once more on every page when pixel snapping is on, and the calls issued so far.
\<close>

definition page_step_baseline ::
  "(Texture \<Rightarrow> Area \<Rightarrow> Rectf) \<Rightarrow> f32 \<Rightarrow> DrawOptions \<Rightarrow> TextureAtlas \<Rightarrow> ColorA8u list
     \<Rightarrow> (Glyph \<times> vec2) list \<Rightarrow> vec2 \<times> DrawBatch list \<Rightarrow> nat \<Rightarrow> vec2 \<times> DrawBatch list" where
  "page_step_baseline getAreaTexCoords fontSizeScale options atlas colors glyphMeasures st texIdx =
     (let baseline = (if opt_pixelSnap options then floor_vec2 (fst st) else fst st);
          buf = foldl (draw_glyph_baseline getAreaTexCoords fontSizeScale options atlas colors
                         texIdx baseline)
                  GlyphBuffers_empty (zip [0..<length glyphMeasures] glyphMeasures)
      in if curIdx buf = 0 then (baseline, snd st)
         else (baseline, snd st @ [batch_of texIdx buf]))"

definition drawGlyphs_baseline ::
  "(Texture \<Rightarrow> Area \<Rightarrow> Rectf) \<Rightarrow> Font \<Rightarrow> TextureAtlas \<Rightarrow> (Glyph \<times> vec2) list \<Rightarrow> vec2
     \<Rightarrow> DrawOptions \<Rightarrow> ColorA8u list \<Rightarrow> error + DrawBatch list" where
  "drawGlyphs_baseline getAreaTexCoords font atlas glyphMeasures baselineIn options colors =
     (if mTextures atlas = [] then Inr []
      else if colors \<noteq> [] \<and> length glyphMeasures \<noteq> length colors then Inl AssertionFailed
      else Inr (snd (foldl (page_step_baseline getAreaTexCoords (fdiv (font_mSize font) (Fin 32)) options
                              atlas colors glyphMeasures)
                       (baselineIn, []) [0..<length (mTextures atlas)])))"

subsection \<open>The overload that takes a clip rectangle and an offset\<close>

text \<open>The destination rectangle of one glyph (lines 1311 to 1322).\<close>

definition destRect_clip ::
  "f32 \<Rightarrow> DrawOptions \<Rightarrow> TextureAtlas \<Rightarrow> vec2 \<Rightarrow> GlyphInfo \<Rightarrow> vec2 \<Rightarrow> Rectf" where
  "destRect_clip fontSizeScale options atlas offset glyphInfo pos =
     (let scale = opt_scale options;
          d1 = Rectf_scale (Rectf_of_Area (mTexCoords glyphInfo)) fontSizeScale;
          d2 = Rectf_sub d1 (getUpperLeft d1);
          d3 = Rectf_scale d2 scale;
          d4 = Rectf_add d3 (vec2_scale pos scale);
          d5 = Rectf_add d4 (fst offset, snd offset);
          originOffset = scale_vec2 fontSizeScale (mOriginOffset glyphInfo);
          d6 = Rectf_add d5
                 (vec2_scale (ffloor (fadd (fst originOffset) (Fin (1 / 2))),
                              ffloor (fneg (snd originOffset))) scale);
          d7 = Rectf_add d6
                 (scale_vec2 fontSizeScale
                    (fneg (fst (mSdfPadding atlas)), fneg (snd (mSdfPadding atlas))))
      in if opt_pixelSnap options
         then Rectf_sub d7 (fsub (r_x1 d7) (ffloor (r_x1 d7)), fsub (r_y1 d7) (ffloor (r_y1 d7)))
         else d7)"

text \<open>
  Clipping (lines 1324 to 1348): the clipped destination rectangle and the texture
  coordinates derived for it, or \<open>None\<close> when the glyph is dropped. The test
  \<^verbatim>\<open>clipped.x1 >= clipped.x2\<close> is \<open>fle (r_x2 clipped) (r_x1 clipped)\<close>.
\<close>

definition clip_glyph :: "DrawOptions \<Rightarrow> Rectf \<Rightarrow> Rectf \<Rightarrow> Rectf \<Rightarrow> (Rectf \<times> Rectf) option" where
  "clip_glyph options clip destRect srcTexCoords =
     (let clipped0 = destRect;
          clipped1 = (if opt_clipHorizontal options
                      then clipped0\<lparr> r_x1 := std_max (r_x1 destRect) (r_x1 clip),
                                     r_x2 := std_min (r_x2 destRect) (r_x2 clip) \<rparr>
                      else clipped0);
          clipped = (if opt_clipVertical options
                     then clipped1\<lparr> r_y1 := std_max (r_y1 destRect) (r_y1 clip),
                                    r_y2 := std_min (r_y2 destRect) (r_y2 clip) \<rparr>
                     else clipped1)
      in if fle (r_x2 clipped) (r_x1 clipped) \<or> fle (r_y2 clipped) (r_y1 clipped) then None
         else
           (let coordScale = (fdiv (getWidth srcTexCoords) (getWidth destRect),
                              fdiv (getHeight srcTexCoords) (getHeight destRect));
                sx1 = fadd (r_x1 srcTexCoords)
                        (fmul (fsub (r_x1 clipped) (r_x1 destRect)) (fst coordScale));
                sx2 = fadd sx1 (fmul (fsub (r_x2 clipped) (r_x1 clipped)) (fst coordScale));
                sy1 = fadd (r_y1 srcTexCoords)
                        (fmul (fsub (r_y1 clipped) (r_y1 destRect)) (snd coordScale));
                sy2 = fadd sy1 (fmul (fsub (r_y2 clipped) (r_y1 clipped)) (snd coordScale))
            in Some (clipped, \<lparr> r_x1 = sx1, r_y1 = sy1, r_x2 = sx2, r_y2 = sy2 \<rparr>)))"

definition draw_glyph_clip ::
  "(Texture \<Rightarrow> Area \<Rightarrow> Rectf) \<Rightarrow> f32 \<Rightarrow> DrawOptions \<Rightarrow> TextureAtlas \<Rightarrow> ColorA8u list \<Rightarrow> Rectf
     \<Rightarrow> nat \<Rightarrow> vec2 \<Rightarrow> GlyphBuffers \<Rightarrow> nat \<times> Glyph \<times> vec2 \<Rightarrow> GlyphBuffers" where
  "draw_glyph_clip getAreaTexCoords fontSizeScale options atlas colors clip texIdx offset buf it =
     (case mGlyphMap atlas (fst (snd it)) of
        None \<Rightarrow> buf
      | Some glyphInfo \<Rightarrow>
          if unat (mTextureIndex glyphInfo) \<noteq> texIdx then buf
          else
            (case clip_glyph options clip
                    (destRect_clip fontSizeScale options atlas offset glyphInfo (snd (snd it)))
                    (getAreaTexCoords (mTextures atlas ! texIdx) (mTexCoords glyphInfo)) of
               None \<Rightarrow> buf
             | Some (clipped, srcTexCoords) \<Rightarrow> emit_quad colors (fst it) buf clipped srcTexCoords))"

definition page_step_clip ::
  "(Texture \<Rightarrow> Area \<Rightarrow> Rectf) \<Rightarrow> f32 \<Rightarrow> DrawOptions \<Rightarrow> TextureAtlas \<Rightarrow> ColorA8u list \<Rightarrow> Rectf
     \<Rightarrow> (Glyph \<times> vec2) list \<Rightarrow> vec2 \<times> DrawBatch list \<Rightarrow> nat \<Rightarrow> vec2 \<times> DrawBatch list" where
  "page_step_clip getAreaTexCoords fontSizeScale options atlas colors clip glyphMeasures st texIdx =
     (let offset = (if opt_pixelSnap options then floor_vec2 (fst st) else fst st);
          buf = foldl (draw_glyph_clip getAreaTexCoords fontSizeScale options atlas colors clip
                         texIdx offset)
                  GlyphBuffers_empty (zip [0..<length glyphMeasures] glyphMeasures)
      in if curIdx buf = 0 then (offset, snd st)
         else (offset, snd st @ [batch_of texIdx buf]))"

definition drawGlyphs_clip ::
  "(Texture \<Rightarrow> Area \<Rightarrow> Rectf) \<Rightarrow> Font \<Rightarrow> TextureAtlas \<Rightarrow> (Glyph \<times> vec2) list \<Rightarrow> Rectf \<Rightarrow> vec2
     \<Rightarrow> DrawOptions \<Rightarrow> ColorA8u list \<Rightarrow> error + DrawBatch list" where
  "drawGlyphs_clip getAreaTexCoords font atlas glyphMeasures clip offset options colors =
     (if mTextures atlas = [] then Inr []
      else if colors \<noteq> [] \<and> length glyphMeasures \<noteq> length colors then Inl AssertionFailed
      else Inr (snd (foldl (page_step_clip getAreaTexCoords (fdiv (font_mSize font) (Fin 32)) options atlas
                              colors clip glyphMeasures)
                       (offset, []) [0..<length (mTextures atlas)])))"

section \<open>Quantities the statements refer to\<close>

subsection \<open>Exact operations\<close>

text \<open>
  A real is \<open>exact32\<close> when it is a binary32 value, so that a float operation whose exact
  result it is does not round.
\<close>

definition exact32 :: "real \<Rightarrow> bool" where
  "exact32 x \<longleftrightarrow> round32 x = Fin x"

text \<open>
  The operations of the bitmap size for the scale \<open>s\<close>, the padding \<open>p\<close> and the largest
  glyph size \<open>g\<close> of one axis are exact: the conversion of the padding, its double, the sum
  with the glyph size, the product with the scale and the sum with one half.
\<close>

definition extent_exact :: "real \<Rightarrow> int \<Rightarrow> real \<Rightarrow> bool" where
  "extent_exact s p g \<longleftrightarrow>
     exact32 (real_of_int p) \<and> exact32 (2 * real_of_int p) \<and>
     exact32 (g + 2 * real_of_int p) \<and> exact32 (s * (g + 2 * real_of_int p)) \<and>
     exact32 (s * (g + 2 * real_of_int p) + 1 / 2)"

text \<open>
  The operations that derive the texture coordinates of a clipped glyph on one axis are
  exact, for the texture coordinates \<open>s1\<close>, \<open>s2\<close>, the destination \<open>d1\<close>, \<open>d2\<close> and the
  clipped destination \<open>c1\<close>, \<open>c2\<close>: the two extents, their quotient, the two differences
  from the clipped rectangle, their products with the quotient, and the two sums.
\<close>

definition clip_axis_exact :: "real \<Rightarrow> real \<Rightarrow> real \<Rightarrow> real \<Rightarrow> real \<Rightarrow> real \<Rightarrow> bool" where
  "clip_axis_exact s1 s2 d1 d2 c1 c2 \<longleftrightarrow>
     d1 \<noteq> d2 \<and> exact32 (s2 - s1) \<and> exact32 (d2 - d1) \<and>
     exact32 ((s2 - s1) / (d2 - d1)) \<and>
     exact32 (c1 - d1) \<and> exact32 ((c1 - d1) * ((s2 - s1) / (d2 - d1))) \<and>
     exact32 (s1 + (c1 - d1) * ((s2 - s1) / (d2 - d1))) \<and>
     exact32 (c2 - c1) \<and> exact32 ((c2 - c1) * ((s2 - s1) / (d2 - d1))) \<and>
     exact32 (s1 + (c1 - d1) * ((s2 - s1) / (d2 - d1)) + (c2 - c1) * ((s2 - s1) / (d2 - d1)))"

subsection \<open>Advances and pen positions of a line\<close>

text \<open>
  The horizontal advances cached for the code points of a line, and the range of an
  \<^verbatim>\<open>FT_Pos\<close>. Then the placements of a text as the specification words them, with the
  operations in binary32: the glyph of the \<open>k\<close>-th code point of line \<open>i\<close> stands at the sum
  of the advances before it, converted to a float, divided by 64, plus one half
  (\<open>pen_xPos\<close>), and at the line height added up \<open>i\<close> times (\<open>line_y\<close>).
\<close>

definition advances_x :: "FT_Face \<Rightarrow> GlyphMetricsMap \<Rightarrow> codepoint list \<Rightarrow> int list" where
  "advances_x face metrics chs =
     map (\<lambda>ch. case metrics (FT_Get_Char_Index face ch) of
                  None \<Rightarrow> 0 | Some gm \<Rightarrow> fst (advance gm)) chs"

definition in_FT_Pos_range :: "int \<Rightarrow> bool" where
  "in_FT_Pos_range v \<longleftrightarrow> - (2 ^ 63) \<le> v \<and> v < 2 ^ 63"

definition pen_xPos :: "int \<Rightarrow> f32" where
  "pen_xPos S = fadd (fdiv (f32_of_int S) (Fin 64)) (Fin (1 / 2))"

primrec line_y :: "f32 \<Rightarrow> nat \<Rightarrow> f32" where
  "line_y h 0 = Fin 0"
| "line_y h (Suc i) = fadd (line_y h i) h"

definition placements_of_line ::
  "FT_Face \<Rightarrow> GlyphMetricsMap \<Rightarrow> f32 \<Rightarrow> codepoint list \<Rightarrow> (Glyph \<times> vec2) list" where
  "placements_of_line face metrics y chs =
     map (\<lambda>k. (FT_Get_Char_Index face (chs ! k),
               (pen_xPos (sum_list (take k (advances_x face metrics chs))), y)))
       [0..<length chs]"

definition placements_of_lines ::
  "FT_Face \<Rightarrow> GlyphMetricsMap \<Rightarrow> f32 \<Rightarrow> codepoint list list \<Rightarrow> (Glyph \<times> vec2) list" where
  "placements_of_lines face metrics h lines =
     concat (map (\<lambda>i. placements_of_line face metrics (line_y h i) (lines ! i))
               [0..<length lines])"

subsection \<open>The chain of the destination rectangle\<close>

text \<open>
  The chain of the specification, with the origin and the padding offset left open: scale
  the source rectangle by \<open>fontSizeScale\<close>, re-anchor it to its own origin, scale by the
  caller's scale, translate by the layout position scaled likewise, translate by the
  origin, add the glyph's origin offset (scaled, y-flipped, rounded), add the padding
  offset, and snap to whole pixels when asked to.
\<close>

definition destRect_chain ::
  "f32 \<Rightarrow> DrawOptions \<Rightarrow> GlyphInfo \<Rightarrow> vec2 \<Rightarrow> vec2 \<Rightarrow> vec2 \<Rightarrow> Rectf" where
  "destRect_chain fss options glyphInfo pos origin paddingOffset =
     (let scaled = Rectf_scale (Rectf_of_Area (mTexCoords glyphInfo)) fss;
          anchored = Rectf_sub scaled (getUpperLeft scaled);
          sized = Rectf_scale anchored (opt_scale options);
          placed = Rectf_add sized (vec2_scale pos (opt_scale options));
          moved = Rectf_add placed origin;
          offs = scale_vec2 fss (mOriginOffset glyphInfo);
          shifted = Rectf_add moved
                      (vec2_scale (ffloor (fadd (fst offs) (Fin (1 / 2))), ffloor (fneg (snd offs)))
                         (opt_scale options));
          padded = Rectf_add shifted paddingOffset
      in if opt_pixelSnap options
         then Rectf_sub padded
                (fsub (r_x1 padded) (ffloor (r_x1 padded)),
                 fsub (r_y1 padded) (ffloor (r_y1 padded)))
         else padded)"

subsection \<open>Placements that survive on a page\<close>

text \<open>
  A placement survives the filters of the baseline overload on page \<open>texIdx\<close> when its
  glyph has an entry in the glyph map and that entry names the page. The buffers of a page
  are filled when the index counter is zero or every vector holds something. A draw call is
  in order when its vectors are not empty and a placement survives on its page.
\<close>

definition survives_baseline :: "TextureAtlas \<Rightarrow> nat \<Rightarrow> Glyph \<Rightarrow> bool" where
  "survives_baseline atlas texIdx g =
     (case mGlyphMap atlas g of
        None \<Rightarrow> False
      | Some glyphInfo \<Rightarrow> unat (mTextureIndex glyphInfo) = texIdx)"

definition buffers_filled :: "GlyphBuffers \<Rightarrow> bool" where
  "buffers_filled buf \<longleftrightarrow>
     curIdx buf = 0 \<or> (verts buf \<noteq> [] \<and> texCoords buf \<noteq> [] \<and> indices buf \<noteq> [])"

definition batch_ok :: "TextureAtlas \<Rightarrow> (Glyph \<times> vec2) list \<Rightarrow> DrawBatch \<Rightarrow> bool" where
  "batch_ok atlas glyphMeasures b \<longleftrightarrow>
     b_verts b \<noteq> [] \<and> b_texCoords b \<noteq> [] \<and> b_indices b \<noteq> [] \<and>
     list_ex (\<lambda>m. survives_baseline atlas (b_texture b) (fst m)) glyphMeasures"

text \<open>
  The same for the clip-rectangle overload, where a placement must also survive the
  clipping; \<open>snapped\<close> is the offset the loops work with.
\<close>

definition snapped :: "DrawOptions \<Rightarrow> vec2 \<Rightarrow> vec2" where
  "snapped options v = (if opt_pixelSnap options then floor_vec2 v else v)"

definition survives_clip ::
  "(Texture \<Rightarrow> Area \<Rightarrow> Rectf) \<Rightarrow> f32 \<Rightarrow> DrawOptions \<Rightarrow> TextureAtlas \<Rightarrow> Rectf \<Rightarrow> vec2 \<Rightarrow> nat
     \<Rightarrow> Glyph \<times> vec2 \<Rightarrow> bool" where
  "survives_clip getAreaTexCoords fss options atlas clip offset texIdx m =
     (case mGlyphMap atlas (fst m) of
        None \<Rightarrow> False
      | Some glyphInfo \<Rightarrow>
          unat (mTextureIndex glyphInfo) = texIdx \<and>
          clip_glyph options clip (destRect_clip fss options atlas offset glyphInfo (snd m))
            (getAreaTexCoords (mTextures atlas ! texIdx) (mTexCoords glyphInfo)) \<noteq> None)"

definition batch_ok_clip ::
  "(Texture \<Rightarrow> Area \<Rightarrow> Rectf) \<Rightarrow> f32 \<Rightarrow> DrawOptions \<Rightarrow> TextureAtlas \<Rightarrow> Rectf \<Rightarrow> vec2
     \<Rightarrow> (Glyph \<times> vec2) list \<Rightarrow> DrawBatch \<Rightarrow> bool" where
  "batch_ok_clip getAreaTexCoords fss options atlas clip offset glyphMeasures b \<longleftrightarrow>
     b_verts b \<noteq> [] \<and> b_texCoords b \<noteq> [] \<and> b_indices b \<noteq> [] \<and>
     list_ex (survives_clip getAreaTexCoords fss options atlas clip offset (b_texture b))
       glyphMeasures"

subsection \<open>Reading the maxima of a character set off the font\<close>

text \<open>
  The bounding boxes \<open>(l, b, r, t)\<close> of the glyphs of a code point list whose outlines
  load, in the order of the list. The statements about the tracked maxima are compared with
  the maxima over this list.
\<close>

definition loaded_bounds :: "FT_Face \<Rightarrow> codepoint list \<Rightarrow> (real \<times> real \<times> real \<times> real) list" where
  "loaded_bounds face utf32Chars =
     List.map_filter (\<lambda>ch. glyph_bounds face (FT_Get_Char_Index face ch)) utf32Chars"

subsection \<open>Example fonts and formats\<close>

text \<open>
  A font whose glyph indices are the code points. The letter g reaches from 7 units below
  the baseline to 15 above it; the space has an empty outline; no other outline loads.
\<close>

definition descender_face :: FT_Face where
  "descender_face =
     \<lparr> family_name = ''Example'', style_name = ''Regular'',
       ascender = 1856, descender = - 512, height = 2400,
       FT_Get_Char_Index = (\<lambda>ch. ch),
       glyph_bounds = (\<lambda>g. if g = 103 then Some (1, - 7, 17, 15)
                            else if g = 32 then Some (0, 0, 0, 0) else None),
       glyph_advance = (\<lambda>g. (1152, 0)) \<rparr>"

definition default_format :: Format where
  "default_format =
     \<lparr> textureWidth = 1024, textureHeight = 1024, sdfScale = (Fin 1, Fin 1),
       sdfPadding = (Fin 2, Fin 2) \<rparr>"

text \<open>
  A font with 28 by 28 unit outlines for every glyph but the space, rendered at a quarter
  of the reference size into pages of 128 by 128 pixels.
\<close>

definition grid_face :: FT_Face where
  "grid_face =
     \<lparr> family_name = ''Example'', style_name = ''Regular'',
       ascender = 1856, descender = - 512, height = 2400,
       FT_Get_Char_Index = (\<lambda>ch. ch),
       glyph_bounds = (\<lambda>g. if g = 32 then Some (0, 0, 0, 0) else Some (0, - 7, 28, 21)),
       glyph_advance = (\<lambda>g. (1152, 0)) \<rparr>"

definition small_format :: Format where
  "small_format =
     \<lparr> textureWidth = 128, textureHeight = 128, sdfScale = (Fin (1 / 4), Fin (1 / 4)),
       sdfPadding = (Fin 2, Fin 2) \<rparr>"

text \<open>
  Metrics tables for the examples: the advances of g and of the space, in 1/64 units; a
  table with a g of 1000001 pixels; and a table with a g of \<open>2^24 + 1\<close> units, which is
  not a binary32 value.
\<close>

definition example_metrics :: GlyphMetricsMap where
  "example_metrics = [103 \<mapsto> \<lparr> advance = (1152, 0) \<rparr>, 32 \<mapsto> \<lparr> advance = (576, 0) \<rparr>]"

definition wide_metrics :: GlyphMetricsMap where
  "wide_metrics = [103 \<mapsto> \<lparr> advance = (64000064, 0) \<rparr>]"

definition long_metrics :: GlyphMetricsMap where
  "long_metrics = [103 \<mapsto> \<lparr> advance = (16777217, 0) \<rparr>]"

text \<open>
  A line breaker for the examples: it splits the text at line feeds and never wraps, which
  is what a box without a width asks for. Then a font of size 64 on \<open>descender_face\<close>, a
  text box with two lines, and draw options without extra leading.
\<close>

fun split_at_newlines :: "string \<Rightarrow> string \<Rightarrow> string list" where
  "split_at_newlines cur [] = [cur]"
| "split_at_newlines cur (c # cs) =
     (if c = CHR 0x0A then cur # split_at_newlines [] cs else split_at_newlines (cur @ [c]) cs)"

definition newline_lineBreak :: "string \<Rightarrow> (string \<Rightarrow> bool option) \<Rightarrow> string list option" where
  "newline_lineBreak text lineMeasure = Some (split_at_newlines [] text)"

definition example_font :: Font where
  "example_font =
     \<lparr> font_mName = ''Example'', font_mSize = Fin 64, font_face = Some descender_face \<rparr>"

definition example_box :: SdfTextBox where
  "example_box =
     \<lparr> tb_mSize = (0, 0), tb_mText = ''g g'' @ [CHR 0x0A] @ ''gg'', tb_mFont = example_font,
       tb_mLigate = True \<rparr>"

definition example_options :: DrawOptions where
  "example_options =
     \<lparr> opt_scale = Fin 1, opt_pixelSnap = False, opt_clipHorizontal = False,
       opt_clipVertical = False, opt_leading = Fin 0, opt_ligate = True \<rparr>"

text \<open>
  A font of size 12 on the same face, a box with four lines of one g each, and draw options
  with the extra leading \<^verbatim>\<open>0.1f\<close>, whose value is \<open>13421773 / 2^27\<close>.
\<close>

definition font12 :: Font where
  "font12 = \<lparr> font_mName = ''Example'', font_mSize = Fin 12, font_face = Some descender_face \<rparr>"

definition four_line_box :: SdfTextBox where
  "four_line_box =
     \<lparr> tb_mSize = (0, 0),
       tb_mText = ''g'' @ [CHR 0x0A] @ ''g'' @ [CHR 0x0A] @ ''g'' @ [CHR 0x0A] @ ''g'',
       tb_mFont = font12, tb_mLigate = True \<rparr>"

definition leading_options :: DrawOptions where
  "leading_options =
     \<lparr> opt_scale = Fin 1, opt_pixelSnap = False, opt_clipHorizontal = False,
       opt_clipVertical = False, opt_leading = Fin (13421773 / 134217728), opt_ligate = True \<rparr>"

text \<open>
  The atlas of the letter g and the space in one page of 1024 by 1024 pixels with 20 by 26
  pixel cells, and texture coordinates normalised by the size of the page.
\<close>

definition example_atlas :: TextureAtlas where
  "example_atlas =
     \<lparr> mTextures = [\<lparr> tex_width = 1024, tex_height = 1024 \<rparr>],
       mCharMap = [(103, 103), (32, 32)],
       mGlyphMap =
         [32 \<mapsto> \<lparr> mTextureIndex = 0,
                    mTexCoords = \<lparr> a_x1 = 0, a_y1 = 0, a_x2 = 20, a_y2 = 26 \<rparr>,
                    mOriginOffset = (Fin 0, Fin 0) \<rparr>,
          103 \<mapsto> \<lparr> mTextureIndex = 0,
                     mTexCoords = \<lparr> a_x1 = 21, a_y1 = 0, a_x2 = 41, a_y2 = 26 \<rparr>,
                     mOriginOffset = (Fin 1, Fin (- 7)) \<rparr>],
       mSdfScale = (Fin 1, Fin 1), mSdfPadding = (Fin 2, Fin 2), mSdfBitmapSize = (20, 26),
       mMaxGlyphSize = (Fin 16, Fin 22), mMaxAscent = Fin 15, mMaxDescent = Fin 15 \<rparr>"

definition normalized_texCoords :: "Texture \<Rightarrow> Area \<Rightarrow> Rectf" where
  "normalized_texCoords tex area =
     \<lparr> r_x1 = fdiv (f32_of_int (a_x1 area)) (f32_of_int (tex_width tex)),
       r_y1 = fdiv (f32_of_int (a_y1 area)) (f32_of_int (tex_height tex)),
       r_x2 = fdiv (f32_of_int (a_x2 area)) (f32_of_int (tex_width tex)),
       r_y2 = fdiv (f32_of_int (a_y2 area)) (f32_of_int (tex_height tex)) \<rparr>"

text \<open>
  A font of the reference size 32 (so that \<open>fontSizeScale\<close> is 1), the glyph entry of
  the letter g in \<open>example_atlas\<close>, options that clip horizontally, a clip rectangle that
  cuts the glyph drawn at the offset \<open>(100, 200)\<close>, and one that lies to the left of it.
  Then options that clip horizontally and draw at three times the size, and a clip
  rectangle that keeps a third of the glyph drawn with them.
\<close>

definition font32 :: Font where
  "font32 = \<lparr> font_mName = ''Example'', font_mSize = Fin 32, font_face = Some descender_face \<rparr>"

definition info_g :: GlyphInfo where
  "info_g = \<lparr> mTextureIndex = 0, mTexCoords = \<lparr> a_x1 = 21, a_y1 = 0, a_x2 = 41, a_y2 = 26 \<rparr>,
              mOriginOffset = (Fin 1, Fin (- 7)) \<rparr>"

definition clip_options :: DrawOptions where
  "clip_options =
     \<lparr> opt_scale = Fin 1, opt_pixelSnap = False, opt_clipHorizontal = True,
       opt_clipVertical = False, opt_leading = Fin 0, opt_ligate = True \<rparr>"

definition wide_clip :: Rectf where
  "wide_clip = \<lparr> r_x1 = Fin 0, r_y1 = Fin 0, r_x2 = Fin 110, r_y2 = Fin 300 \<rparr>"

definition narrow_clip :: Rectf where
  "narrow_clip = \<lparr> r_x1 = Fin 0, r_y1 = Fin 0, r_x2 = Fin 90, r_y2 = Fin 300 \<rparr>"

definition triple_clip_options :: DrawOptions where
  "triple_clip_options =
     \<lparr> opt_scale = Fin 3, opt_pixelSnap = False, opt_clipHorizontal = True,
       opt_clipVertical = False, opt_leading = Fin 0, opt_ligate = True \<rparr>"

definition third_clip :: Rectf where
  "third_clip = \<lparr> r_x1 = Fin 0, r_y1 = Fin 0, r_x2 = Fin (245 / 2), r_y2 = Fin 300 \<rparr>"

section \<open>Properties\<close>

subsection \<open>Binary32 rounding\<close>

lemma find_exponent_ge: "- 126 \<le> find_exponent n x"
  by (induction n) auto

lemma find_exponent_lower: "- 126 < find_exponent n x \<Longrightarrow> 2 powi (find_exponent n x) \<le> \<bar>x\<bar>"
  by (induction n) (auto split: if_splits)

lemma find_exponent_eq:
  assumes "- 126 \<le> e" "e \<le> int n - 126" "2 powi e \<le> \<bar>x\<bar>" "\<bar>x\<bar> < 2 powi (e + 1)"
  shows "find_exponent n x = e"
  using assms
proof (induction n)
  case 0
  then show ?case by simp
next
  case (Suc n)
  show ?case
  proof (cases "e = int n - 125")
    case True
    then show ?thesis using Suc.prems by simp
  next
    case False
    then have le: "e \<le> int n - 126" using Suc.prems(2) by simp
    then have "e + 1 \<le> int n - 125" by simp
    then have "(2::real) powi (e + 1) \<le> 2 powi (int n - 125)"
      by (intro power_int_increasing) simp_all
    then have "\<not> 2 powi (int n - 125) \<le> \<bar>x\<bar>"
      using Suc.prems(4) by linarith
    then show ?thesis
      using Suc.IH [OF Suc.prems(1) le Suc.prems(3,4)] by simp
  qed
qed

lemma exponent32_eq:
  "- 126 \<le> e \<Longrightarrow> e \<le> 127 \<Longrightarrow> 2 powi e \<le> \<bar>x\<bar> \<Longrightarrow> \<bar>x\<bar> < 2 powi (e + 1) \<Longrightarrow> exponent32 x = e"
  unfolding exponent32_def by (rule find_exponent_eq) simp_all

lemma round_even_of_int [simp]: "round_even (real_of_int n) = n"
  by (simp add: round_even_def)

text \<open>
  A real \<open>m * 2^k\<close> with \<open>\<bar>m\<bar> < 2^24\<close> and \<open>k\<close> between \<open>-149\<close> and 104 is a binary32
  value: rounding returns it.
\<close>

lemma round32_exact:
  assumes x: "x = real_of_int m * 2 powi k" and m: "\<bar>m\<bar> < 2 ^ 24" and k: "- 149 \<le> k" "k \<le> 104"
  shows "round32 x = Fin x"
proof (cases "x = 0")
  case True
  then show ?thesis by (simp add: round32_def)
next
  case False
  let ?e = "exponent32 x"
  have ek: "?e - 23 \<le> k"
  proof (cases "?e = - 126")
    case True
    then show ?thesis using k by simp
  next
    case False
    then have "- 126 < ?e"
      using find_exponent_ge [of 253 x] by (simp add: exponent32_def)
    then have "2 powi ?e \<le> \<bar>x\<bar>"
      unfolding exponent32_def by (rule find_exponent_lower)
    also have "\<bar>x\<bar> = real_of_int \<bar>m\<bar> * 2 powi k"
      by (simp add: x abs_mult)
    also have "\<dots> < 2 ^ 24 * 2 powi k"
    proof -
      have "real_of_int \<bar>m\<bar> < 2 ^ 24"
        using m by (metis of_int_less_numeral_power_cancel_iff)
      then show ?thesis by (intro mult_strict_right_mono) simp_all
    qed
    also have "\<dots> = 2 powi (24 + k)"
      by (simp add: power_int_add)
    finally have lt: "(2::real) powi ?e < 2 powi (24 + k)" .
    have "?e < 24 + k"
    proof (rule ccontr)
      assume "\<not> ?e < 24 + k"
      then have "(2::real) powi (24 + k) \<le> 2 powi ?e"
        by (intro power_int_increasing) simp_all
      with lt show False by simp
    qed
    then show ?thesis by simp
  qed
  let ?u = "(2::real) powi (?e - 23)"
  have "x / ?u = real_of_int m * 2 powi (k - (?e - 23))"
    by (simp add: x power_int_diff)
  also have "\<dots> = real_of_int m * 2 ^ nat (k - (?e - 23))"
    using ek by (simp add: power_int_nonneg_exp)
  also have "\<dots> = real_of_int (m * 2 ^ nat (k - (?e - 23)))"
    by simp
  finally have q: "x / ?u = real_of_int (m * 2 ^ nat (k - (?e - 23)))" .
  have r: "real_of_int (round_even (x / ?u)) * ?u = x"
  proof -
    have "real_of_int (round_even (x / ?u)) = x / ?u"
      by (simp only: q round_even_of_int)
    then show ?thesis by simp
  qed
  have "\<bar>x\<bar> = real_of_int \<bar>m\<bar> * 2 powi k"
    by (simp add: x abs_mult)
  also have "\<dots> < 2 ^ 24 * 2 powi k"
  proof -
    have "real_of_int \<bar>m\<bar> < 2 ^ 24"
      using m by (metis of_int_less_numeral_power_cancel_iff)
    then show ?thesis by (intro mult_strict_right_mono) simp_all
  qed
  also have "\<dots> \<le> 2 ^ 24 * 2 powi 104"
    using k by (intro mult_left_mono power_int_increasing) simp_all
  also have "\<dots> = 2 powi 128"
    by simp
  finally have "\<not> 2 powi 128 \<le> \<bar>x\<bar>" by simp
  then show ?thesis
    using False r by (simp add: round32_def Let_def)
qed

text \<open>Evaluation of a rounding from the binary exponent of the real.\<close>

lemma round32_at:
  assumes "- 126 \<le> e" "e \<le> 127" "2 powi e \<le> \<bar>x\<bar>" "\<bar>x\<bar> < 2 powi (e + 1)"
  shows "round32 x =
           (let r = real_of_int (round_even (x / 2 powi (e - 23))) * 2 powi (e - 23)
            in if 2 powi 128 \<le> \<bar>r\<bar> then (if 0 < x then PInf else NInf) else Fin r)"
proof -
  have pos: "(0::real) < 2 powi e"
    by (rule zero_less_power_int) simp
  have "x \<noteq> 0"
  proof
    assume "x = 0"
    with assms(3) have "(2::real) powi e \<le> 0"
      by simp
    with pos show False
      by linarith
  qed
  moreover have "exponent32 x = e"
    using assms by (rule exponent32_eq)
  ultimately show ?thesis
    by (simp add: round32_def Let_def)
qed

lemma round32_0: "round32 0 = Fin 0"
  by (simp add: round32_def)

lemma round32_int: "\<bar>n\<bar> < 2 ^ 24 \<Longrightarrow> round32 (real_of_int n) = Fin (real_of_int n)"
  using round32_exact [of "real_of_int n" n 0] by simp

lemma round32_div_pow2:
  assumes "\<bar>n\<bar> < 2 ^ 24" "k \<le> 149"
  shows "round32 (real_of_int n / 2 ^ k) = Fin (real_of_int n / 2 ^ k)"
proof (rule round32_exact [where m = n and k = "- int k"])
  show "real_of_int n / 2 ^ k = real_of_int n * 2 powi (- int k)"
    by (simp add: power_int_minus divide_inverse)
qed (use assms in simp_all)

lemma round32_1: "round32 1 = Fin 1"
  using round32_int [of 1] by simp

lemma round32_numeral:
  "numeral a < (2::int) ^ 24 \<Longrightarrow> round32 (numeral a) = Fin (numeral a)"
  using round32_int [of "numeral a"] by simp

lemma round32_neg_numeral:
  "numeral a < (2::int) ^ 24 \<Longrightarrow> round32 (- numeral a) = Fin (- numeral a)"
  using round32_int [of "- numeral a"] by simp

lemma round32_numeral_div:
  assumes "numeral a < (2::int) ^ 24"
  shows "round32 (numeral a / 2) = Fin (numeral a / 2)"
    and "round32 (numeral a / 4) = Fin (numeral a / 4)"
    and "round32 (numeral a / 8) = Fin (numeral a / 8)"
    and "round32 (numeral a / 16) = Fin (numeral a / 16)"
    and "round32 (numeral a / 32) = Fin (numeral a / 32)"
    and "round32 (numeral a / 64) = Fin (numeral a / 64)"
    and "round32 (numeral a / 128) = Fin (numeral a / 128)"
    and "round32 (numeral a / 256) = Fin (numeral a / 256)"
    and "round32 (numeral a / 512) = Fin (numeral a / 512)"
    and "round32 (numeral a / 1024) = Fin (numeral a / 1024)"
    and "round32 (numeral a / 2048) = Fin (numeral a / 2048)"
    and "round32 (numeral a / 4096) = Fin (numeral a / 4096)"
  using assms round32_div_pow2 [of "numeral a" 1] round32_div_pow2 [of "numeral a" 2]
    round32_div_pow2 [of "numeral a" 3] round32_div_pow2 [of "numeral a" 4]
    round32_div_pow2 [of "numeral a" 5] round32_div_pow2 [of "numeral a" 6]
    round32_div_pow2 [of "numeral a" 7] round32_div_pow2 [of "numeral a" 8]
    round32_div_pow2 [of "numeral a" 9] round32_div_pow2 [of "numeral a" 10]
    round32_div_pow2 [of "numeral a" 11] round32_div_pow2 [of "numeral a" 12]
  by simp_all

lemma round32_neg_numeral_div:
  assumes "numeral a < (2::int) ^ 24"
  shows "round32 (- (numeral a / 2)) = Fin (- (numeral a / 2))"
    and "round32 (- (numeral a / 4)) = Fin (- (numeral a / 4))"
    and "round32 (- (numeral a / 8)) = Fin (- (numeral a / 8))"
    and "round32 (- (numeral a / 16)) = Fin (- (numeral a / 16))"
    and "round32 (- (numeral a / 32)) = Fin (- (numeral a / 32))"
    and "round32 (- (numeral a / 64)) = Fin (- (numeral a / 64))"
    and "round32 (- (numeral a / 1024)) = Fin (- (numeral a / 1024))"
  using assms round32_div_pow2 [of "- numeral a" 1] round32_div_pow2 [of "- numeral a" 2]
    round32_div_pow2 [of "- numeral a" 3] round32_div_pow2 [of "- numeral a" 4]
    round32_div_pow2 [of "- numeral a" 5] round32_div_pow2 [of "- numeral a" 6]
    round32_div_pow2 [of "- numeral a" 10]
  by simp_all

lemma round32_one_div:
  "round32 (1 / 2) = Fin (1 / 2)" "round32 (1 / 4) = Fin (1 / 4)"
  "round32 (1 / 8) = Fin (1 / 8)" "round32 (1 / 16) = Fin (1 / 16)"
  "round32 (1 / 32) = Fin (1 / 32)" "round32 (1 / 64) = Fin (1 / 64)"
  "round32 (1 / 1024) = Fin (1 / 1024)"
  using round32_div_pow2 [of 1 1] round32_div_pow2 [of 1 2] round32_div_pow2 [of 1 3]
    round32_div_pow2 [of 1 4] round32_div_pow2 [of 1 5] round32_div_pow2 [of 1 6]
    round32_div_pow2 [of 1 10]
  by simp_all

lemmas round32_simps =
  round32_0 round32_1 round32_numeral round32_neg_numeral round32_numeral_div
  round32_neg_numeral_div round32_one_div

text \<open>Rounding keeps a magnitude of \<open>2^24\<close> or more at \<open>2^24\<close> or more.\<close>

lemma find_exponent_greatest:
  assumes "- 126 \<le> k" "k \<le> int n - 126" "2 powi k \<le> \<bar>x\<bar>"
  shows "k \<le> find_exponent n x"
  using assms
proof (induction n)
  case 0
  then show ?case by simp
next
  case (Suc n)
  show ?case
  proof (cases "2 powi (int n - 125) \<le> \<bar>x\<bar>")
    case True
    then show ?thesis using Suc.prems(2) by simp
  next
    case False
    then have "k \<noteq> int n - 125"
      using Suc.prems(3) by auto
    then have "k \<le> int n - 126"
      using Suc.prems(2) by simp
    then show ?thesis
      using False Suc.IH Suc.prems by simp
  qed
qed

lemma round_even_bounds: "\<lfloor>q\<rfloor> \<le> round_even q" "round_even q \<le> \<lceil>q\<rceil>"
proof -
  show "\<lfloor>q\<rfloor> \<le> round_even q"
    by (simp add: round_even_def Let_def)
  show "round_even q \<le> \<lceil>q\<rceil>"
  proof (cases "q = real_of_int \<lfloor>q\<rfloor>")
    case True
    then have "round_even q = \<lfloor>q\<rfloor>"
      by (simp add: round_even_def Let_def)
    then show ?thesis
      by (simp add: floor_le_ceiling)
  next
    case False
    then have "\<lceil>q\<rceil> = \<lfloor>q\<rfloor> + 1"
      by (metis ceiling_altdef)
    then show ?thesis
      by (simp add: round_even_def Let_def)
  qed
qed

lemma round32_large_magnitude:
  assumes "2 ^ 24 \<le> \<bar>x\<bar>"
  shows "24 \<le> exponent32 x" "2 powi exponent32 x \<le> \<bar>x\<bar>"
    "2 ^ 23 * 2 powi (exponent32 x - 23) = (2::real) powi exponent32 x"
    "(2::real) ^ 24 \<le> 2 powi exponent32 x"
proof -
  have "(2::real) powi 24 \<le> \<bar>x\<bar>"
    using assms by simp
  then show e: "24 \<le> exponent32 x"
    unfolding exponent32_def by (intro find_exponent_greatest) simp_all
  then have "- 126 < find_exponent 253 x"
    by (simp add: exponent32_def)
  then show "2 powi exponent32 x \<le> \<bar>x\<bar>"
    unfolding exponent32_def by (rule find_exponent_lower)
  have "(2::real) powi 23 * 2 powi (exponent32 x - 23) = 2 powi (23 + (exponent32 x - 23))"
    by (rule power_int_add [symmetric]) simp
  moreover have "(2::real) powi 23 = 2 ^ 23"
    by (rule power_int_numeral)
  ultimately show "2 ^ 23 * 2 powi (exponent32 x - 23) = (2::real) powi exponent32 x"
    by (simp del: power_int_numeral)
  have "(2::real) powi 24 \<le> 2 powi exponent32 x"
    using e by (intro power_int_increasing) simp_all
  then show "(2::real) ^ 24 \<le> 2 powi exponent32 x"
    by simp
qed

lemma round32_large:
  assumes "2 ^ 24 \<le> x"
  shows "round32 x = PInf \<or> (\<exists>r. round32 x = Fin r \<and> 2 ^ 24 \<le> r)"
proof -
  let ?u = "(2::real) powi (exponent32 x - 23)"
  have "(0::real) < 2 ^ 24"
    by simp
  then have pos: "0 < x"
    using assms by linarith
  have mag: "2 ^ 24 \<le> \<bar>x\<bar>"
    using assms by simp
  have u: "0 < ?u"
    by (rule zero_less_power_int) simp
  have "2 ^ 23 * ?u \<le> x"
    using round32_large_magnitude(2,3) [OF mag] pos by simp
  then have "2 ^ 23 \<le> x / ?u"
    using u by (simp add: pos_le_divide_eq)
  then have "(2::int) ^ 23 \<le> \<lfloor>x / ?u\<rfloor>"
    by (simp add: le_floor_iff)
  then have "(2::int) ^ 23 \<le> round_even (x / ?u)"
    using round_even_bounds(1) [of "x / ?u"] by linarith
  then have "(2::real) ^ 23 \<le> real_of_int (round_even (x / ?u))"
    by (metis of_int_le_iff of_int_numeral of_int_power)
  then have "2 ^ 23 * ?u \<le> real_of_int (round_even (x / ?u)) * ?u"
    using u by (intro mult_right_mono) simp_all
  then have "2 ^ 24 \<le> real_of_int (round_even (x / ?u)) * ?u"
    using round32_large_magnitude(3,4) [OF mag] by linarith
  then show ?thesis
    using pos by (simp add: round32_def Let_def)
qed

lemma round32_large_neg:
  assumes "x \<le> - (2 ^ 24)"
  shows "round32 x = NInf \<or> (\<exists>r. round32 x = Fin r \<and> r \<le> - (2 ^ 24))"
proof -
  let ?u = "(2::real) powi (exponent32 x - 23)"
  have "(0::real) < 2 ^ 24"
    by simp
  then have neg: "x < 0"
    using assms by linarith
  have mag: "2 ^ 24 \<le> \<bar>x\<bar>"
    using assms by simp
  have u: "0 < ?u"
    by (rule zero_less_power_int) simp
  have "x \<le> - (2 ^ 23 * ?u)"
    using round32_large_magnitude(2,3) [OF mag] neg by simp
  then have "x / ?u \<le> - (2 ^ 23)"
    using u by (simp add: pos_divide_le_eq)
  then have "\<lceil>x / ?u\<rceil> \<le> - ((2::int) ^ 23)"
    by (simp add: ceiling_le_iff)
  then have "round_even (x / ?u) \<le> - ((2::int) ^ 23)"
    using round_even_bounds(2) [of "x / ?u"] by linarith
  then have "real_of_int (round_even (x / ?u)) \<le> - ((2::real) ^ 23)"
    by (metis of_int_le_iff of_int_minus of_int_numeral of_int_power)
  then have "real_of_int (round_even (x / ?u)) * ?u \<le> - (2 ^ 23) * ?u"
    using u by (intro mult_right_mono) simp_all
  then have "real_of_int (round_even (x / ?u)) * ?u \<le> - (2 ^ 24)"
    using round32_large_magnitude(3,4) [OF mag] by linarith
  then show ?thesis
    using neg by (simp add: round32_def Let_def)
qed

lemma fle_MAX_SIZE: "fle (Fin MAX_SIZE) (f32_of_int W) \<longleftrightarrow> MAX_SIZE \<le> real_of_int W"
proof -
  consider "\<bar>W\<bar> < 2 ^ 24" | "2 ^ 24 \<le> W" | "W \<le> - (2 ^ 24)"
    by linarith
  then show ?thesis
  proof cases
    case 1
    then show ?thesis
      by (auto simp: f32_of_int_def round32_int fle_def)
  next
    case 2
    then have "(2::real) ^ 24 \<le> real_of_int W"
      by (metis of_int_le_iff of_int_numeral of_int_power)
    then show ?thesis
      using round32_large [of "real_of_int W"]
      by (auto simp: f32_of_int_def fle_def MAX_SIZE_def)
  next
    case 3
    then have "real_of_int W \<le> - ((2::real) ^ 24)"
      by (metis of_int_le_iff of_int_minus of_int_numeral of_int_power)
    then show ?thesis
      using round32_large_neg [of "real_of_int W"]
      by (auto simp: f32_of_int_def fle_def MAX_SIZE_def)
  qed
qed

text \<open>An operation whose exact result is a binary32 value returns it.\<close>

lemma fadd_exact: "exact32 (a + b) \<Longrightarrow> fadd (Fin a) (Fin b) = Fin (a + b)"
  by (simp add: exact32_def)

lemma fsub_exact: "exact32 (a - b) \<Longrightarrow> fsub (Fin a) (Fin b) = Fin (a - b)"
  by (simp add: exact32_def fsub_def)

lemma fmul_exact: "exact32 (a * b) \<Longrightarrow> fmul (Fin a) (Fin b) = Fin (a * b)"
  by (simp add: exact32_def)

lemma fdiv_exact: "b \<noteq> 0 \<Longrightarrow> exact32 (a / b) \<Longrightarrow> fdiv (Fin a) (Fin b) = Fin (a / b)"
  by (simp add: exact32_def)

subsection \<open>Bitmap size\<close>

text \<open>
  C3 (as stated in the specification, refuted): the bitmap size is not the componentwise
  ceiling of \<open>s * (g + 2 * p)\<close>. With scale 1, padding 2 and a largest glyph of 10.25 by
  10.25 units, all binary32 values, the code returns 14 by 14; the ceiling is 15 by 15.
\<close>

theorem calculateSdfBitmapSize_ceiling_counterexample:
  "calculateSdfBitmapSize (Fin 1, Fin 1) (2, 2) (Fin (41 / 4), Fin (41 / 4))
     \<noteq> Some (\<lceil>1 * (41 / 4 + 2 * 2 :: real)\<rceil>, \<lceil>1 * (41 / 4 + 2 * 2 :: real)\<rceil>)"
  by (simp add: calculateSdfBitmapSize_def vec2_add_def vec2_mul_def scale_vec2_def vec2_of_ivec2_def ivec2_of_vec2_def f32_of_int_def
      round32_simps)

lemma extent_exact_sum:
  assumes "extent_exact s p g"
  shows "fadd (fmul (Fin s) (fadd (Fin g) (fmul (Fin 2) (f32_of_int p)))) (Fin (1 / 2)) =
           Fin (s * (g + 2 * real_of_int p) + 1 / 2)"
  using assms
  by (simp add: extent_exact_def f32_of_int_def exact32_def)

lemma f32_to_int_nonneg:
  assumes "0 \<le> a" "a < 2 ^ 31"
  shows "f32_to_int (Fin a) = Some \<lfloor>a\<rfloor>"
proof -
  have "0 \<le> \<lfloor>a\<rfloor>"
    using assms(1) by simp
  moreover have "\<lfloor>a\<rfloor> < 2 ^ 31"
    using assms(2) by (simp add: floor_less_iff)
  ultimately show ?thesis
    using assms(1) by (simp add: Let_def)
qed

text \<open>
  C3 (amended): the code adds one half and truncates. For a non-negative scale \<open>s\<close>,
  padding \<open>p\<close> and largest glyph size \<open>g\<close> for which the float operations of the
  expression are exact on both axes (\<open>extent_exact\<close>: the values \<open>2 * p\<close>, \<open>g + 2 * p\<close>,
  \<open>s * (g + 2 * p)\<close> and \<open>s * (g + 2 * p) + 1/2\<close> are binary32 values) and the result fits
  an \<^verbatim>\<open>int\<close>, the result is, per component, \<open>s * (g + 2 * p)\<close> rounded to the nearest
  integer, halves upward: \<open>\<lfloor>s * (g + 2 * p) + 1/2\<rfloor>\<close>. Where an operation rounds, the
  result is the truncation of the rounded sum, which can differ from it by one.
\<close>

theorem calculateSdfBitmapSize_rounds:
  assumes "0 \<le> sx" "0 \<le> sy" "0 \<le> fst p" "0 \<le> snd p" "0 \<le> gx" "0 \<le> gy"
    and "extent_exact sx (fst p) gx" "extent_exact sy (snd p) gy"
    and "sx * (gx + 2 * real_of_int (fst p)) + 1 / 2 < 2 ^ 31"
    and "sy * (gy + 2 * real_of_int (snd p)) + 1 / 2 < 2 ^ 31"
  shows "calculateSdfBitmapSize (Fin sx, Fin sy) p (Fin gx, Fin gy) =
           Some (\<lfloor>sx * (gx + 2 * real_of_int (fst p)) + 1 / 2\<rfloor>,
                 \<lfloor>sy * (gy + 2 * real_of_int (snd p)) + 1 / 2\<rfloor>)"
proof -
  have "0 \<le> sx * (gx + 2 * real_of_int (fst p)) + 1 / 2"
    using assms(1,3,5) by simp
  then have x: "f32_to_int (Fin (sx * (gx + 2 * real_of_int (fst p)) + 1 / 2)) =
                  Some \<lfloor>sx * (gx + 2 * real_of_int (fst p)) + 1 / 2\<rfloor>"
    using assms(9) by (rule f32_to_int_nonneg)
  have "0 \<le> sy * (gy + 2 * real_of_int (snd p)) + 1 / 2"
    using assms(2,4,6) by simp
  then have y: "f32_to_int (Fin (sy * (gy + 2 * real_of_int (snd p)) + 1 / 2)) =
                  Some \<lfloor>sy * (gy + 2 * real_of_int (snd p)) + 1 / 2\<rfloor>"
    using assms(10) by (rule f32_to_int_nonneg)
  show ?thesis
    unfolding calculateSdfBitmapSize_def ivec2_of_vec2_def vec2_add_def vec2_mul_def
      scale_vec2_def vec2_of_ivec2_def
    by (simp add: extent_exact_sum [OF assms(7)] extent_exact_sum [OF assms(8)] x y
        del: f32_to_int.simps)
qed

text \<open>
  Scale 1, padding 2 and a largest glyph of 10.25 units: every operation is exact, and
  14.25 is rounded to 14.
\<close>

theorem calculateSdfBitmapSize_rounds_witness:
  "calculateSdfBitmapSize (Fin 1, Fin 1) (2, 2) (Fin (41 / 4), Fin (41 / 4)) = Some (14, 14)"
  using calculateSdfBitmapSize_rounds [of 1 1 "(2, 2)" "41 / 4" "41 / 4"]
  by (simp add: extent_exact_def exact32_def round32_simps)

subsection \<open>Maxima tracked by the first pass\<close>

text \<open>
  C4 (the code departs from the claim): the claim says that after the first pass
  \<open>mMaxDescent\<close> is the largest absolute bottom bound over the glyphs whose outlines
  loaded. The assignment on line 205 takes the maximum with \<open>mMaxAscent\<close> instead of
  \<open>mMaxDescent\<close>. For the character set "g" (the space is appended) of \<open>descender_face\<close>
  the bottom bounds are \<open>-7\<close> and \<open>0\<close>, so the claimed value is 7; the code stores 15, the
  largest top bound.
\<close>

theorem first_pass_maxDescent_example:
  "mMaxDescent (snd (first_pass descender_face (TextureAtlas_init default_format)
                       (utf32_with_space ascii_toUtf32 ''g''))) = Fin 15
   \<and> Max (set (map (\<lambda>(l, b, r, t). \<bar>b\<bar>)
                 (loaded_bounds descender_face (utf32_with_space ascii_toUtf32 ''g'')))) = 7"
  by (simp add: first_pass_def first_pass_step_def descender_face_def default_format_def
      TextureAtlas_init_def utf32_with_space_def ascii_toUtf32_def loaded_bounds_def
      List.map_filter_simps std_max_def getWidth_def getHeight_def fsub_def round32_simps Let_def)

subsection \<open>Cells of the atlas grid\<close>

text \<open>
  C8 (the code departs from the claim): the claim says that every recorded texture
  rectangle lies within its page. The column count \<open>textureWidth / bitmapWidth - 1\<close> does
  not account for the one-pixel gutter that the cell stride adds, so the last cells of a
  row can pass the right edge of the page. For \<open>grid_face\<close> and \<open>small_format\<close> the
  bitmap is 8 by 8 pixels and there are 15 columns and 15 rows (both at least 1); with the
  character set "ABCDEFGHIJKLMN" the glyph of N (index 78) is the fifteenth of the first
  row and its rectangle spans the columns 126 to 134 of a page 128 pixels wide.
\<close>

theorem TextureAtlas_ctor_cell_outside_page:
  "case TextureAtlas_ctor ascii_toUtf32 grid_face small_format ''ABCDEFGHIJKLMN'' of
     Inl e \<Rightarrow> False
   | Inr a \<Rightarrow>
       mSdfBitmapSize a = (8, 8) \<and>
       numGlyphColumns small_format (mSdfBitmapSize a) = 15 \<and>
       numGlyphRows small_format (mSdfBitmapSize a) = 15 \<and>
       map tex_width (mTextures a) = [128] \<and>
       map_option (\<lambda>i. (mTextureIndex i, a_x1 (mTexCoords i), a_x2 (mTexCoords i)))
         (mGlyphMap a 78) = Some (0, 126, 134)"
  by (simp add: TextureAtlas_ctor_def first_pass_def first_pass_step_def grid_face_def
      small_format_def TextureAtlas_init_def utf32_with_space_def ascii_toUtf32_def
      insort_insert_key_def GlyphInfo_default_def calculateSdfBitmapSize_def vec2_add_def vec2_mul_def scale_vec2_def vec2_of_ivec2_def
      ivec2_of_vec2_def f32_of_int_def render_atlas_def render_glyph_def Area_make_def
      Area_offset_def signed_divide_int_def numGlyphColumns_def numGlyphRows_def
      std_max_def getWidth_def getHeight_def fsub_def round32_simps Let_def)

subsection \<open>The atlas cache\<close>

lemma getTextureAtlas_cache_unchanged:
  "getTextureAtlas toUtf32 mgr face format utf8Chars = Inr (r, mgr') \<Longrightarrow>
   mTrackedTextureAtlases mgr' = mTrackedTextureAtlases mgr"
  by (auto simp: getTextureAtlas_def TextureAtlas_create_def Let_def
      split: option.splits sum.splits)

lemma getTextureAtlas_hit:
  "make_CacheKey toUtf32 face format utf8Chars = Some key \<Longrightarrow>
   List.find (\<lambda>elem. CacheKey_eq (fst elem) key) (mTrackedTextureAtlases mgr) = Some elem \<Longrightarrow>
   getTextureAtlas toUtf32 mgr face format utf8Chars = Inr (snd elem, mgr)"
  by (simp add: getTextureAtlas_def)

lemma getTextureAtlas_miss:
  assumes "make_CacheKey toUtf32 face format utf8Chars = Some key"
    and "List.find (\<lambda>elem. CacheKey_eq (fst elem) key) (mTrackedTextureAtlases mgr) = None"
    and "getTextureAtlas toUtf32 mgr face format utf8Chars = Inr (r, mgr')"
  shows "ref_id r = buildCount mgr \<and> buildCount mgr' = buildCount mgr + 1 \<and>
         mTrackedTextureAtlases mgr' = mTrackedTextureAtlases mgr"
  using assms
  by (auto simp: getTextureAtlas_def TextureAtlas_create_def split: sum.splits)

lemma getTextureAtlas_miss_again:
  assumes "make_CacheKey toUtf32 face format utf8Chars = Some key"
    and "List.find (\<lambda>elem. CacheKey_eq (fst elem) key) (mTrackedTextureAtlases mgr) = None"
    and "getTextureAtlas toUtf32 mgr face format utf8Chars = Inr (r, mgr')"
  shows "\<exists>r' mgr''. getTextureAtlas toUtf32 mgr' face format utf8Chars = Inr (r', mgr'') \<and>
           ref_id r' = ref_id r + 1 \<and> buildCount mgr'' = buildCount mgr + 2"
  using assms
  by (auto simp: getTextureAtlas_def TextureAtlas_create_def split: sum.splits)

lemma TextureAtlas_ctor_descender:
  "\<exists>a. TextureAtlas_ctor ascii_toUtf32 descender_face default_format ''g'' = Inr a"
  by (simp add: TextureAtlas_ctor_def first_pass_def first_pass_step_def descender_face_def
      default_format_def TextureAtlas_init_def utf32_with_space_def ascii_toUtf32_def
      insort_insert_key_def GlyphInfo_default_def calculateSdfBitmapSize_def vec2_add_def vec2_mul_def scale_vec2_def vec2_of_ivec2_def
      ivec2_of_vec2_def f32_of_int_def signed_divide_int_def numGlyphColumns_def
      numGlyphRows_def Let_def std_max_def getWidth_def getHeight_def fsub_def round32_simps)

lemma make_CacheKey_descender:
  "\<exists>key. make_CacheKey ascii_toUtf32 descender_face default_format ''g'' = Some key"
  by (simp add: make_CacheKey_def maxGlyphSize_step_def descender_face_def
      default_format_def utf32_with_space_def ascii_toUtf32_def
      calculateSdfBitmapSize_def vec2_add_def vec2_mul_def scale_vec2_def vec2_of_ivec2_def
      ivec2_of_vec2_def f32_of_int_def Let_def std_max_def getWidth_def getHeight_def fsub_def
      round32_simps)

text \<open>
  C1 (the code departs from the claim): the claim says that on a miss the new atlas is
  appended to the cache's list, so that a second request with the same key returns the same
  object without another build. \<^verbatim>\<open>getTextureAtlas\<close> never stores into the list. Starting
  from the manager's initial state, two requests for the same face, format and character
  string "g" each build an atlas: the objects returned differ (identities 0 and 1), two
  atlases have been built, and the list is empty after each call.
\<close>

theorem getTextureAtlas_builds_twice:
  "case getTextureAtlas ascii_toUtf32 SdfTextManager_init descender_face default_format ''g'' of
     Inl e \<Rightarrow> False
   | Inr (r1, mgr1) \<Rightarrow>
       (case getTextureAtlas ascii_toUtf32 mgr1 descender_face default_format ''g'' of
          Inl e \<Rightarrow> False
        | Inr (r2, mgr2) \<Rightarrow>
            ref_id r1 = 0 \<and> ref_id r2 = 1 \<and> buildCount mgr1 = 1 \<and> buildCount mgr2 = 2 \<and>
            mTrackedTextureAtlases mgr1 = [] \<and> mTrackedTextureAtlases mgr2 = [])"
proof -
  obtain a where a: "TextureAtlas_ctor ascii_toUtf32 descender_face default_format ''g'' = Inr a"
    using TextureAtlas_ctor_descender by blast
  obtain key where key: "make_CacheKey ascii_toUtf32 descender_face default_format ''g'' = Some key"
    using make_CacheKey_descender by blast
  show ?thesis
    by (simp add: getTextureAtlas_def TextureAtlas_create_def SdfTextManager_init_def a key)
qed

subsection \<open>Wrap-around of the pen\<close>

lemma wrap_signed_id:
  assumes "0 < w" "- (2 ^ (w - 1)) \<le> v" "v < 2 ^ (w - 1)"
  shows "wrap_signed w v = v"
proof -
  have "(2::int) ^ w = 2 * 2 ^ (w - 1)"
    using assms(1) by (cases w) simp_all
  then have "(v + 2 ^ (w - 1)) mod 2 ^ w = v + 2 ^ (w - 1)"
    using assms by (intro mod_pos_pos_trivial) auto
  then show ?thesis by (simp add: wrap_signed_def)
qed

lemma wrap_signed_add_left: "wrap_signed w (wrap_signed w a + b) = wrap_signed w (a + b)"
proof -
  have eq: "wrap_signed w a + b + 2 ^ (w - 1) = (a + 2 ^ (w - 1)) mod 2 ^ w + b"
    by (simp add: wrap_signed_def)
  have "(wrap_signed w a + b + 2 ^ (w - 1)) mod 2 ^ w
               = ((a + 2 ^ (w - 1)) mod 2 ^ w + b) mod 2 ^ w"
    by (simp only: eq)
  also have "\<dots> = (a + 2 ^ (w - 1) + b) mod 2 ^ w"
    by (simp add: mod_add_left_eq)
  also have "\<dots> = (a + b + 2 ^ (w - 1)) mod 2 ^ w"
    by (simp add: ac_simps)
  finally show ?thesis by (simp add: wrap_signed_def)
qed

lemma wrap_signed_range:
  assumes "0 < w"
  shows "- (2 ^ (w - 1)) \<le> wrap_signed w v \<and> wrap_signed w v < 2 ^ (w - 1)"
proof -
  have p: "(2::int) ^ w = 2 * 2 ^ (w - 1)"
    using assms by (cases w) simp_all
  have "0 \<le> (v + 2 ^ (w - 1)) mod 2 ^ w" "(v + 2 ^ (w - 1)) mod 2 ^ w < 2 ^ w"
    by simp_all
  then show ?thesis
    unfolding wrap_signed_def using p by linarith
qed

subsection \<open>The line measure\<close>

lemma LineMeasure_loop_sum:
  assumes "\<forall>ch\<in>set chs. metrics (FT_Get_Char_Index face ch) \<noteq> None"
  shows "LineMeasure_loop face metrics chs pen w =
           Some (if chs = [] then w
                 else wrap_signed 32
                        (wrap_signed 64 (fst pen + sum_list (advances_x face metrics chs)) div 2 ^ 6))"
  using assms
proof (induction chs arbitrary: pen w)
  case Nil
  then show ?case by simp
next
  case (Cons ch chs)
  then obtain gm where gm: "metrics (FT_Get_Char_Index face ch) = Some gm"
    by auto
  have rest: "\<forall>c\<in>set chs. metrics (FT_Get_Char_Index face c) \<noteq> None"
    using Cons.prems by simp
  show ?case
  proof (cases "chs = []")
    case True
    then show ?thesis by (simp add: gm advances_x_def)
  next
    case False
    have "wrap_signed 64 (wrap_signed 64 (fst pen + fst (advance gm))
            + sum_list (advances_x face metrics chs))
          = wrap_signed 64 (fst pen + fst (advance gm) + sum_list (advances_x face metrics chs))"
      by (rule wrap_signed_add_left)
    moreover have "sum_list (advances_x face metrics (ch # chs))
          = fst (advance gm) + sum_list (advances_x face metrics chs)"
      by (simp add: advances_x_def gm)
    ultimately show ?thesis
      using False by (simp add: gm Cons.IH [OF rest] add.assoc)
  qed
qed

lemma LineMeasure_in_range:
  assumes "\<forall>ch\<in>set (toUtf32 line). metrics (FT_Get_Char_Index face ch) \<noteq> None"
    and "- (2 ^ 37) \<le> sum_list (advances_x face metrics (toUtf32 line))"
    and "sum_list (advances_x face metrics (toUtf32 line)) < 2 ^ 37"
    and "real_of_int W < MAX_SIZE"
  shows "LineMeasure toUtf32 W face metrics line =
           Some (sum_list (advances_x face metrics (toUtf32 line)) div 2 ^ 6 \<le> W)"
proof -
  let ?S = "sum_list (advances_x face metrics (toUtf32 line))"
  have s64: "wrap_signed 64 ?S = ?S"
    using assms(2,3) by (intro wrap_signed_id) auto
  have "- (2 ^ 31) \<le> ?S div 2 ^ 6" "?S div 2 ^ 6 < 2 ^ 31"
    using assms(2,3) by auto
  then have s32: "wrap_signed 32 (?S div 2 ^ 6) = ?S div 2 ^ 6"
    by (intro wrap_signed_id) auto
  show ?thesis
  proof (cases "toUtf32 line = []")
    case True
    then show ?thesis
      using assms(4) by (simp add: LineMeasure_def fle_MAX_SIZE advances_x_def)
  next
    case False
    then show ?thesis
      using assms(4) LineMeasure_loop_sum [OF assms(1), of "(0, 0)" 0] s64 s32
      by (simp add: LineMeasure_def fle_MAX_SIZE)
  qed
qed

lemma lineMeasure_maxWidth_unbounded: "fst sz \<le> 0 \<Longrightarrow> lineMeasure_maxWidth sz = Some 1000000"
  by (simp add: lineMeasure_maxWidth_def MAX_SIZE_def)

text \<open>
  C5 (as stated in the specification, refuted): acceptance is not equivalent to "measured
  width at most \<open>W\<close>" for every positive \<open>W\<close>. A width of 1000000 or more takes the early
  return: with \<open>W = 1000000\<close> a single glyph whose advance is 64000064 (1000001 pixels) has
  its metrics cached, is wider than \<open>W\<close>, and is accepted.
\<close>

theorem LineMeasure_wide_box_counterexample:
  "0 < (1000000 :: int) \<and>
   wide_metrics (FT_Get_Char_Index descender_face 103) \<noteq> None \<and>
   ascii_toUtf32 ''g'' = [103] \<and>
   LineMeasure ascii_toUtf32 1000000 descender_face wide_metrics ''g'' = Some True \<and>
   \<not> sum_list (advances_x descender_face wide_metrics (ascii_toUtf32 ''g'')) div 2 ^ 6 \<le> 1000000"
  by (simp add: LineMeasure_def MAX_SIZE_def f32_of_int_def round32_simps fle_def
      wide_metrics_def descender_face_def ascii_toUtf32_def advances_x_def)

text \<open>
  C5 (amended): for a line whose glyphs all have cached metrics and whose advances sum to a
  value between \<open>-2^37\<close> and \<open>2^37\<close> (so that neither the pen nor the measured width
  leaves its machine range), and for every maximum width \<open>W\<close> below 1000000, the measure
  accepts the line if and only if the sum of the cached \<open>advance.x\<close> values shifted right by
  6 is at most \<open>W\<close>. For every \<open>W\<close> of 1000000 or more every line is accepted, and a box
  width of zero or less is mapped to 1000000, so that every line is accepted.
\<close>

theorem LineMeasure_accepts:
  "(real_of_int W < MAX_SIZE \<and>
    (\<forall>ch\<in>set (toUtf32 line). metrics (FT_Get_Char_Index face ch) \<noteq> None) \<and>
    - (2 ^ 37) \<le> sum_list (advances_x face metrics (toUtf32 line)) \<and>
    sum_list (advances_x face metrics (toUtf32 line)) < 2 ^ 37
      \<longrightarrow> LineMeasure toUtf32 W face metrics line =
            Some (sum_list (advances_x face metrics (toUtf32 line)) div 2 ^ 6 \<le> W)) \<and>
   (MAX_SIZE \<le> real_of_int W \<longrightarrow> LineMeasure toUtf32 W face metrics line = Some True) \<and>
   (fst sz \<le> 0 \<longrightarrow>
      lineMeasure_maxWidth sz = Some 1000000 \<and>
      (\<forall>maxWidth. lineMeasure_maxWidth sz = Some maxWidth \<longrightarrow>
         LineMeasure toUtf32 maxWidth face metrics line = Some True))"
proof (intro conjI impI allI)
  assume "real_of_int W < MAX_SIZE \<and>
    (\<forall>ch\<in>set (toUtf32 line). metrics (FT_Get_Char_Index face ch) \<noteq> None) \<and>
    - (2 ^ 37) \<le> sum_list (advances_x face metrics (toUtf32 line)) \<and>
    sum_list (advances_x face metrics (toUtf32 line)) < 2 ^ 37"
  then show "LineMeasure toUtf32 W face metrics line =
            Some (sum_list (advances_x face metrics (toUtf32 line)) div 2 ^ 6 \<le> W)"
    by (intro LineMeasure_in_range) simp_all
next
  assume "MAX_SIZE \<le> real_of_int W"
  then show "LineMeasure toUtf32 W face metrics line = Some True"
    by (simp add: LineMeasure_def fle_MAX_SIZE)
next
  assume "fst sz \<le> 0"
  then show "lineMeasure_maxWidth sz = Some 1000000"
    by (rule lineMeasure_maxWidth_unbounded)
next
  fix maxWidth
  assume "fst sz \<le> 0" "lineMeasure_maxWidth sz = Some maxWidth"
  then have "maxWidth = 1000000"
    by (simp add: lineMeasure_maxWidth_unbounded)
  then show "LineMeasure toUtf32 maxWidth face metrics line = Some True"
    by (simp add: LineMeasure_def MAX_SIZE_def f32_of_int_def round32_simps fle_def)
qed

text \<open>
  The line "gg" measures 36 pixels: it is accepted at a width of exactly 36 and rejected at
  35; it is accepted at 1000000, which is the width of a box without a width.
\<close>

theorem LineMeasure_accepts_witness:
  "LineMeasure ascii_toUtf32 36 descender_face example_metrics ''gg'' = Some True \<and>
   LineMeasure ascii_toUtf32 35 descender_face example_metrics ''gg'' = Some False \<and>
   LineMeasure ascii_toUtf32 1000000 descender_face example_metrics ''gg'' = Some True \<and>
   lineMeasure_maxWidth (0, 0) = Some 1000000"
  using LineMeasure_accepts [of 36 ascii_toUtf32 "''gg''" example_metrics descender_face "(0, 0)"]
    LineMeasure_accepts [of 35 ascii_toUtf32 "''gg''" example_metrics descender_face "(0, 0)"]
    LineMeasure_accepts [of 1000000 ascii_toUtf32 "''gg''" example_metrics descender_face "(0, 0)"]
  by (simp add: MAX_SIZE_def example_metrics_def descender_face_def ascii_toUtf32_def
      advances_x_def)

subsection \<open>Glyph placements\<close>

lemma measure_line_placements:
  assumes "\<forall>ch\<in>set chs. metrics (FT_Get_Char_Index face ch) \<noteq> None"
    and "\<forall>k<length chs. in_FT_Pos_range (p + sum_list (take k (advances_x face metrics chs)))"
  shows "measure_line face metrics y chs (p, q) acc =
           Some (acc @ map (\<lambda>k. (FT_Get_Char_Index face (chs ! k),
                     (pen_xPos (p + sum_list (take k (advances_x face metrics chs))), y)))
                   [0..<length chs])"
  using assms
proof (induction chs arbitrary: p q acc)
  case Nil
  then show ?case by simp
next
  case (Cons ch chs)
  obtain gm where gm: "metrics (FT_Get_Char_Index face ch) = Some gm"
    using Cons.prems(1) by auto
  let ?a = "fst (advance gm)"
  have adv: "advances_x face metrics (ch # chs) = ?a # advances_x face metrics chs"
    by (simp add: advances_x_def gm)
  have rest: "\<forall>c\<in>set chs. metrics (FT_Get_Char_Index face c) \<noteq> None"
    using Cons.prems(1) by simp
  show ?case
  proof (cases "chs = []")
    case True
    then show ?thesis by (simp add: gm pen_xPos_def)
  next
    case False
    then have "in_FT_Pos_range (p + sum_list (take 1 (advances_x face metrics (ch # chs))))"
      using Cons.prems(2) by (cases chs) auto
    then have "in_FT_Pos_range (p + ?a)"
      by (simp add: adv)
    then have w: "wrap_signed 64 (p + ?a) = p + ?a"
      by (intro wrap_signed_id) (auto simp: in_FT_Pos_range_def)
    have range': "\<forall>k<length chs. in_FT_Pos_range (p + ?a + sum_list (take k (advances_x face metrics chs)))"
    proof (intro allI impI)
      fix k assume "k < length chs"
      then have "in_FT_Pos_range (p + sum_list (take (Suc k) (advances_x face metrics (ch # chs))))"
        using Cons.prems(2) by auto
      then show "in_FT_Pos_range (p + ?a + sum_list (take k (advances_x face metrics chs)))"
        by (simp add: adv add.assoc)
    qed
    show ?thesis
      using Cons.IH [OF rest range', of "wrap_signed 64 (q + snd (advance gm))"
          "acc @ [(FT_Get_Char_Index face ch, (pen_xPos p, y))]"]
      by (simp add: gm w adv map_upt_Suc add.assoc pen_xPos_def del: upt_Suc)
  qed
qed

lemma line_y_funpow: "line_y h i = ((\<lambda>v. fadd v h) ^^ i) (Fin 0)"
  by (induction i) simp_all

lemma fadd_funpow_swap: "fadd (((\<lambda>v. fadd v h) ^^ i) y) h = ((\<lambda>v. fadd v h) ^^ i) (fadd y h)"
  by (induction i) simp_all

lemma measure_lines_placements:
  assumes "\<forall>line\<in>set lines. \<forall>ch\<in>set (toUtf32 line). metrics (FT_Get_Char_Index face ch) \<noteq> None"
    and "\<forall>line\<in>set lines. \<forall>k<length (toUtf32 line).
           in_FT_Pos_range (sum_list (take k (advances_x face metrics (toUtf32 line))))"
  shows "measure_lines toUtf32 face metrics h lines y acc =
           Some (acc @ concat (map (\<lambda>i. placements_of_line face metrics
                                          (((\<lambda>v. fadd v h) ^^ i) y)
                                          (map toUtf32 lines ! i))
                               [0..<length lines]))"
  using assms
proof (induction lines arbitrary: y acc)
  case Nil
  then show ?case by simp
next
  case (Cons line lines)
  have l1: "measure_line face metrics y (toUtf32 line) (0, 0) acc =
              Some (acc @ placements_of_line face metrics y (toUtf32 line))"
    using Cons.prems measure_line_placements [of "toUtf32 line" metrics face 0 y 0 acc]
    by (simp add: placements_of_line_def)
  have rest: "\<forall>line\<in>set lines. \<forall>ch\<in>set (toUtf32 line). metrics (FT_Get_Char_Index face ch) \<noteq> None"
    "\<forall>line\<in>set lines. \<forall>k<length (toUtf32 line).
           in_FT_Pos_range (sum_list (take k (advances_x face metrics (toUtf32 line))))"
    using Cons.prems by simp_all
  show ?case
    using Cons.IH [OF rest, of "fadd y h" "acc @ placements_of_line face metrics y (toUtf32 line)"]
    by (simp add: l1 map_upt_Suc fadd_funpow_swap del: upt_Suc)
qed

lemma sum_list_abs_bound:
  fixes xs :: "int list"
  assumes "\<forall>a\<in>set xs. - B \<le> a \<and> a \<le> B"
  shows "\<bar>sum_list xs\<bar> \<le> int (length xs) * B"
  using assms
proof (induction xs)
  case Nil
  then show ?case by simp
next
  case (Cons a xs)
  then have "\<bar>sum_list xs\<bar> \<le> int (length xs) * B" "- B \<le> a" "a \<le> B"
    by simp_all
  then show ?case by (simp add: algebra_simps)
qed

lemma pen_stays_in_range:
  assumes "\<forall>ch\<in>set chs. \<exists>gm. metrics (FT_Get_Char_Index face ch) = Some gm \<and>
             - (2 ^ 31) \<le> fst (advance gm) \<and> fst (advance gm) < 2 ^ 31"
    and "length chs < 2 ^ 32"
  shows "in_FT_Pos_range (sum_list (take k (advances_x face metrics chs)))"
proof -
  let ?xs = "take k (advances_x face metrics chs)"
  have "\<forall>a\<in>set (advances_x face metrics chs). - (2 ^ 31) \<le> a \<and> a \<le> 2 ^ 31"
    using assms(1) by (fastforce simp: advances_x_def)
  then have "\<forall>a\<in>set ?xs. - (2 ^ 31) \<le> a \<and> a \<le> 2 ^ 31"
    by (meson in_set_takeD)
  then have "\<bar>sum_list ?xs\<bar> \<le> int (length ?xs) * 2 ^ 31"
    by (rule sum_list_abs_bound)
  moreover have "int (length ?xs) \<le> 2 ^ 32 - 1"
    using assms(2) by (simp add: advances_x_def)
  then have "int (length ?xs) * 2 ^ 31 \<le> (2 ^ 32 - 1) * 2 ^ 31"
    by (rule mult_right_mono) simp
  ultimately have "\<bar>sum_list ?xs\<bar> \<le> (2 ^ 32 - 1) * 2 ^ 31"
    by linarith
  then have "- (2 ^ 63) \<le> sum_list ?xs \<and> sum_list ?xs < 2 ^ 63"
    by simp linarith
  then show ?thesis
    by (simp only: in_FT_Pos_range_def)
qed

lemma pen_xPos_exact:
  assumes "- (2 ^ 24) < S" "S < 2 ^ 24 - 32"
  shows "pen_xPos S = Fin (real_of_int S / 64 + 1 / 2)"
proof -
  have a: "round32 (real_of_int S) = Fin (real_of_int S)"
    using assms by (intro round32_int) simp
  have b: "round32 (real_of_int S / 64) = Fin (real_of_int S / 64)"
    using assms round32_div_pow2 [of S 6] by simp
  have eq: "real_of_int S / 64 + 1 / 2 = real_of_int (S + 32) / 2 ^ 6"
    by simp
  have c: "round32 (real_of_int S / 64 + 1 / 2) = Fin (real_of_int S / 64 + 1 / 2)"
    unfolding eq using assms by (intro round32_div_pow2) simp_all
  show ?thesis
    by (simp add: pen_xPos_def f32_of_int_def a b c)
qed

lemma line_y_exact:
  assumes "\<forall>j\<le>i. exact32 (real j * h)"
  shows "line_y (Fin h) i = Fin (real i * h)"
  using assms
proof (induction i)
  case 0
  then show ?case by simp
next
  case (Suc i)
  have "exact32 (real (Suc i) * h)"
    using Suc.prems by blast
  moreover have "real (Suc i) * h = real i * h + h"
    by (simp add: algebra_simps)
  ultimately have "round32 (real i * h + h) = Fin (real i * h + h)"
    by (simp add: exact32_def)
  then show ?case
    using Suc by (simp add: algebra_simps)
qed

text \<open>
  C6 (as stated in the specification, refuted): the position of a glyph is not always the
  sum of the preceding advances divided by 64 plus one half, nor the line number times the
  line height. The pen is converted to a float before the division, and a float holds 24
  significant bits: with a g whose advance is \<open>2^24 + 1\<close> units the second g of the line
  "gg" is placed at \<open>x = 262144.5\<close>, while the sum of the preceding advances divided by 64
  plus one half is \<open>262144.515625\<close>. The vertical position is added up line by line in
  binary32: with a font of size 12 and the extra leading \<^verbatim>\<open>0.1f\<close> the line height is
  \<open>14784921 / 2^20\<close> (about 14.0999994) and the fourth line is placed at
  \<open>y = 11088691 / 2^18\<close> (about 42.2999992), which is neither three times that line
  height (about 42.2999983) nor three times \<open>12 / 32 * (29 + 8 + (1/2 + 0.1f))\<close>.
\<close>

theorem measureGlyphs_rounding_counterexample:
  "measureGlyphs newline_lineBreak ascii_toUtf32 (example_box\<lparr> tb_mText := ''gg'' \<rparr>)
     long_metrics example_options =
     Some [(103, (Fin (1 / 2), Fin 0)), (103, (Fin (524289 / 2), Fin 0))] \<and>
   real_of_int (sum_list (take 1 (advances_x descender_face long_metrics (ascii_toUtf32 ''gg''))))
       / 64 + 1 / 2 \<noteq> 524289 / 2 \<and>
   measureGlyphs newline_lineBreak ascii_toUtf32 four_line_box example_metrics leading_options =
     Some [(103, (Fin (1 / 2), Fin 0)), (103, (Fin (1 / 2), Fin (14784921 / 1048576))),
           (103, (Fin (1 / 2), Fin (14784921 / 524288))),
           (103, (Fin (1 / 2), Fin (11088691 / 262144)))] \<and>
   lineHeight_of font12 descender_face leading_options = Fin (14784921 / 1048576) \<and>
   3 * (14784921 / 1048576) \<noteq> (11088691 / 262144 :: real) \<and>
   3 * (12 / 32 * (29 + 8 + (1 / 2 + 13421773 / 134217728))) \<noteq> (11088691 / 262144 :: real)"
proof -
  have r: "round32 16777217 = Fin 16777216"
    using round32_at [of 24 16777217] by (simp add: round_even_def)
  have first: "measureGlyphs newline_lineBreak ascii_toUtf32 (example_box\<lparr> tb_mText := ''gg'' \<rparr>)
     long_metrics example_options =
     Some [(103, (Fin (1 / 2), Fin 0)), (103, (Fin (524289 / 2), Fin 0))]"
    by (simp add: measureGlyphs_def calculateLineBreaks_def lineMeasure_maxWidth_def MAX_SIZE_def
        newline_lineBreak_def example_box_def example_font_def example_options_def
        long_metrics_def descender_face_def ascii_toUtf32_def advances_x_def f32_of_int_def
        wrap_signed_def r round32_simps)
  have l1: "round32 (80530637 / 134217728) = Fin (5033165 / 8388608)"
    using round32_at [of "- 1" "80530637 / 134217728"] by (simp add: round_even_def)
  have l2: "round32 (315411661 / 8388608) = Fin (4928307 / 131072)"
    using round32_at [of 5 "315411661 / 8388608"] by (simp add: round_even_def)
  have l3: "round32 (14784921 / 1048576) = Fin (14784921 / 1048576)"
    using round32_div_pow2 [of 14784921 20] by simp
  have l4: "round32 (14784921 / 524288) = Fin (14784921 / 524288)"
    using round32_div_pow2 [of 14784921 19] by simp
  have l5: "round32 (44354763 / 1048576) = Fin (11088691 / 262144)"
    using round32_at [of 5 "44354763 / 1048576"] by (simp add: round_even_def)
  have h: "lineHeight_of font12 descender_face leading_options = Fin (14784921 / 1048576)"
    by (simp add: lineHeight_of_def font12_def leading_options_def descender_face_def
        getAscent_def getDescent_def getLeading_def f32_of_int_def round32_simps l1 l2 l3)
  have ff: "font_face font12 = Some descender_face"
    by (simp add: font12_def)
  have gi: "FT_Get_Char_Index descender_face ch = ch" for ch
    by (simp add: descender_face_def)
  have second: "measureGlyphs newline_lineBreak ascii_toUtf32 four_line_box example_metrics
       leading_options =
     Some [(103, (Fin (1 / 2), Fin 0)), (103, (Fin (1 / 2), Fin (14784921 / 1048576))),
           (103, (Fin (1 / 2), Fin (14784921 / 524288))),
           (103, (Fin (1 / 2), Fin (11088691 / 262144)))]"
    by (simp add: measureGlyphs_def calculateLineBreaks_def lineMeasure_maxWidth_def MAX_SIZE_def
        newline_lineBreak_def four_line_box_def ff gi h example_metrics_def
        ascii_toUtf32_def f32_of_int_def wrap_signed_def round32_simps l3 l4 l5)
  show ?thesis
    using first second h
    by (simp add: long_metrics_def descender_face_def ascii_toUtf32_def advances_x_def)
qed

text \<open>
  C6 (amended): for an empty text \<^verbatim>\<open>measureGlyphs\<close> returns the empty sequence. For a
  non-empty text that the line breaker splits into \<open>mLines\<close>, when every glyph of these
  lines has an entry in the metrics table, it returns, line after line, for the \<open>k\<close>-th
  code point of line \<open>i\<close> its glyph at \<open>x = pen_xPos S\<close>, where \<open>S\<close> is the sum of the
  \<open>advance.x\<close> of the glyphs before it on the line, converted to a float, divided by 64
  and increased by one half, each operation rounding to binary32; and at
  \<open>y = line_y lineHeight i\<close>, the float sum of \<open>i\<close> line heights added one after the other
  to zero, where \<open>lineHeight\<close> is the float product of \<open>fontSize / 32\<close> and
  \<open>(ascent + descent) + leading\<close> and \<open>leading\<close> is the font's leading plus the leading
  of the draw options (\<open>placements_of_lines\<close> is this list). The position \<open>x\<close> is exactly
  \<open>S / 64 + 1/2\<close> when \<open>S\<close> lies between \<open>-2^24\<close> and \<open>2^24 - 32\<close>, and \<open>y\<close> is exactly
  \<open>i\<close> times the line height when every multiple of the line height up to the \<open>i\<close>-th
  is a binary32 value. The entries hold what an \<^verbatim>\<open>ivec2\<close> can hold, and a line has
  fewer than \<open>2^32\<close> code points, so that the pen stays within an \<^verbatim>\<open>FT_Pos\<close>.
\<close>

theorem measureGlyphs_placements:
  "(tb_mText tbox = [] \<longrightarrow>
      measureGlyphs lineBreakUtf8 toUtf32 tbox metrics drawOptions = Some []) \<and>
   (tb_mText tbox \<noteq> [] \<and> font_face (tb_mFont tbox) = Some face \<and>
    calculateLineBreaks lineBreakUtf8 toUtf32 tbox metrics = Some mLines \<and>
    (\<forall>line\<in>set mLines.
       length (toUtf32 line) < 2 ^ 32 \<and>
       (\<forall>ch\<in>set (toUtf32 line).
          \<exists>gm. metrics (FT_Get_Char_Index face ch) = Some gm \<and>
               - (2 ^ 31) \<le> fst (advance gm) \<and> fst (advance gm) < 2 ^ 31))
    \<longrightarrow> measureGlyphs lineBreakUtf8 toUtf32 tbox metrics drawOptions =
          Some (placements_of_lines face metrics
                  (fmul (fdiv (font_mSize (tb_mFont tbox)) (Fin 32))
                     (fadd (fadd (getAscent face) (getDescent face))
                        (fadd (getLeading face) (opt_leading drawOptions))))
                  (map toUtf32 mLines))) \<and>
   (- (2 ^ 24) < S \<and> S < 2 ^ 24 - 32 \<longrightarrow> pen_xPos S = Fin (real_of_int S / 64 + 1 / 2)) \<and>
   ((\<forall>j\<le>i. exact32 (real j * h)) \<longrightarrow> line_y (Fin h) i = Fin (real i * h))"
proof (intro conjI impI)
  assume "tb_mText tbox = []"
  then show "measureGlyphs lineBreakUtf8 toUtf32 tbox metrics drawOptions = Some []"
    by (simp add: measureGlyphs_def)
next
  assume a: "tb_mText tbox \<noteq> [] \<and> font_face (tb_mFont tbox) = Some face \<and>
    calculateLineBreaks lineBreakUtf8 toUtf32 tbox metrics = Some mLines \<and>
    (\<forall>line\<in>set mLines.
       length (toUtf32 line) < 2 ^ 32 \<and>
       (\<forall>ch\<in>set (toUtf32 line).
          \<exists>gm. metrics (FT_Get_Char_Index face ch) = Some gm \<and>
               - (2 ^ 31) \<le> fst (advance gm) \<and> fst (advance gm) < 2 ^ 31))"
  have present: "\<forall>line\<in>set mLines. \<forall>ch\<in>set (toUtf32 line).
                   metrics (FT_Get_Char_Index face ch) \<noteq> None"
    using a by fastforce
  have range: "\<forall>line\<in>set mLines. \<forall>k<length (toUtf32 line).
       in_FT_Pos_range (sum_list (take k (advances_x face metrics (toUtf32 line))))"
    using a pen_stays_in_range by blast
  have "measure_lines toUtf32 face metrics
               (lineHeight_of (tb_mFont tbox) face drawOptions) mLines (Fin 0) [] =
             Some ([] @ concat (map (\<lambda>i. placements_of_line face metrics
                     (((\<lambda>v. fadd v (lineHeight_of (tb_mFont tbox) face drawOptions)) ^^ i) (Fin 0))
                     (map toUtf32 mLines ! i)) [0..<length mLines]))"
    using present range by (rule measure_lines_placements)
  then show "measureGlyphs lineBreakUtf8 toUtf32 tbox metrics drawOptions =
          Some (placements_of_lines face metrics
                  (fmul (fdiv (font_mSize (tb_mFont tbox)) (Fin 32))
                     (fadd (fadd (getAscent face) (getDescent face))
                        (fadd (getLeading face) (opt_leading drawOptions))))
                  (map toUtf32 mLines))"
    using a
    by (simp add: measureGlyphs_def placements_of_lines_def lineHeight_of_def line_y_funpow)
next
  assume "- (2 ^ 24) < S \<and> S < 2 ^ 24 - 32"
  then show "pen_xPos S = Fin (real_of_int S / 64 + 1 / 2)"
    by (intro pen_xPos_exact) simp_all
next
  assume "\<forall>j\<le>i. exact32 (real j * h)"
  then show "line_y (Fin h) i = Fin (real i * h)"
    by (rule line_y_exact)
qed

text \<open>
  The text of \<open>example_box\<close> is "g g", a line feed, "gg"; the advance of g is 18 pixels,
  that of the space 9, and the line height is \<open>64 / 32 * (29 + 8 + 1/2) = 75\<close>.
\<close>

theorem measureGlyphs_placements_witness:
  "measureGlyphs newline_lineBreak ascii_toUtf32 example_box example_metrics example_options =
     Some [(103, (Fin (1 / 2), Fin 0)), (32, (Fin (37 / 2), Fin 0)), (103, (Fin (55 / 2), Fin 0)),
           (103, (Fin (1 / 2), Fin 75)), (103, (Fin (37 / 2), Fin 75))] \<and>
   measureGlyphs newline_lineBreak ascii_toUtf32 (example_box\<lparr> tb_mText := [] \<rparr>)
     example_metrics example_options = Some [] \<and>
   pen_xPos 1152 = Fin (37 / 2) \<and> line_y (Fin 75) 1 = Fin 75"
  using measureGlyphs_placements [of example_box newline_lineBreak ascii_toUtf32
      example_metrics example_options descender_face "[''g g'', ''gg'']" 1152 1 75]
    measureGlyphs_placements [of "example_box\<lparr> tb_mText := [] \<rparr>" newline_lineBreak
      ascii_toUtf32 example_metrics example_options descender_face "[]" 1152 1 75]
  by (simp add: example_box_def example_font_def example_options_def example_metrics_def
      descender_face_def ascii_toUtf32_def calculateLineBreaks_def lineMeasure_maxWidth_def
      MAX_SIZE_def newline_lineBreak_def
      placements_of_lines_def placements_of_line_def advances_x_def pen_xPos_def
      getAscent_def getDescent_def getLeading_def f32_of_int_def exact32_def le_Suc_eq
      round32_simps)

subsection \<open>The metrics cache of an SdfText\<close>

lemma reachable_cache_empty: "reachable toUtf32 mgr \<Longrightarrow> mTrackedTextureAtlases mgr = []"
  by (induction rule: reachable.induct)
    (simp_all add: SdfTextManager_init_def getTextureAtlas_cache_unchanged)

lemma cacheGlyphMetrics_dom:
  "dom (foldl (cacheGlyphMetrics_step face) metrics cm) = dom metrics \<union> snd ` set cm"
  by (induction cm arbitrary: metrics) (auto simp: cacheGlyphMetrics_step_def Let_def)

text \<open>The advances that \<^verbatim>\<open>cacheGlyphMetrics\<close> stores are within the range of an \<^verbatim>\<open>int\<close>.\<close>

lemma cacheGlyphMetrics_int32:
  assumes "foldl (cacheGlyphMetrics_step face) metrics cm g = Some gm"
    and "\<forall>g gm. metrics g = Some gm \<longrightarrow>
           - (2 ^ 31) \<le> fst (advance gm) \<and> fst (advance gm) < 2 ^ 31"
  shows "- (2 ^ 31) \<le> fst (advance gm) \<and> fst (advance gm) < 2 ^ 31"
  using assms
proof (induction cm arbitrary: metrics)
  case Nil
  then show ?case by simp
next
  case (Cons it cm)
  have "\<forall>g gm. cacheGlyphMetrics_step face metrics it g = Some gm \<longrightarrow>
           - (2 ^ 31) \<le> fst (advance gm) \<and> fst (advance gm) < 2 ^ 31"
    using Cons.prems(2) wrap_signed_range [of 32 "fst (glyph_advance face (snd it))"]
    by (auto simp: cacheGlyphMetrics_step_def Let_def)
  then show ?case
    using Cons.IH Cons.prems(1) by simp
qed

lemma first_pass_step_mCharMap:
  "mCharMap (snd (first_pass_step face st ch)) =
     AList.update ch (FT_Get_Char_Index face ch) (mCharMap (snd st))"
  by (simp add: first_pass_step_def Let_def split: option.splits prod.splits)

lemma first_pass_steps_mCharMap:
  "ch \<in> set chs \<Longrightarrow>
   map_of (mCharMap (snd (foldl (first_pass_step face) st chs))) ch =
     Some (FT_Get_Char_Index face ch)"
proof (induction chs arbitrary: st rule: rev_induct)
  case Nil
  then show ?case by simp
next
  case (snoc c chs)
  show ?case
  proof (cases "ch = c")
    case True
    then show ?thesis by (simp add: first_pass_step_mCharMap update_conv')
  next
    case False
    then have "ch \<in> set chs" using snoc.prems by simp
    then show ?thesis
      using False snoc.IH by (simp add: first_pass_step_mCharMap update_conv')
  qed
qed

lemma render_atlases_mCharMap:
  "mCharMap (foldl (render_atlas face format) a renderAtlases) = mCharMap a"
  by (induction renderAtlases arbitrary: a) (simp_all add: render_atlas_def)

lemma TextureAtlas_ctor_mCharMap:
  assumes "TextureAtlas_ctor toUtf32 face format utf8Chars = Inr a"
  shows "mCharMap a =
           mCharMap (snd (first_pass face (TextureAtlas_init format)
                            (utf32_with_space toUtf32 utf8Chars)))"
  using assms
  by (auto simp: TextureAtlas_ctor_def Let_def render_atlases_mCharMap
      split: prod.splits if_splits option.splits)

lemma measure_line_returns:
  "\<forall>ch\<in>set chs. metrics (FT_Get_Char_Index face ch) \<noteq> None \<Longrightarrow>
   measure_line face metrics y chs pen result \<noteq> None"
  by (induction chs arbitrary: pen result) (auto simp: Let_def)

lemma measure_lines_returns:
  assumes "\<forall>line\<in>set lines. \<forall>ch\<in>set (toUtf32 line).
             metrics (FT_Get_Char_Index face ch) \<noteq> None"
  shows "measure_lines toUtf32 face metrics h lines y result \<noteq> None"
  using assms
proof (induction lines arbitrary: y result)
  case Nil
  then show ?case by simp
next
  case (Cons line lines)
  then have "measure_line face metrics y (toUtf32 line) (0, 0) result \<noteq> None"
    by (intro measure_line_returns) simp
  then obtain r where "measure_line face metrics y (toUtf32 line) (0, 0) result = Some r"
    by blast
  then show ?case using Cons by simp
qed

lemma LineMeasure_returns:
  "\<forall>ch\<in>set (toUtf32 line). metrics (FT_Get_Char_Index face ch) \<noteq> None \<Longrightarrow>
   LineMeasure toUtf32 W face metrics line \<noteq> None"
  by (auto simp: LineMeasure_def LineMeasure_loop_sum)

text \<open>
  C10: when the constructor of an \<^verbatim>\<open>SdfText\<close> has completed, its metrics cache holds an
  entry for every glyph that is a value of the atlas's character map. Consequently, for
  every string whose code points all belong to the character set the atlas was built for
  (the code points of the character string, and the space), every lookup of the layout
  finds its entry: the line measure and the placement loop return a result, and so does
  \<^verbatim>\<open>measureGlyphs\<close> on a box with the font of the \<^verbatim>\<open>SdfText\<close> whenever the lines it
  is handed are made of such code points. The manager is in a state it can reach from its
  initial one.
\<close>

theorem SdfText_ctor_metrics_cover:
  assumes "SdfText_ctor toUtf32 mgr font format utf8Chars = Inr (t, mgr')"
    and "reachable toUtf32 mgr"
  shows "(\<forall>it\<in>set (mCharMap (ref_atlas (mTextureAtlases t))).
            mCachedGlyphMetrics t (snd it) \<noteq> None) \<and>
            (\<forall>face s. font_face font = Some face \<and>
                 set (toUtf32 s) \<subseteq> set (utf32_with_space toUtf32 utf8Chars) \<longrightarrow>
               (\<forall>ch\<in>set (toUtf32 s).
                   mCachedGlyphMetrics t (FT_Get_Char_Index face ch) \<noteq> None) \<and>
               (\<forall>W. LineMeasure toUtf32 W face (mCachedGlyphMetrics t) s \<noteq> None) \<and>
               (\<forall>y pen result.
                   measure_line face (mCachedGlyphMetrics t) y (toUtf32 s) pen result \<noteq> None)) \<and>
            (\<forall>tbox lineBreakUtf8 drawOptions mLines.
               tb_mFont tbox = font \<and>
               calculateLineBreaks lineBreakUtf8 toUtf32 tbox (mCachedGlyphMetrics t) = Some mLines \<and>
               (\<forall>line\<in>set mLines.
                  set (toUtf32 line) \<subseteq> set (utf32_with_space toUtf32 utf8Chars)) \<longrightarrow>
               measureGlyphs lineBreakUtf8 toUtf32 tbox (mCachedGlyphMetrics t) drawOptions
                 \<noteq> None)"
proof (intro conjI impI allI)
  obtain face atlasRef where face: "font_face font = Some face"
    and get: "getTextureAtlas toUtf32 mgr face format utf8Chars = Inr (atlasRef, mgr')"
    and t: "t = \<lparr> mFont = font, mFormat = format, mTextureAtlases = atlasRef,
                   mCachedGlyphMetrics = cacheGlyphMetrics face (ref_atlas atlasRef) Map.empty \<rparr>"
    using assms(1) by (auto simp: SdfText_ctor_def split: option.splits sum.splits)
  have empty: "mTrackedTextureAtlases mgr = []"
    using assms(2) by (rule reachable_cache_empty)
  have dom: "dom (mCachedGlyphMetrics t) = snd ` set (mCharMap (ref_atlas (mTextureAtlases t)))"
    by (simp add: t cacheGlyphMetrics_def cacheGlyphMetrics_dom)
  show "\<forall>it\<in>set (mCharMap (ref_atlas (mTextureAtlases t))). mCachedGlyphMetrics t (snd it) \<noteq> None"
    using dom by (metis domIff imageI)
  obtain a where ctor: "TextureAtlas_ctor toUtf32 face format utf8Chars = Inr a"
    and ref: "ref_atlas atlasRef = a"
    using get empty
    by (auto simp: getTextureAtlas_def TextureAtlas_create_def split: sum.splits option.splits)
  have covered: "\<forall>ch\<in>set (toUtf32 s). mCachedGlyphMetrics t (FT_Get_Char_Index face ch) \<noteq> None"
    if sub: "set (toUtf32 s) \<subseteq> set (utf32_with_space toUtf32 utf8Chars)" for s
  proof
    fix ch assume "ch \<in> set (toUtf32 s)"
    then have "ch \<in> set (utf32_with_space toUtf32 utf8Chars)" using sub by auto
    then have "map_of (mCharMap a) ch = Some (FT_Get_Char_Index face ch)"
      by (simp add: TextureAtlas_ctor_mCharMap [OF ctor] first_pass_def
          first_pass_steps_mCharMap)
    then have "(ch, FT_Get_Char_Index face ch) \<in> set (mCharMap a)"
      by (rule map_of_SomeD)
    then have "FT_Get_Char_Index face ch \<in> snd ` set (mCharMap a)"
      by force
    then show "mCachedGlyphMetrics t (FT_Get_Char_Index face ch) \<noteq> None"
      using dom by (auto simp: t ref)
  qed
  {
    fix face' s
    assume fs: "font_face font = Some face' \<and>
               set (toUtf32 s) \<subseteq> set (utf32_with_space toUtf32 utf8Chars)"
    have face': "face' = face" using fs face by simp
    have all: "\<forall>ch\<in>set (toUtf32 s). mCachedGlyphMetrics t (FT_Get_Char_Index face' ch) \<noteq> None"
      unfolding face' using fs by (intro covered) simp
    show "\<forall>ch\<in>set (toUtf32 s). mCachedGlyphMetrics t (FT_Get_Char_Index face' ch) \<noteq> None"
      by (rule all)
    show "LineMeasure toUtf32 W face' (mCachedGlyphMetrics t) s \<noteq> None" for W
      using all by (rule LineMeasure_returns)
    show "measure_line face' (mCachedGlyphMetrics t) y (toUtf32 s) pen result \<noteq> None"
      for y pen result
      using all by (rule measure_line_returns)
  }
  {
    fix tbox lineBreakUtf8 drawOptions mLines
    assume a: "tb_mFont tbox = font \<and>
               calculateLineBreaks lineBreakUtf8 toUtf32 tbox (mCachedGlyphMetrics t) = Some mLines \<and>
               (\<forall>line\<in>set mLines.
                  set (toUtf32 line) \<subseteq> set (utf32_with_space toUtf32 utf8Chars))"
    have "\<forall>line\<in>set mLines. \<forall>ch\<in>set (toUtf32 line).
            mCachedGlyphMetrics t (FT_Get_Char_Index face ch) \<noteq> None"
      using a covered by blast
    then have "measure_lines toUtf32 face (mCachedGlyphMetrics t)
                 (lineHeight_of font face drawOptions) mLines (Fin 0) [] \<noteq> None"
      by (rule measure_lines_returns)
    then show "measureGlyphs lineBreakUtf8 toUtf32 tbox (mCachedGlyphMetrics t) drawOptions
                 \<noteq> None"
      using a face by (auto simp: measureGlyphs_def)
  }
qed

text \<open>
  An \<^verbatim>\<open>SdfText\<close> built for "g" on the initial manager has entries for g and for the
  space, and measures the line "g g".
\<close>

theorem SdfText_ctor_metrics_cover_witness:
  "\<exists>t mgr'. SdfText_ctor ascii_toUtf32 SdfTextManager_init example_font default_format ''g''
               = Inr (t, mgr') \<and>
     mCachedGlyphMetrics t 103 \<noteq> None \<and> mCachedGlyphMetrics t 32 \<noteq> None \<and>
     LineMeasure ascii_toUtf32 100 descender_face (mCachedGlyphMetrics t) ''g g'' \<noteq> None"
proof -
  obtain a where a: "TextureAtlas_ctor ascii_toUtf32 descender_face default_format ''g'' = Inr a"
    using TextureAtlas_ctor_descender by blast
  obtain key where key:
    "make_CacheKey ascii_toUtf32 descender_face default_format ''g'' = Some key"
    using make_CacheKey_descender by blast
  obtain t mgr' where ctor:
    "SdfText_ctor ascii_toUtf32 SdfTextManager_init example_font default_format ''g'' = Inr (t, mgr')"
    by (simp add: SdfText_ctor_def example_font_def getTextureAtlas_def TextureAtlas_create_def
        SdfTextManager_init_def a key)
  have sub: "set (ascii_toUtf32 ''g g'') \<subseteq> set (utf32_with_space ascii_toUtf32 ''g'')"
    by (simp add: utf32_with_space_def ascii_toUtf32_def)
  have "(\<forall>ch\<in>set (ascii_toUtf32 ''g g'').
            mCachedGlyphMetrics t (FT_Get_Char_Index descender_face ch) \<noteq> None) \<and>
        (\<forall>W. LineMeasure ascii_toUtf32 W descender_face (mCachedGlyphMetrics t) ''g g'' \<noteq> None)"
    using SdfText_ctor_metrics_cover [OF ctor reachable_init] sub
    by (simp add: example_font_def)
  then show ?thesis
    using ctor by (simp add: ascii_toUtf32_def descender_face_def)
qed

subsection \<open>Destination rectangles of the two overloads\<close>

lemma Rectf_add_sel:
  "r_x1 (Rectf_add r v) = fadd (r_x1 r) (fst v)" "r_y1 (Rectf_add r v) = fadd (r_y1 r) (snd v)"
  "r_x2 (Rectf_add r v) = fadd (r_x2 r) (fst v)" "r_y2 (Rectf_add r v) = fadd (r_y2 r) (snd v)"
  by (simp_all add: Rectf_add_def)

lemma Rectf_sub_sel:
  "r_x1 (Rectf_sub r v) = fsub (r_x1 r) (fst v)" "r_y1 (Rectf_sub r v) = fsub (r_y1 r) (snd v)"
  "r_x2 (Rectf_sub r v) = fsub (r_x2 r) (fst v)" "r_y2 (Rectf_sub r v) = fsub (r_y2 r) (snd v)"
  by (simp_all add: Rectf_sub_def)

lemma Rectf_scale_sel:
  "r_x1 (Rectf_scale r s) = fmul (r_x1 r) s" "r_y1 (Rectf_scale r s) = fmul (r_y1 r) s"
  "r_x2 (Rectf_scale r s) = fmul (r_x2 r) s" "r_y2 (Rectf_scale r s) = fmul (r_y2 r) s"
  by (simp_all add: Rectf_scale_def)

lemmas Rectf_sel = Rectf_add_sel Rectf_sub_sel Rectf_scale_sel

lemma destRect_baseline_chain:
  "destRect_baseline fss options atlas origin glyphInfo pos =
     destRect_chain fss options glyphInfo pos
       (fst origin, fsub (snd origin) (fmul (f32_of_int (snd (mSdfBitmapSize atlas))) fss))
       (fmul fss (fneg (fst (mSdfPadding atlas))), fmul fss (snd (mSdfPadding atlas)))"
  unfolding destRect_baseline_def destRect_chain_def scale_vec2_def Let_def by simp

lemma destRect_clip_chain:
  "destRect_clip fss options atlas origin glyphInfo pos =
     destRect_chain fss options glyphInfo pos origin
       (fmul fss (fneg (fst (mSdfPadding atlas))), fmul fss (fneg (snd (mSdfPadding atlas))))"
  unfolding destRect_clip_def destRect_chain_def scale_vec2_def Let_def by simp

lemma destRect_chain_x:
  assumes "fst origin = fst origin'" "fst padding = fst padding'"
  shows "r_x1 (destRect_chain fss options glyphInfo pos origin padding) =
           r_x1 (destRect_chain fss options glyphInfo pos origin' padding')"
    and "r_x2 (destRect_chain fss options glyphInfo pos origin padding) =
           r_x2 (destRect_chain fss options glyphInfo pos origin' padding')"
  unfolding destRect_chain_def Let_def using assms by (simp_all add: Rectf_sel)

lemma fneg_fneg: "fneg (fneg x) = x"
  by (cases x) simp_all

lemma destRect_baseline_as_clip:
  "destRect_baseline fss options atlas origin glyphInfo pos =
     destRect_clip fss options
       (atlas\<lparr> mSdfPadding := (fst (mSdfPadding atlas), fneg (snd (mSdfPadding atlas))) \<rparr>)
       (fst origin, fsub (snd origin) (fmul (f32_of_int (snd (mSdfBitmapSize atlas))) fss))
       glyphInfo pos"
  by (simp add: destRect_baseline_chain destRect_clip_chain fneg_fneg)

lemma clip_glyph_unclipped:
  assumes "\<not> opt_clipHorizontal options" "\<not> opt_clipVertical options"
  shows "clip_glyph options clip dest src = None \<longleftrightarrow>
           fle (r_x2 dest) (r_x1 dest) \<or> fle (r_y2 dest) (r_y1 dest)"
    and "clip_glyph options clip dest src = Some (clipped, src') \<Longrightarrow> clipped = dest"
  using assms by (auto simp: clip_glyph_def Let_def split: if_splits)

text \<open>
  C2 (as stated in the specification, refuted): with both clip flags off the two overloads
  do not emit the same quad from the same origin. For one placement of the letter g at
  \<open>(1/2, 0)\<close> and the origin \<open>(100, 200)\<close> the baseline overload emits the quad from
  \<open>y = 183\<close> to \<open>y = 209\<close>, the clip-rectangle overload the quad from \<open>y = 205\<close> to
  \<open>y = 231\<close>; the horizontal extents and the texture coordinates agree. Every value of
  the example is a binary32 value and no operation rounds.
\<close>

theorem drawGlyphs_overloads_counterexample:
  "\<not> opt_clipHorizontal example_options \<and> \<not> opt_clipVertical example_options \<and>
   drawGlyphs_baseline normalized_texCoords font32 example_atlas [(103, (Fin (1 / 2), Fin 0))]
       (Fin 100, Fin 200) example_options [] =
     Inr [\<lparr> b_texture = 0,
            b_verts = [Fin (239 / 2), Fin 183, Fin (199 / 2), Fin 183,
                       Fin (239 / 2), Fin 209, Fin (199 / 2), Fin 209],
            b_texCoords = [Fin (41 / 1024), Fin 0, Fin (21 / 1024), Fin 0,
                           Fin (41 / 1024), Fin (13 / 512), Fin (21 / 1024), Fin (13 / 512)],
            b_vertColors = [], b_indices = [0, 1, 2, 2, 1, 3] \<rparr>] \<and>
   drawGlyphs_clip normalized_texCoords font32 example_atlas [(103, (Fin (1 / 2), Fin 0))]
       wide_clip (Fin 100, Fin 200) example_options [] =
     Inr [\<lparr> b_texture = 0,
            b_verts = [Fin (239 / 2), Fin 205, Fin (199 / 2), Fin 205,
                       Fin (239 / 2), Fin 231, Fin (199 / 2), Fin 231],
            b_texCoords = [Fin (41 / 1024), Fin 0, Fin (21 / 1024), Fin 0,
                           Fin (41 / 1024), Fin (13 / 512), Fin (21 / 1024), Fin (13 / 512)],
            b_vertColors = [], b_indices = [0, 1, 2, 2, 1, 3] \<rparr>]"
  by (simp add: drawGlyphs_baseline_def drawGlyphs_clip_def page_step_baseline_def
      page_step_clip_def draw_glyph_baseline_def draw_glyph_clip_def clip_glyph_def
      destRect_baseline_def destRect_clip_def emit_quad_def batch_of_def GlyphBuffers_empty_def
      example_atlas_def example_options_def font32_def wide_clip_def normalized_texCoords_def
      Rectf_of_Area_def Rectf_scale_def Rectf_add_def Rectf_sub_def getUpperLeft_def
      getWidth_def getHeight_def vec2_scale_def scale_vec2_def f32_of_int_def fsub_def fle_def
      round32_simps)

text \<open>
  C2 (amended): with both clip flags off, for a glyph whose entry names the current page,
  the two overloads apply the same chain (\<open>destRect_chain\<close>) with different vertical
  origins and padding offsets. The baseline overload appends the corners of the rectangle
  \<open>Db\<close> that the chain gives for the origin lowered by the scaled height of the
  distance-field bitmap and for the padding offset \<open>fontSizeScale * (-padding.x,
  padding.y)\<close>. The clip-rectangle overload appends the corners of the rectangle \<open>Dc\<close>
  that the chain gives for the origin itself and for the padding offset
  \<open>fontSizeScale * (-padding.x, -padding.y)\<close>, unless that rectangle has no positive
  width or height, in which case it appends nothing. The two rectangles have the same
  horizontal extent. The rectangle of the baseline overload is the one that the
  clip-rectangle overload computes from the lowered origin when the sign of the vertical
  padding is changed.
\<close>

theorem draw_glyph_overloads:
  assumes "mGlyphMap atlas g = Some glyphInfo"
    and "unat (mTextureIndex glyphInfo) = texIdx"
    and "\<not> opt_clipHorizontal options" "\<not> opt_clipVertical options"
    and "Db = destRect_chain fss options glyphInfo pos
                (fst origin,
                 fsub (snd origin) (fmul (f32_of_int (snd (mSdfBitmapSize atlas))) fss))
                (fmul fss (fneg (fst (mSdfPadding atlas))), fmul fss (snd (mSdfPadding atlas)))"
    and "Dc = destRect_chain fss options glyphInfo pos origin
                (fmul fss (fneg (fst (mSdfPadding atlas))),
                 fmul fss (fneg (snd (mSdfPadding atlas))))"
  shows "verts (draw_glyph_baseline getAreaTexCoords fss options atlas colors texIdx origin buf
                  (i, g, pos)) =
           verts buf @ [r_x2 Db, r_y1 Db, r_x1 Db, r_y1 Db, r_x2 Db, r_y2 Db, r_x1 Db, r_y2 Db] \<and>
         verts (draw_glyph_clip getAreaTexCoords fss options atlas colors clip texIdx origin buf
                  (i, g, pos)) =
           (if fle (r_x2 Dc) (r_x1 Dc) \<or> fle (r_y2 Dc) (r_y1 Dc) then verts buf
            else verts buf @
                   [r_x2 Dc, r_y1 Dc, r_x1 Dc, r_y1 Dc, r_x2 Dc, r_y2 Dc, r_x1 Dc, r_y2 Dc]) \<and>
         r_x1 Db = r_x1 Dc \<and> r_x2 Db = r_x2 Dc \<and>
         Db = destRect_clip fss options
                (atlas\<lparr> mSdfPadding :=
                          (fst (mSdfPadding atlas), fneg (snd (mSdfPadding atlas))) \<rparr>)
                (fst origin,
                 fsub (snd origin) (fmul (f32_of_int (snd (mSdfBitmapSize atlas))) fss))
                glyphInfo pos"
proof (intro conjI)
  have b: "destRect_baseline fss options atlas origin glyphInfo pos = Db"
    by (simp add: assms(5) destRect_baseline_chain)
  have c: "destRect_clip fss options atlas origin glyphInfo pos = Dc"
    by (simp add: assms(6) destRect_clip_chain)
  show "verts (draw_glyph_baseline getAreaTexCoords fss options atlas colors texIdx origin buf
                  (i, g, pos)) =
           verts buf @ [r_x2 Db, r_y1 Db, r_x1 Db, r_y1 Db, r_x2 Db, r_y2 Db, r_x1 Db, r_y2 Db]"
    using assms(1,2) by (simp add: draw_glyph_baseline_def emit_quad_def b)
  let ?src = "getAreaTexCoords (mTextures atlas ! texIdx) (mTexCoords glyphInfo)"
  show "verts (draw_glyph_clip getAreaTexCoords fss options atlas colors clip texIdx origin buf
                  (i, g, pos)) =
           (if fle (r_x2 Dc) (r_x1 Dc) \<or> fle (r_y2 Dc) (r_y1 Dc) then verts buf
            else verts buf @
                   [r_x2 Dc, r_y1 Dc, r_x1 Dc, r_y1 Dc, r_x2 Dc, r_y2 Dc, r_x1 Dc, r_y2 Dc])"
  proof (cases "clip_glyph options clip Dc ?src")
    case None
    then have "fle (r_x2 Dc) (r_x1 Dc) \<or> fle (r_y2 Dc) (r_y1 Dc)"
      using clip_glyph_unclipped(1) [OF assms(3,4)] by simp
    then show ?thesis
      using assms(1,2) None by (simp add: draw_glyph_clip_def c)
  next
    case (Some res)
    obtain clipped src' where res: "res = (clipped, src')"
      by (cases res)
    have "clipped = Dc"
      using Some res clip_glyph_unclipped(2) [OF assms(3,4)] by simp
    moreover have "\<not> (fle (r_x2 Dc) (r_x1 Dc) \<or> fle (r_y2 Dc) (r_y1 Dc))"
      using Some clip_glyph_unclipped(1) [OF assms(3,4), of clip Dc ?src] by simp
    ultimately show ?thesis
      using assms(1,2) Some res by (simp add: draw_glyph_clip_def c emit_quad_def)
  qed
  show "r_x1 Db = r_x1 Dc" "r_x2 Db = r_x2 Dc"
    unfolding assms(5,6) by (rule destRect_chain_x; simp)+
  show "Db = destRect_clip fss options
                (atlas\<lparr> mSdfPadding :=
                          (fst (mSdfPadding atlas), fneg (snd (mSdfPadding atlas))) \<rparr>)
                (fst origin,
                 fsub (snd origin) (fmul (f32_of_int (snd (mSdfBitmapSize atlas))) fss))
                glyphInfo pos"
    using b by (simp add: destRect_baseline_as_clip)
qed

text \<open>
  The letter g at the origin \<open>(100, 200)\<close>: both quads span \<open>x = 99.5\<close> to \<open>119.5\<close>; the
  baseline overload draws from \<open>y = 183\<close>, the clip-rectangle overload from \<open>y = 205\<close>.
\<close>

theorem draw_glyph_overloads_witness:
  "verts (draw_glyph_baseline normalized_texCoords (Fin 1) example_options example_atlas [] 0
            (Fin 100, Fin 200) GlyphBuffers_empty (0, 103, (Fin (1 / 2), Fin 0))) =
     [Fin (239 / 2), Fin 183, Fin (199 / 2), Fin 183,
      Fin (239 / 2), Fin 209, Fin (199 / 2), Fin 209] \<and>
   verts (draw_glyph_clip normalized_texCoords (Fin 1) example_options example_atlas [] wide_clip
            0 (Fin 100, Fin 200) GlyphBuffers_empty (0, 103, (Fin (1 / 2), Fin 0))) =
     [Fin (239 / 2), Fin 205, Fin (199 / 2), Fin 205,
      Fin (239 / 2), Fin 231, Fin (199 / 2), Fin 231]"
proof -
  have g: "mGlyphMap example_atlas 103 = Some info_g"
    by (simp add: example_atlas_def info_g_def)
  have idx: "unat (mTextureIndex info_g) = 0"
    by (simp add: info_g_def)
  have flags: "\<not> opt_clipHorizontal example_options" "\<not> opt_clipVertical example_options"
    by (simp_all add: example_options_def)
  have Db: "\<lparr> r_x1 = Fin (199 / 2), r_y1 = Fin 183, r_x2 = Fin (239 / 2), r_y2 = Fin 209 \<rparr> =
              destRect_chain (Fin 1) example_options info_g (Fin (1 / 2), Fin 0)
                (fst (Fin 100, Fin 200),
                 fsub (snd (Fin 100, Fin 200))
                   (fmul (f32_of_int (snd (mSdfBitmapSize example_atlas))) (Fin 1)))
                (fmul (Fin 1) (fneg (fst (mSdfPadding example_atlas))),
                 fmul (Fin 1) (snd (mSdfPadding example_atlas)))"
    by (simp add: destRect_chain_def example_options_def example_atlas_def info_g_def
        Rectf_of_Area_def Rectf_scale_def Rectf_add_def Rectf_sub_def getUpperLeft_def
        vec2_scale_def scale_vec2_def f32_of_int_def fsub_def round32_simps)
  have Dc: "\<lparr> r_x1 = Fin (199 / 2), r_y1 = Fin 205, r_x2 = Fin (239 / 2), r_y2 = Fin 231 \<rparr> =
              destRect_chain (Fin 1) example_options info_g (Fin (1 / 2), Fin 0)
                (Fin 100, Fin 200)
                (fmul (Fin 1) (fneg (fst (mSdfPadding example_atlas))),
                 fmul (Fin 1) (fneg (snd (mSdfPadding example_atlas))))"
    by (simp add: destRect_chain_def example_options_def example_atlas_def info_g_def
        Rectf_of_Area_def Rectf_scale_def Rectf_add_def Rectf_sub_def getUpperLeft_def
        vec2_scale_def scale_vec2_def f32_of_int_def fsub_def round32_simps)
  show ?thesis
    using draw_glyph_overloads [where getAreaTexCoords = normalized_texCoords
        and colors = "[]" and buf = GlyphBuffers_empty and i = 0 and clip = wide_clip,
        OF g idx flags Db Dc]
    by (simp add: GlyphBuffers_empty_def fle_def)
qed

subsection \<open>Clipping\<close>

lemma clip_axis_coords:
  assumes "clip_axis_exact s1 s2 d1 d2 c1 c2"
  shows "fadd (Fin s1)
           (fmul (fsub (Fin c1) (Fin d1)) (fdiv (fsub (Fin s2) (Fin s1)) (fsub (Fin d2) (Fin d1)))) =
         Fin (s1 + (c1 - d1) * ((s2 - s1) / (d2 - d1)))"
    and "fadd (Fin (s1 + (c1 - d1) * ((s2 - s1) / (d2 - d1))))
           (fmul (fsub (Fin c2) (Fin c1)) (fdiv (fsub (Fin s2) (Fin s1)) (fsub (Fin d2) (Fin d1)))) =
         Fin (s1 + (c1 - d1) * ((s2 - s1) / (d2 - d1)) + (c2 - c1) * ((s2 - s1) / (d2 - d1)))"
proof -
  have e: "d1 \<noteq> d2" "exact32 (s2 - s1)" "exact32 (d2 - d1)" "exact32 ((s2 - s1) / (d2 - d1))"
    "exact32 (c1 - d1)" "exact32 ((c1 - d1) * ((s2 - s1) / (d2 - d1)))"
    "exact32 (s1 + (c1 - d1) * ((s2 - s1) / (d2 - d1)))"
    "exact32 (c2 - c1)" "exact32 ((c2 - c1) * ((s2 - s1) / (d2 - d1)))"
    "exact32 (s1 + (c1 - d1) * ((s2 - s1) / (d2 - d1)) + (c2 - c1) * ((s2 - s1) / (d2 - d1)))"
    using assms unfolding clip_axis_exact_def by blast+
  have ne: "d2 - d1 \<noteq> 0"
    using e(1) by simp
  have sw: "fsub (Fin s2) (Fin s1) = Fin (s2 - s1)"
    using e(2) by (rule fsub_exact)
  have dw: "fsub (Fin d2) (Fin d1) = Fin (d2 - d1)"
    using e(3) by (rule fsub_exact)
  have q: "fdiv (Fin (s2 - s1)) (Fin (d2 - d1)) = Fin ((s2 - s1) / (d2 - d1))"
    using ne e(4) by (rule fdiv_exact)
  have c: "fsub (Fin c1) (Fin d1) = Fin (c1 - d1)"
    using e(5) by (rule fsub_exact)
  have m: "fmul (Fin (c1 - d1)) (Fin ((s2 - s1) / (d2 - d1))) =
             Fin ((c1 - d1) * ((s2 - s1) / (d2 - d1)))"
    using e(6) by (rule fmul_exact)
  have t: "fadd (Fin s1) (Fin ((c1 - d1) * ((s2 - s1) / (d2 - d1)))) =
             Fin (s1 + (c1 - d1) * ((s2 - s1) / (d2 - d1)))"
    using e(7) by (rule fadd_exact)
  have cw: "fsub (Fin c2) (Fin c1) = Fin (c2 - c1)"
    using e(8) by (rule fsub_exact)
  have m': "fmul (Fin (c2 - c1)) (Fin ((s2 - s1) / (d2 - d1))) =
              Fin ((c2 - c1) * ((s2 - s1) / (d2 - d1)))"
    using e(9) by (rule fmul_exact)
  have t': "fadd (Fin (s1 + (c1 - d1) * ((s2 - s1) / (d2 - d1))))
              (Fin ((c2 - c1) * ((s2 - s1) / (d2 - d1)))) =
            Fin (s1 + (c1 - d1) * ((s2 - s1) / (d2 - d1)) + (c2 - c1) * ((s2 - s1) / (d2 - d1)))"
    using e(10) by (rule fadd_exact)
  show "fadd (Fin s1)
           (fmul (fsub (Fin c1) (Fin d1)) (fdiv (fsub (Fin s2) (Fin s1)) (fsub (Fin d2) (Fin d1)))) =
         Fin (s1 + (c1 - d1) * ((s2 - s1) / (d2 - d1)))"
    by (simp only: sw dw q c m t)
  show "fadd (Fin (s1 + (c1 - d1) * ((s2 - s1) / (d2 - d1))))
           (fmul (fsub (Fin c2) (Fin c1)) (fdiv (fsub (Fin s2) (Fin s1)) (fsub (Fin d2) (Fin d1)))) =
         Fin (s1 + (c1 - d1) * ((s2 - s1) / (d2 - d1)) + (c2 - c1) * ((s2 - s1) / (d2 - d1)))"
    by (simp only: sw dw q cw m' t')
qed

lemma clip_axis_proportion:
  fixes s1 s2 d1 d2 c1 c2 :: real
  assumes "d1 \<noteq> d2"
    and "t1 = s1 + (c1 - d1) * ((s2 - s1) / (d2 - d1))"
    and "t2 = s1 + (c1 - d1) * ((s2 - s1) / (d2 - d1)) + (c2 - c1) * ((s2 - s1) / (d2 - d1))"
  shows "(t2 - t1) * (d2 - d1) = (c2 - c1) * (s2 - s1)"
    and "s1 \<noteq> s2 \<Longrightarrow> (t2 - t1) / (s2 - s1) = (c2 - c1) / (d2 - d1)"
proof -
  have ne: "d2 - d1 \<noteq> 0"
    using assms(1) by simp
  have w: "t2 - t1 = (c2 - c1) * ((s2 - s1) / (d2 - d1))"
    by (simp add: assms(2,3))
  show "(t2 - t1) * (d2 - d1) = (c2 - c1) * (s2 - s1)"
    unfolding w using ne by simp
  show "(t2 - t1) / (s2 - s1) = (c2 - c1) / (d2 - d1)" if "s1 \<noteq> s2"
    unfolding w using ne that by simp
qed

lemma clip_glyph_eval:
  assumes "cL = (if opt_clipHorizontal options then std_max (r_x1 dest) (r_x1 clip) else r_x1 dest)"
    and "cR = (if opt_clipHorizontal options then std_min (r_x2 dest) (r_x2 clip) else r_x2 dest)"
    and "cT = (if opt_clipVertical options then std_max (r_y1 dest) (r_y1 clip) else r_y1 dest)"
    and "cB = (if opt_clipVertical options then std_min (r_y2 dest) (r_y2 clip) else r_y2 dest)"
    and "tL = fadd (r_x1 src)
                (fmul (fsub cL (r_x1 dest))
                   (fdiv (fsub (r_x2 src) (r_x1 src)) (fsub (r_x2 dest) (r_x1 dest))))"
    and "tR = fadd tL
                (fmul (fsub cR cL)
                   (fdiv (fsub (r_x2 src) (r_x1 src)) (fsub (r_x2 dest) (r_x1 dest))))"
    and "tT = fadd (r_y1 src)
                (fmul (fsub cT (r_y1 dest))
                   (fdiv (fsub (r_y2 src) (r_y1 src)) (fsub (r_y2 dest) (r_y1 dest))))"
    and "tB = fadd tT
                (fmul (fsub cB cT)
                   (fdiv (fsub (r_y2 src) (r_y1 src)) (fsub (r_y2 dest) (r_y1 dest))))"
  shows "clip_glyph options clip dest src =
           (if fle cR cL \<or> fle cB cT then None
            else Some (\<lparr> r_x1 = cL, r_y1 = cT, r_x2 = cR, r_y2 = cB \<rparr>,
                       \<lparr> r_x1 = tL, r_y1 = tT, r_x2 = tR, r_y2 = tB \<rparr>))"
  unfolding clip_glyph_def Let_def assms getWidth_def getHeight_def
  by (cases dest) simp

text \<open>
  C7 (as stated in the specification, refuted): the extent of the emitted texture
  coordinates is not always shrunk by the fraction of the destination extent that
  survives. The letter g drawn at three times its size spans \<open>x = 102.5\<close> to \<open>162.5\<close>;
  the rectangle \<open>third_clip\<close> ends at \<open>x = 122.5\<close> and keeps a third of it. The quotient
  of the extents, \<open>1/3072\<close>, is not a binary32 value, and the emitted texture coordinates
  span \<open>21/1024\<close> to \<open>7252651/268435456\<close>: the fraction \<open>1747627/5242880\<close> of the
  original extent, not one third.
\<close>

theorem draw_glyph_clip_proportion_counterexample:
  "destRect_clip (Fin 1) triple_clip_options example_atlas (Fin 100, Fin 200) info_g
       (Fin (1 / 2), Fin 0) =
     \<lparr> r_x1 = Fin (205 / 2), r_y1 = Fin 219, r_x2 = Fin (325 / 2), r_y2 = Fin 297 \<rparr> \<and>
   normalized_texCoords (mTextures example_atlas ! 0) (mTexCoords info_g) =
     \<lparr> r_x1 = Fin (21 / 1024), r_y1 = Fin 0, r_x2 = Fin (41 / 1024), r_y2 = Fin (13 / 512) \<rparr> \<and>
   draw_glyph_clip normalized_texCoords (Fin 1) triple_clip_options example_atlas [] third_clip 0
       (Fin 100, Fin 200) GlyphBuffers_empty (0, 103, (Fin (1 / 2), Fin 0)) =
     \<lparr> verts = [Fin (245 / 2), Fin 219, Fin (205 / 2), Fin 219,
                Fin (245 / 2), Fin 297, Fin (205 / 2), Fin 297],
       texCoords = [Fin (7252651 / 268435456), Fin 0, Fin (21 / 1024), Fin 0,
                    Fin (7252651 / 268435456), Fin (13 / 512), Fin (21 / 1024), Fin (13 / 512)],
       vertColors = [], indices = [0, 1, 2, 2, 1, 3], curIdx = 4 \<rparr> \<and>
   (7252651 / 268435456 - 21 / 1024) / (41 / 1024 - 21 / 1024)
     \<noteq> ((245 / 2 - 205 / 2) / (325 / 2 - 205 / 2) :: real)"
proof -
  have r1: "round32 (1 / 3072) = Fin (11184811 / 34359738368)"
    using round32_at [of "- 12" "1 / 3072"] by (simp add: round_even_def)
  have r2: "round32 (55924055 / 8589934592) = Fin (6990507 / 1073741824)"
    using round32_at [of "- 8" "55924055 / 8589934592"] by (simp add: round_even_def)
  have r3: "round32 (29010603 / 1073741824) = Fin (7252651 / 268435456)"
    using round32_at [of "- 6" "29010603 / 1073741824"] by (simp add: round_even_def)
  have r4: "round32 (436207629 / 17179869184) = Fin (13 / 512)"
    using round32_at [of "- 6" "436207629 / 17179869184"] by (simp add: round_even_def)
  have dest: "destRect_clip (Fin 1) triple_clip_options example_atlas (Fin 100, Fin 200) info_g
       (Fin (1 / 2), Fin 0) =
     \<lparr> r_x1 = Fin (205 / 2), r_y1 = Fin 219, r_x2 = Fin (325 / 2), r_y2 = Fin 297 \<rparr>"
    by (simp add: destRect_clip_def triple_clip_options_def example_atlas_def info_g_def
        Rectf_of_Area_def Rectf_scale_def Rectf_add_def Rectf_sub_def getUpperLeft_def
        vec2_scale_def scale_vec2_def f32_of_int_def fsub_def round32_simps)
  have src: "normalized_texCoords (mTextures example_atlas ! 0) (mTexCoords info_g) =
     \<lparr> r_x1 = Fin (21 / 1024), r_y1 = Fin 0, r_x2 = Fin (41 / 1024), r_y2 = Fin (13 / 512) \<rparr>"
    by (simp add: normalized_texCoords_def example_atlas_def info_g_def f32_of_int_def
        round32_simps)
  have clip: "clip_glyph triple_clip_options third_clip
                \<lparr> r_x1 = Fin (205 / 2), r_y1 = Fin 219, r_x2 = Fin (325 / 2), r_y2 = Fin 297 \<rparr>
                \<lparr> r_x1 = Fin (21 / 1024), r_y1 = Fin 0, r_x2 = Fin (41 / 1024), r_y2 = Fin (13 / 512) \<rparr> =
              Some (\<lparr> r_x1 = Fin (205 / 2), r_y1 = Fin 219, r_x2 = Fin (245 / 2), r_y2 = Fin 297 \<rparr>,
                    \<lparr> r_x1 = Fin (21 / 1024), r_y1 = Fin 0, r_x2 = Fin (7252651 / 268435456),
                      r_y2 = Fin (13 / 512) \<rparr>)"
    by (simp add: clip_glyph_def triple_clip_options_def third_clip_def getWidth_def
        getHeight_def fsub_def fle_def std_max_def std_min_def round32_simps r1 r2 r3 r4)
  have g: "mGlyphMap example_atlas 103 = Some info_g"
    by (simp add: example_atlas_def info_g_def)
  have idx: "unat (mTextureIndex info_g) = 0"
    by (simp add: info_g_def)
  have draw: "draw_glyph_clip normalized_texCoords (Fin 1) triple_clip_options example_atlas []
       third_clip 0 (Fin 100, Fin 200) GlyphBuffers_empty (0, 103, (Fin (1 / 2), Fin 0)) =
     \<lparr> verts = [Fin (245 / 2), Fin 219, Fin (205 / 2), Fin 219,
                Fin (245 / 2), Fin 297, Fin (205 / 2), Fin 297],
       texCoords = [Fin (7252651 / 268435456), Fin 0, Fin (21 / 1024), Fin 0,
                    Fin (7252651 / 268435456), Fin (13 / 512), Fin (21 / 1024), Fin (13 / 512)],
       vertColors = [], indices = [0, 1, 2, 2, 1, 3], curIdx = 4 \<rparr>"
    by (simp add: draw_glyph_clip_def g idx dest src clip emit_quad_def GlyphBuffers_empty_def)
  show ?thesis
    using dest src draw by simp
qed

text \<open>
  C7 (amended): in the clip-rectangle overload, for a glyph whose entry names the current
  page, let \<open>dest\<close> be its destination rectangle, \<open>src\<close> its texture coordinates and
  \<open>cL\<close>, \<open>cR\<close>, \<open>cT\<close>, \<open>cB\<close> the sides of the clipped rectangle (on an enabled axis the
  larger of the two lower sides and the smaller of the two upper sides, otherwise the sides
  of \<open>dest\<close>). If the clipped rectangle has no positive width or no positive height, the
  loop body leaves the buffers as they are: no vertex, texture coordinate or index is
  emitted. Otherwise it appends the four corners of the clipped rectangle, the four corners
  of the texture rectangle \<open>tL\<close>, \<open>tR\<close>, \<open>tT\<close>, \<open>tB\<close>, the colour four times when
  colours are given, and six indices, and advances the index counter by four. On each axis
  the lower texture coordinate is that of \<open>src\<close> plus the distance of the clipped side
  from the side of \<open>dest\<close> times the quotient of the extents of \<open>src\<close> and \<open>dest\<close>, and
  the upper one is the lower one plus the clipped extent times that quotient, each
  operation rounding to binary32. When these operations are exact (\<open>clip_axis_exact\<close>),
  the emitted texture extent times the destination extent equals the clipped extent times
  the extent of \<open>src\<close>, so that the texture extent is shrunk by the fraction of the
  destination extent that survives.
\<close>

theorem draw_glyph_clip_clipping:
  assumes "mGlyphMap atlas g = Some glyphInfo"
    and "unat (mTextureIndex glyphInfo) = texIdx"
    and "dest = destRect_clip fss options atlas offset glyphInfo pos"
    and "src = getAreaTexCoords (mTextures atlas ! texIdx) (mTexCoords glyphInfo)"
    and "cL = (if opt_clipHorizontal options then std_max (r_x1 dest) (r_x1 clip) else r_x1 dest)"
    and "cR = (if opt_clipHorizontal options then std_min (r_x2 dest) (r_x2 clip) else r_x2 dest)"
    and "cT = (if opt_clipVertical options then std_max (r_y1 dest) (r_y1 clip) else r_y1 dest)"
    and "cB = (if opt_clipVertical options then std_min (r_y2 dest) (r_y2 clip) else r_y2 dest)"
    and "tL = fadd (r_x1 src)
                (fmul (fsub cL (r_x1 dest))
                   (fdiv (fsub (r_x2 src) (r_x1 src)) (fsub (r_x2 dest) (r_x1 dest))))"
    and "tR = fadd tL
                (fmul (fsub cR cL)
                   (fdiv (fsub (r_x2 src) (r_x1 src)) (fsub (r_x2 dest) (r_x1 dest))))"
    and "tT = fadd (r_y1 src)
                (fmul (fsub cT (r_y1 dest))
                   (fdiv (fsub (r_y2 src) (r_y1 src)) (fsub (r_y2 dest) (r_y1 dest))))"
    and "tB = fadd tT
                (fmul (fsub cB cT)
                   (fdiv (fsub (r_y2 src) (r_y1 src)) (fsub (r_y2 dest) (r_y1 dest))))"
  shows "(fle cR cL \<or> fle cB cT \<longrightarrow>
            draw_glyph_clip getAreaTexCoords fss options atlas colors clip texIdx offset buf
              (i, g, pos) = buf) \<and>
         (\<not> fle cR cL \<and> \<not> fle cB cT \<longrightarrow>
            draw_glyph_clip getAreaTexCoords fss options atlas colors clip texIdx offset buf
              (i, g, pos) =
              \<lparr> verts = verts buf @ [cR, cT, cL, cT, cR, cB, cL, cB],
                texCoords = texCoords buf @ [tR, tT, tL, tT, tR, tB, tL, tB],
                vertColors =
                  vertColors buf @ (if colors \<noteq> [] then replicate 4 (colors ! i) else []),
                indices = indices buf @ [curIdx buf + 0, curIdx buf + 1, curIdx buf + 2,
                                         curIdx buf + 2, curIdx buf + 1, curIdx buf + 3],
                curIdx = curIdx buf + 4 \<rparr>) \<and>
         (\<forall>s1 s2 d1 d2 c1 c2.
            r_x1 src = Fin s1 \<and> r_x2 src = Fin s2 \<and> r_x1 dest = Fin d1 \<and> r_x2 dest = Fin d2 \<and>
            cL = Fin c1 \<and> cR = Fin c2 \<and> clip_axis_exact s1 s2 d1 d2 c1 c2 \<longrightarrow>
            (\<exists>t1 t2. tL = Fin t1 \<and> tR = Fin t2 \<and>
               (t2 - t1) * (d2 - d1) = (c2 - c1) * (s2 - s1) \<and>
               (s1 \<noteq> s2 \<longrightarrow> (t2 - t1) / (s2 - s1) = (c2 - c1) / (d2 - d1)))) \<and>
         (\<forall>s1 s2 d1 d2 c1 c2.
            r_y1 src = Fin s1 \<and> r_y2 src = Fin s2 \<and> r_y1 dest = Fin d1 \<and> r_y2 dest = Fin d2 \<and>
            cT = Fin c1 \<and> cB = Fin c2 \<and> clip_axis_exact s1 s2 d1 d2 c1 c2 \<longrightarrow>
            (\<exists>t1 t2. tT = Fin t1 \<and> tB = Fin t2 \<and>
               (t2 - t1) * (d2 - d1) = (c2 - c1) * (s2 - s1) \<and>
               (s1 \<noteq> s2 \<longrightarrow> (t2 - t1) / (s2 - s1) = (c2 - c1) / (d2 - d1))))"
proof (intro conjI impI allI)
  note clip = clip_glyph_eval [OF assms(5-12)]
  show "draw_glyph_clip getAreaTexCoords fss options atlas colors clip texIdx offset buf
              (i, g, pos) = buf" if "fle cR cL \<or> fle cB cT"
    using that assms(1,2) clip
    by (simp add: draw_glyph_clip_def assms(3) [symmetric] assms(4) [symmetric])
  show "draw_glyph_clip getAreaTexCoords fss options atlas colors clip texIdx offset buf
              (i, g, pos) =
              \<lparr> verts = verts buf @ [cR, cT, cL, cT, cR, cB, cL, cB],
                texCoords = texCoords buf @ [tR, tT, tL, tT, tR, tB, tL, tB],
                vertColors =
                  vertColors buf @ (if colors \<noteq> [] then replicate 4 (colors ! i) else []),
                indices = indices buf @ [curIdx buf + 0, curIdx buf + 1, curIdx buf + 2,
                                         curIdx buf + 2, curIdx buf + 1, curIdx buf + 3],
                curIdx = curIdx buf + 4 \<rparr>" if "\<not> fle cR cL \<and> \<not> fle cB cT"
    using that assms(1,2) clip
    by (simp add: draw_glyph_clip_def emit_quad_def assms(3) [symmetric] assms(4) [symmetric])
next
  fix s1 s2 d1 d2 c1 c2
  assume a: "r_x1 src = Fin s1 \<and> r_x2 src = Fin s2 \<and> r_x1 dest = Fin d1 \<and> r_x2 dest = Fin d2 \<and>
            cL = Fin c1 \<and> cR = Fin c2 \<and> clip_axis_exact s1 s2 d1 d2 c1 c2"
  then have ex: "clip_axis_exact s1 s2 d1 d2 c1 c2"
    by simp
  let ?t1 = "s1 + (c1 - d1) * ((s2 - s1) / (d2 - d1))"
  let ?t2 = "?t1 + (c2 - c1) * ((s2 - s1) / (d2 - d1))"
  have l: "tL = Fin ?t1"
    using a clip_axis_coords(1) [OF ex] by (simp add: assms(9))
  have r: "tR = Fin ?t2"
    using a clip_axis_coords(2) [OF ex] by (simp add: assms(10) l)
  have ne: "d1 \<noteq> d2"
    using ex by (simp add: clip_axis_exact_def)
  have "(?t2 - ?t1) * (d2 - d1) = (c2 - c1) * (s2 - s1)"
    using ne by (rule clip_axis_proportion(1)) simp_all
  moreover have "s1 \<noteq> s2 \<longrightarrow> (?t2 - ?t1) / (s2 - s1) = (c2 - c1) / (d2 - d1)"
    using clip_axis_proportion(2) [OF ne refl refl] by blast
  ultimately show "\<exists>t1 t2. tL = Fin t1 \<and> tR = Fin t2 \<and>
               (t2 - t1) * (d2 - d1) = (c2 - c1) * (s2 - s1) \<and>
               (s1 \<noteq> s2 \<longrightarrow> (t2 - t1) / (s2 - s1) = (c2 - c1) / (d2 - d1))"
    using l r by blast
next
  fix s1 s2 d1 d2 c1 c2
  assume a: "r_y1 src = Fin s1 \<and> r_y2 src = Fin s2 \<and> r_y1 dest = Fin d1 \<and> r_y2 dest = Fin d2 \<and>
            cT = Fin c1 \<and> cB = Fin c2 \<and> clip_axis_exact s1 s2 d1 d2 c1 c2"
  then have ex: "clip_axis_exact s1 s2 d1 d2 c1 c2"
    by simp
  let ?t1 = "s1 + (c1 - d1) * ((s2 - s1) / (d2 - d1))"
  let ?t2 = "?t1 + (c2 - c1) * ((s2 - s1) / (d2 - d1))"
  have l: "tT = Fin ?t1"
    using a clip_axis_coords(1) [OF ex] by (simp add: assms(11))
  have r: "tB = Fin ?t2"
    using a clip_axis_coords(2) [OF ex] by (simp add: assms(12) l)
  have ne: "d1 \<noteq> d2"
    using ex by (simp add: clip_axis_exact_def)
  have "(?t2 - ?t1) * (d2 - d1) = (c2 - c1) * (s2 - s1)"
    using ne by (rule clip_axis_proportion(1)) simp_all
  moreover have "s1 \<noteq> s2 \<longrightarrow> (?t2 - ?t1) / (s2 - s1) = (c2 - c1) / (d2 - d1)"
    using clip_axis_proportion(2) [OF ne refl refl] by blast
  ultimately show "\<exists>t1 t2. tT = Fin t1 \<and> tB = Fin t2 \<and>
               (t2 - t1) * (d2 - d1) = (c2 - c1) * (s2 - s1) \<and>
               (s1 \<noteq> s2 \<longrightarrow> (t2 - t1) / (s2 - s1) = (c2 - c1) / (d2 - d1))"
    using l r by blast
qed

text \<open>
  The letter g drawn at \<open>(100, 200)\<close> spans \<open>x = 99.5\<close> to \<open>119.5\<close>. The rectangle
  \<open>narrow_clip\<close> ends at \<open>x = 90\<close>: nothing is emitted. The rectangle \<open>wide_clip\<close> ends at
  \<open>x = 110\<close>: 10.5 of the 20 pixels survive, and 10.5 of the 20 texels are addressed.
\<close>

theorem draw_glyph_clip_clipping_witness:
  "draw_glyph_clip normalized_texCoords (Fin 1) clip_options example_atlas [] narrow_clip 0
     (Fin 100, Fin 200) GlyphBuffers_empty (0, 103, (Fin (1 / 2), Fin 0)) = GlyphBuffers_empty \<and>
   draw_glyph_clip normalized_texCoords (Fin 1) clip_options example_atlas [] wide_clip 0
     (Fin 100, Fin 200) GlyphBuffers_empty (0, 103, (Fin (1 / 2), Fin 0)) =
     \<lparr> verts = [Fin 110, Fin 205, Fin (199 / 2), Fin 205,
                Fin 110, Fin 231, Fin (199 / 2), Fin 231],
       texCoords = [Fin (63 / 2048), Fin 0, Fin (21 / 1024), Fin 0,
                    Fin (63 / 2048), Fin (13 / 512), Fin (21 / 1024), Fin (13 / 512)],
       vertColors = [], indices = [0, 1, 2, 2, 1, 3], curIdx = 4 \<rparr> \<and>
   (63 / 2048 - 21 / 1024) / (41 / 1024 - 21 / 1024) = ((110 - 199 / 2) / (239 / 2 - 199 / 2) :: real)"
proof -
  let ?dest = "\<lparr> r_x1 = Fin (199 / 2), r_y1 = Fin 205, r_x2 = Fin (239 / 2), r_y2 = Fin 231 \<rparr>"
  let ?src = "\<lparr> r_x1 = Fin (21 / 1024), r_y1 = Fin 0, r_x2 = Fin (41 / 1024), r_y2 = Fin (13 / 512) \<rparr>"
  have g: "mGlyphMap example_atlas 103 = Some info_g"
    by (simp add: example_atlas_def info_g_def)
  have idx: "unat (mTextureIndex info_g) = 0"
    by (simp add: info_g_def)
  have dest: "?dest = destRect_clip (Fin 1) clip_options example_atlas (Fin 100, Fin 200) info_g
                        (Fin (1 / 2), Fin 0)"
    by (simp add: destRect_clip_def clip_options_def example_atlas_def info_g_def
        Rectf_of_Area_def Rectf_scale_def Rectf_add_def Rectf_sub_def getUpperLeft_def
        vec2_scale_def scale_vec2_def f32_of_int_def fsub_def round32_simps)
  have src: "?src = normalized_texCoords (mTextures example_atlas ! 0) (mTexCoords info_g)"
    by (simp add: normalized_texCoords_def example_atlas_def info_g_def f32_of_int_def
        round32_simps)
  have narrow: "Fin (199 / 2) =
      (if opt_clipHorizontal clip_options then std_max (r_x1 ?dest) (r_x1 narrow_clip) else r_x1 ?dest)"
    "Fin 90 =
      (if opt_clipHorizontal clip_options then std_min (r_x2 ?dest) (r_x2 narrow_clip) else r_x2 ?dest)"
    "Fin 205 =
      (if opt_clipVertical clip_options then std_max (r_y1 ?dest) (r_y1 narrow_clip) else r_y1 ?dest)"
    "Fin 231 =
      (if opt_clipVertical clip_options then std_min (r_y2 ?dest) (r_y2 narrow_clip) else r_y2 ?dest)"
    by (simp_all add: clip_options_def narrow_clip_def std_max_def std_min_def)
  have wide: "Fin (199 / 2) =
      (if opt_clipHorizontal clip_options then std_max (r_x1 ?dest) (r_x1 wide_clip) else r_x1 ?dest)"
    "Fin 110 =
      (if opt_clipHorizontal clip_options then std_min (r_x2 ?dest) (r_x2 wide_clip) else r_x2 ?dest)"
    "Fin 205 =
      (if opt_clipVertical clip_options then std_max (r_y1 ?dest) (r_y1 wide_clip) else r_y1 ?dest)"
    "Fin 231 =
      (if opt_clipVertical clip_options then std_min (r_y2 ?dest) (r_y2 wide_clip) else r_y2 ?dest)"
    by (simp_all add: clip_options_def wide_clip_def std_max_def std_min_def)
  have exact: "clip_axis_exact (21 / 1024) (41 / 1024) (199 / 2) (239 / 2) (199 / 2) 110"
    by (simp add: clip_axis_exact_def exact32_def round32_simps)
  show ?thesis
    using draw_glyph_clip_clipping [where getAreaTexCoords = normalized_texCoords
        and clip = narrow_clip and colors = "[]" and buf = GlyphBuffers_empty and i = 0,
        OF g idx dest src narrow refl refl refl refl]
      draw_glyph_clip_clipping [where getAreaTexCoords = normalized_texCoords
        and clip = wide_clip and colors = "[]" and buf = GlyphBuffers_empty and i = 0,
        OF g idx dest src wide refl refl refl refl] exact
    by (simp add: GlyphBuffers_empty_def fle_def fsub_def round32_simps)
qed

subsection \<open>Skipped placements and empty pages\<close>

lemma draw_glyph_baseline_skip:
  "\<not> survives_baseline atlas texIdx (fst (snd it)) \<Longrightarrow>
   draw_glyph_baseline getAreaTexCoords fss options atlas colors texIdx baseline buf it = buf"
  by (simp add: draw_glyph_baseline_def survives_baseline_def split: option.splits)

lemma draw_glyph_baseline_filled:
  "buffers_filled buf \<Longrightarrow>
   buffers_filled
     (draw_glyph_baseline getAreaTexCoords fss options atlas colors texIdx baseline buf it)"
  by (simp add: draw_glyph_baseline_def buffers_filled_def emit_quad_def split: option.splits)

lemma draw_page_baseline_filled:
  "buffers_filled buf \<Longrightarrow>
   buffers_filled
     (foldl (draw_glyph_baseline getAreaTexCoords fss options atlas colors texIdx baseline)
        buf its)"
  by (induction its arbitrary: buf) (simp_all add: draw_glyph_baseline_filled)

lemma draw_page_baseline_none:
  "\<forall>it\<in>set its. \<not> survives_baseline atlas texIdx (fst (snd it)) \<Longrightarrow>
   foldl (draw_glyph_baseline getAreaTexCoords fss options atlas colors texIdx baseline) buf its
     = buf"
  by (induction its arbitrary: buf) (simp_all add: draw_glyph_baseline_skip)

lemma page_step_baseline_ok:
  assumes "list_all (batch_ok atlas glyphMeasures) (snd st)"
  shows "list_all (batch_ok atlas glyphMeasures)
           (snd (page_step_baseline getAreaTexCoords fss options atlas colors glyphMeasures st
                   texIdx))"
proof -
  let ?baseline = "if opt_pixelSnap options then floor_vec2 (fst st) else fst st"
  let ?its = "zip [0..<length glyphMeasures] glyphMeasures"
  let ?buf = "foldl (draw_glyph_baseline getAreaTexCoords fss options atlas colors texIdx
                       ?baseline) GlyphBuffers_empty ?its"
  have filled: "buffers_filled ?buf"
    by (intro draw_page_baseline_filled) (simp add: buffers_filled_def GlyphBuffers_empty_def)
  show ?thesis
  proof (cases "curIdx ?buf = 0")
    case True
    then show ?thesis using assms by (simp add: page_step_baseline_def Let_def)
  next
    case False
    have "\<not> (\<forall>it\<in>set ?its. \<not> survives_baseline atlas texIdx (fst (snd it)))"
    proof
      assume "\<forall>it\<in>set ?its. \<not> survives_baseline atlas texIdx (fst (snd it))"
      then have "?buf = GlyphBuffers_empty"
        by (rule draw_page_baseline_none)
      then show False using False by (simp add: GlyphBuffers_empty_def)
    qed
    then obtain it where it: "it \<in> set ?its" "survives_baseline atlas texIdx (fst (snd it))"
      by blast
    obtain k m where km: "it = (k, m)"
      by (cases it)
    have "m \<in> set glyphMeasures"
      using it(1) km by (auto dest: set_zip_rightD)
    then have "snd it \<in> set glyphMeasures" "survives_baseline atlas texIdx (fst (snd it))"
      using it(2) km by simp_all
    then have ex: "list_ex (\<lambda>m. survives_baseline atlas texIdx (fst m)) glyphMeasures"
      by (auto simp: list_ex_iff)
    have "batch_ok atlas glyphMeasures (batch_of texIdx ?buf)"
      using filled False ex by (simp add: batch_ok_def batch_of_def buffers_filled_def)
    then show ?thesis
      using assms False by (simp add: page_step_baseline_def Let_def)
  qed
qed

lemma pages_baseline_ok:
  "list_all (batch_ok atlas glyphMeasures) (snd st) \<Longrightarrow>
   list_all (batch_ok atlas glyphMeasures)
     (snd (foldl (page_step_baseline getAreaTexCoords fss options atlas colors glyphMeasures)
             st pages))"
  by (induction pages arbitrary: st) (simp_all add: page_step_baseline_ok)

lemma ffloor_idem: "ffloor (ffloor x) = ffloor x"
  by (cases x) simp_all

lemma snapped_idem: "snapped options (snapped options v) = snapped options v"
  by (simp add: snapped_def floor_vec2_def ffloor_idem)

lemma draw_glyph_clip_skip:
  "\<not> survives_clip getAreaTexCoords fss options atlas clip offset texIdx (snd it) \<Longrightarrow>
   draw_glyph_clip getAreaTexCoords fss options atlas colors clip texIdx offset buf it = buf"
  by (auto simp: draw_glyph_clip_def survives_clip_def split: option.splits)

lemma draw_glyph_clip_filled:
  "buffers_filled buf \<Longrightarrow>
   buffers_filled
     (draw_glyph_clip getAreaTexCoords fss options atlas colors clip texIdx offset buf it)"
  by (simp add: draw_glyph_clip_def buffers_filled_def emit_quad_def split: option.splits)

lemma draw_page_clip_filled:
  "buffers_filled buf \<Longrightarrow>
   buffers_filled
     (foldl (draw_glyph_clip getAreaTexCoords fss options atlas colors clip texIdx offset)
        buf its)"
  by (induction its arbitrary: buf) (simp_all add: draw_glyph_clip_filled)

lemma draw_page_clip_none:
  "\<forall>it\<in>set its.
     \<not> survives_clip getAreaTexCoords fss options atlas clip offset texIdx (snd it) \<Longrightarrow>
   foldl (draw_glyph_clip getAreaTexCoords fss options atlas colors clip texIdx offset) buf its
     = buf"
  by (induction its arbitrary: buf) (simp_all add: draw_glyph_clip_skip)

lemma page_step_clip_ok:
  assumes "snapped options (fst st) = snapped options offset0"
    and "list_all (batch_ok_clip getAreaTexCoords fss options atlas clip
                     (snapped options offset0) glyphMeasures) (snd st)"
  shows "snapped options
           (fst (page_step_clip getAreaTexCoords fss options atlas colors clip glyphMeasures st
                   texIdx)) = snapped options offset0 \<and>
         list_all (batch_ok_clip getAreaTexCoords fss options atlas clip
                     (snapped options offset0) glyphMeasures)
           (snd (page_step_clip getAreaTexCoords fss options atlas colors clip glyphMeasures st
                   texIdx))"
proof -
  let ?offset = "if opt_pixelSnap options then floor_vec2 (fst st) else fst st"
  let ?its = "zip [0..<length glyphMeasures] glyphMeasures"
  let ?buf = "foldl (draw_glyph_clip getAreaTexCoords fss options atlas colors clip texIdx
                       ?offset) GlyphBuffers_empty ?its"
  have off: "?offset = snapped options offset0"
    using assms(1) by (simp add: snapped_def)
  have fst_eq: "fst (page_step_clip getAreaTexCoords fss options atlas colors clip glyphMeasures
                       st texIdx) = ?offset"
    by (simp add: page_step_clip_def Let_def)
  have first: "snapped options
           (fst (page_step_clip getAreaTexCoords fss options atlas colors clip glyphMeasures st
                   texIdx)) = snapped options offset0"
    unfolding fst_eq off by (rule snapped_idem)
  have filled: "buffers_filled ?buf"
    by (intro draw_page_clip_filled) (simp add: buffers_filled_def GlyphBuffers_empty_def)
  have second: "list_all (batch_ok_clip getAreaTexCoords fss options atlas clip
                     (snapped options offset0) glyphMeasures)
           (snd (page_step_clip getAreaTexCoords fss options atlas colors clip glyphMeasures st
                   texIdx))"
  proof (cases "curIdx ?buf = 0")
    case True
    then show ?thesis using assms(2) by (simp add: page_step_clip_def Let_def)
  next
    case False
    have "\<not> (\<forall>it\<in>set ?its.
              \<not> survives_clip getAreaTexCoords fss options atlas clip ?offset texIdx (snd it))"
    proof
      assume "\<forall>it\<in>set ?its.
                \<not> survives_clip getAreaTexCoords fss options atlas clip ?offset texIdx (snd it)"
      then have "?buf = GlyphBuffers_empty"
        by (rule draw_page_clip_none)
      then show False using False by (simp add: GlyphBuffers_empty_def)
    qed
    then obtain it where it: "it \<in> set ?its"
      "survives_clip getAreaTexCoords fss options atlas clip ?offset texIdx (snd it)"
      by blast
    obtain k m where km: "it = (k, m)"
      by (cases it)
    have "m \<in> set glyphMeasures"
      using it(1) km by (auto dest: set_zip_rightD)
    moreover have "survives_clip getAreaTexCoords fss options atlas clip
                     (snapped options offset0) texIdx m"
      using it(2) km off by simp
    ultimately have ex: "list_ex (survives_clip getAreaTexCoords fss options atlas clip
                                    (snapped options offset0) texIdx) glyphMeasures"
      by (auto simp: list_ex_iff)
    have "batch_ok_clip getAreaTexCoords fss options atlas clip (snapped options offset0)
            glyphMeasures (batch_of texIdx ?buf)"
      using filled False ex by (simp add: batch_ok_clip_def batch_of_def buffers_filled_def)
    then show ?thesis
      using assms(2) False by (simp add: page_step_clip_def Let_def)
  qed
  show ?thesis using first second by (rule conjI)
qed

lemma pages_clip_ok:
  "snapped options (fst st) = snapped options offset0 \<Longrightarrow>
   list_all (batch_ok_clip getAreaTexCoords fss options atlas clip (snapped options offset0)
               glyphMeasures) (snd st) \<Longrightarrow>
   list_all (batch_ok_clip getAreaTexCoords fss options atlas clip (snapped options offset0)
               glyphMeasures)
     (snd (foldl (page_step_clip getAreaTexCoords fss options atlas colors clip glyphMeasures)
             st pages))"
proof (induction pages arbitrary: st)
  case Nil
  then show ?case by simp
next
  case (Cons texIdx pages)
  show ?case
    using Cons.IH page_step_clip_ok [OF Cons.prems] by simp
qed

text \<open>
  C9: in either overload of \<^verbatim>\<open>drawGlyphs\<close> a placement whose glyph has no entry in the
  atlas's glyph map leaves the buffers of the page as they are, and the call returns
  without an error (the only failure of the model is the assertion on the number of
  colours). Every draw call issued has vertices, texture coordinates and indices, and
  belongs to a page on which a placement survives the filters: a page without a surviving
  placement contributes no call.
\<close>

theorem drawGlyphs_skips:
  "(mGlyphMap atlas g = None \<longrightarrow>
      draw_glyph_baseline getAreaTexCoords fss options atlas colors texIdx origin buf
        (i, g, pos) = buf \<and>
      draw_glyph_clip getAreaTexCoords fss options atlas colors clip texIdx origin buf
        (i, g, pos) = buf) \<and>
   (colors = [] \<or> length glyphMeasures = length colors \<longrightarrow>
      (\<exists>batches.
         drawGlyphs_baseline getAreaTexCoords font atlas glyphMeasures origin options colors
           = Inr batches \<and>
         (\<forall>b\<in>set batches.
            b_verts b \<noteq> [] \<and> b_texCoords b \<noteq> [] \<and> b_indices b \<noteq> [] \<and>
            (\<exists>m\<in>set glyphMeasures. survives_baseline atlas (b_texture b) (fst m)))) \<and>
      (\<exists>batches.
         drawGlyphs_clip getAreaTexCoords font atlas glyphMeasures clip origin options colors
           = Inr batches \<and>
         (\<forall>b\<in>set batches.
            b_verts b \<noteq> [] \<and> b_texCoords b \<noteq> [] \<and> b_indices b \<noteq> [] \<and>
            (\<exists>m\<in>set glyphMeasures.
               survives_clip getAreaTexCoords (fdiv (font_mSize font) (Fin 32)) options atlas clip
                 (snapped options origin) (b_texture b) m))))"
proof (intro conjI impI)
  assume "mGlyphMap atlas g = None"
  then show "draw_glyph_baseline getAreaTexCoords fss options atlas colors texIdx origin buf
        (i, g, pos) = buf"
    and "draw_glyph_clip getAreaTexCoords fss options atlas colors clip texIdx origin buf
        (i, g, pos) = buf"
    by (simp_all add: draw_glyph_baseline_def draw_glyph_clip_def)
next
  assume c: "colors = [] \<or> length glyphMeasures = length colors"
  let ?batches = "if mTextures atlas = [] then []
     else snd (foldl (page_step_baseline getAreaTexCoords (fdiv (font_mSize font) (Fin 32)) options atlas
                        colors glyphMeasures) (origin, []) [0..<length (mTextures atlas)])"
  have eq: "drawGlyphs_baseline getAreaTexCoords font atlas glyphMeasures origin options
              colors = Inr ?batches"
    using c by (auto simp: drawGlyphs_baseline_def)
  have "list_all (batch_ok atlas glyphMeasures) ?batches"
    by (simp add: pages_baseline_ok)
  then have "\<forall>b\<in>set ?batches.
            b_verts b \<noteq> [] \<and> b_texCoords b \<noteq> [] \<and> b_indices b \<noteq> [] \<and>
            (\<exists>m\<in>set glyphMeasures. survives_baseline atlas (b_texture b) (fst m))"
    unfolding list_all_iff batch_ok_def list_ex_iff by blast
  then show "\<exists>batches.
         drawGlyphs_baseline getAreaTexCoords font atlas glyphMeasures origin options colors
           = Inr batches \<and>
         (\<forall>b\<in>set batches.
            b_verts b \<noteq> [] \<and> b_texCoords b \<noteq> [] \<and> b_indices b \<noteq> [] \<and>
            (\<exists>m\<in>set glyphMeasures. survives_baseline atlas (b_texture b) (fst m)))"
    using eq by blast
next
  assume c: "colors = [] \<or> length glyphMeasures = length colors"
  let ?batches = "if mTextures atlas = [] then []
     else snd (foldl (page_step_clip getAreaTexCoords (fdiv (font_mSize font) (Fin 32)) options atlas
                        colors clip glyphMeasures) (origin, []) [0..<length (mTextures atlas)])"
  have eq: "drawGlyphs_clip getAreaTexCoords font atlas glyphMeasures clip origin options
              colors = Inr ?batches"
    using c by (auto simp: drawGlyphs_clip_def)
  have "list_all (batch_ok_clip getAreaTexCoords (fdiv (font_mSize font) (Fin 32)) options atlas clip
                    (snapped options origin) glyphMeasures) ?batches"
    by (simp add: pages_clip_ok)
  then have "\<forall>b\<in>set ?batches.
            b_verts b \<noteq> [] \<and> b_texCoords b \<noteq> [] \<and> b_indices b \<noteq> [] \<and>
            (\<exists>m\<in>set glyphMeasures.
               survives_clip getAreaTexCoords (fdiv (font_mSize font) (Fin 32)) options atlas clip
                 (snapped options origin) (b_texture b) m)"
    unfolding list_all_iff batch_ok_clip_def list_ex_iff by blast
  then show "\<exists>batches.
         drawGlyphs_clip getAreaTexCoords font atlas glyphMeasures clip origin options colors
           = Inr batches \<and>
         (\<forall>b\<in>set batches.
            b_verts b \<noteq> [] \<and> b_texCoords b \<noteq> [] \<and> b_indices b \<noteq> [] \<and>
            (\<exists>m\<in>set glyphMeasures.
               survives_clip getAreaTexCoords (fdiv (font_mSize font) (Fin 32)) options atlas clip
                 (snapped options origin) (b_texture b) m))"
    using eq by blast
qed

text \<open>
  The atlas \<open>example_atlas\<close> has no entry for the letter A (glyph 65): its placement emits
  nothing, and drawing it alone issues no call, with either overload.
\<close>

theorem drawGlyphs_skips_witness:
  "draw_glyph_baseline normalized_texCoords (Fin 1) example_options example_atlas [] 0 (Fin 100, Fin 200)
     GlyphBuffers_empty (0, 65, (Fin (1 / 2), Fin 0)) = GlyphBuffers_empty \<and>
   drawGlyphs_baseline normalized_texCoords font32 example_atlas [(65, (Fin (1 / 2), Fin 0))] (Fin 100, Fin 200)
     example_options [] = Inr [] \<and>
   drawGlyphs_clip normalized_texCoords font32 example_atlas [(65, (Fin (1 / 2), Fin 0))] wide_clip
     (Fin 100, Fin 200) example_options [] = Inr []"
proof -
  have none: "mGlyphMap example_atlas 65 = None"
    by (simp add: example_atlas_def)
  note skips = drawGlyphs_skips [of example_atlas 65 normalized_texCoords "Fin 1"
      example_options "[]" 0 "(Fin 100, Fin 200)" GlyphBuffers_empty 0 "(Fin (1 / 2), Fin 0)" wide_clip
      "[(65, (Fin (1 / 2), Fin 0))]" font32]
  have first: "draw_glyph_baseline normalized_texCoords (Fin 1) example_options example_atlas [] 0
     (Fin 100, Fin 200) GlyphBuffers_empty (0, 65, (Fin (1 / 2), Fin 0)) = GlyphBuffers_empty"
    using skips none by simp
  obtain batches where b:
    "drawGlyphs_baseline normalized_texCoords font32 example_atlas [(65, (Fin (1 / 2), Fin 0))] (Fin 100, Fin 200)
       example_options [] = Inr batches"
    "\<forall>b\<in>set batches. survives_baseline example_atlas (b_texture b) 65"
    using skips by auto
  have "batches = []"
    using b(2) none by (cases batches) (auto simp: survives_baseline_def)
  then have second: "drawGlyphs_baseline normalized_texCoords font32 example_atlas
     [(65, (Fin (1 / 2), Fin 0))] (Fin 100, Fin 200) example_options [] = Inr []"
    using b(1) by simp
  obtain batches' where b':
    "drawGlyphs_clip normalized_texCoords font32 example_atlas [(65, (Fin (1 / 2), Fin 0))] wide_clip
       (Fin 100, Fin 200) example_options [] = Inr batches'"
    "\<forall>b\<in>set batches'. survives_clip normalized_texCoords (fdiv (font_mSize font32) (Fin 32))
        example_options example_atlas wide_clip (snapped example_options (Fin 100, Fin 200))
        (b_texture b) (65, (Fin (1 / 2), Fin 0))"
    using skips by auto
  have "batches' = []"
    using b'(2) none by (cases batches') (auto simp: survives_clip_def)
  then have third: "drawGlyphs_clip normalized_texCoords font32 example_atlas
     [(65, (Fin (1 / 2), Fin 0))] wide_clip (Fin 100, Fin 200) example_options [] = Inr []"
    using b'(1) by simp
  show ?thesis
    using first second third by simp
qed

end
